theory Spec2Isabelle
  imports Complex_Main
begin

section \<open>JavaScript primitives used by the timers\<close>

text \<open>
  The repository holds three implementations of the same stopwatch/countdown page:
  \<^item> the class-based one (\<open>Timer\<close>, \<open>CountdownTimer\<close>, \<open>UIController\<close>),
  \<^item> the procedural one (globals \<open>swStart\<close>, \<open>cdDigits\<close>, \<open>cdMilliseconds\<close>, handlers
    assigned to \<open>onclick\<close>),
  \<^item> the one built on \<open>TimerBase\<close> (\<open>Stopwatch\<close>, \<open>Countdown\<close>, \<open>ViewManager\<close>).

  JavaScript numbers are IEEE doubles. Every integer of magnitude below \<open>2^53\<close> is a double,
  and sums, differences, products and remainders of such integers are exact as long as the
  result stays below \<open>2^53\<close>; clock readings and durations do, and the model keeps them
  as integers. A quotient \<open>a / b\<close> is in general not an integer: the model rounds it to the
  nearest double, ties to even (\<open>double_div\<close>), before \<open>Math.floor\<close> is applied.
  \<open>Date.now()\<close> is a parameter \<open>now\<close> of the operation that reads it, and \<open>a % b\<close> is
  \<open>js_rem a b\<close>, whose sign follows the dividend; it is exact in doubles.
\<close>

definition js_rem :: "int \<Rightarrow> int \<Rightarrow> int" where
  "js_rem a b = sgn a * (\<bar>a\<bar> mod \<bar>b\<bar>)"

text \<open>
  Division of an integer \<open>a\<close> (itself a double) by a positive integer constant \<open>b\<close>. The
  exact quotient is scaled by a power of two into the range of 53-bit significands,
  \<open>2^52 \<le> |a / b| / 2^e < 2^53\<close>, rounded there to the nearest integer, ties to the even one,
  and scaled back. \<open>bit_length a\<close> is the number of binary digits of \<open>a\<close>. Overflow and
  subnormal numbers are far away from every value the timers divide.
\<close>

function bit_length :: "int \<Rightarrow> int" where
  "bit_length a = (if a \<le> 0 then 0 else 1 + bit_length (a div 2))"
  by pat_completeness auto
termination
  by (relation "measure nat") auto

declare bit_length.simps [simp del]

definition round_half_even :: "rat \<Rightarrow> int" where
  "round_half_even y =
     (let f = \<lfloor>y\<rfloor>; d = y - of_int f
      in if d < 1 / 2 then f else if 1 / 2 < d then f + 1 else if even f then f else f + 1)"

definition double_exponent :: "int \<Rightarrow> int \<Rightarrow> int" where
  "double_exponent a b =
     (let k = bit_length a - bit_length b
      in (if of_int b * 2 powi k \<le> (of_int a :: rat) then k else k - 1) - 52)"

definition double_div :: "int \<Rightarrow> int \<Rightarrow> rat" where
  "double_div a b =
     (if a = 0 then 0
      else let e = double_exponent \<bar>a\<bar> b
           in of_int (sgn a * round_half_even (of_int \<bar>a\<bar> / of_int b / 2 powi e)) * 2 powi e)"

definition Math_floor :: "rat \<Rightarrow> int" where
  "Math_floor x = \<lfloor>x\<rfloor>"

text \<open>The character of a decimal digit: the code of \<open>0\<close> is 48.\<close>

definition digit_char :: "nat \<Rightarrow> char" where
  "digit_char d = char_of (48 + d mod 10)"

fun string_of_nat :: "nat \<Rightarrow> string" where
  "string_of_nat n =
     (if n < 10 then [digit_char n] else string_of_nat (n div 10) @ [digit_char (n mod 10)])"

declare string_of_nat.simps [simp del]

text \<open>\<open>String(n)\<close> and \<open>n.toString()\<close> of an integer of magnitude below \<open>2^53\<close>: its decimal
  digits, with a minus sign when negative.\<close>

definition Number_toString :: "int \<Rightarrow> string" where
  "Number_toString i =
     (if i < 0 then CHR ''-'' # string_of_nat (nat (- i)) else string_of_nat (nat i))"

text \<open>\<open>s.padStart(n, c)\<close> with a one-character pad string.\<close>

definition padStart :: "nat \<Rightarrow> char \<Rightarrow> string \<Rightarrow> string" where
  "padStart n c s = replicate (n - length s) c @ s"


section \<open>The three time formatters\<close>

subsection \<open>\<open>Timer.formatTime\<close> (class-based implementation)\<close>

record time_fields =
  hours :: string
  minutes :: string
  seconds :: string
  milliseconds :: string
  formatted :: string
  fullFormatted :: string

definition Timer_formatTime :: "int \<Rightarrow> time_fields" where
  "Timer_formatTime n =
     (let totalSeconds = Math_floor (double_div n 1000);
          h = padStart 2 CHR ''0'' (Number_toString (Math_floor (double_div totalSeconds 3600)));
          m = padStart 2 CHR ''0''
                (Number_toString (Math_floor (double_div (js_rem totalSeconds 3600) 60)));
          s = padStart 2 CHR ''0'' (Number_toString (js_rem totalSeconds 60));
          f = padStart 3 CHR ''0'' (Number_toString (js_rem n 1000))
      in \<lparr> hours = h, minutes = m, seconds = s, milliseconds = f,
           formatted = h @ '':'' @ m @ '':'' @ s,
           fullFormatted = h @ '':'' @ m @ '':'' @ s @ ''.'' @ f \<rparr>)"

subsection \<open>\<open>formatTime\<close> (procedural implementation)\<close>

record time_and_ms =
  time :: string
  ms :: string

definition pad :: "int \<Rightarrow> string" where
  "pad n = padStart 2 CHR ''0'' (Number_toString n)"

definition formatTime :: "int \<Rightarrow> time_and_ms" where
  "formatTime n =
     (let milliseconds' = js_rem n 1000;
          totalSeconds = Math_floor (double_div n 1000);
          hours' = Math_floor (double_div totalSeconds 3600);
          minutes' = Math_floor (double_div (js_rem totalSeconds 3600) 60);
          seconds' = js_rem totalSeconds 60
      in \<lparr> time = pad hours' @ '':'' @ pad minutes' @ '':'' @ pad seconds',
           ms = ''.'' @ padStart 3 CHR ''0'' (Number_toString milliseconds') \<rparr>)"

subsection \<open>\<open>TimerBase.formatTime\<close>\<close>

definition pad_len :: "int \<Rightarrow> nat \<Rightarrow> string" where
  "pad_len num len = padStart len CHR ''0'' (Number_toString num)"

definition TimerBase_formatTime :: "int \<Rightarrow> string" where
  "TimerBase_formatTime n0 =
     (let n = max 0 n0;
          hours' = Math_floor (double_div n 3600000);
          minutes' = Math_floor (double_div (js_rem n 3600000) 60000);
          seconds' = Math_floor (double_div (js_rem n 60000) 1000);
          milliseconds' = js_rem n 1000
      in pad_len hours' 2 @ '':'' @ pad_len minutes' 2 @ '':'' @ pad_len seconds' 2 @ ''.''
           @ padStart 3 CHR ''0'' (Number_toString milliseconds'))"

subsection \<open>The formatter as the specification words it\<close>

text \<open>
  The specification's contract: \<open>hours = floor(ms / 3,600,000)\<close>,
  \<open>minutes = floor((ms mod 3,600,000) / 60,000)\<close>, \<open>seconds = floor((ms mod 60,000) / 1000)\<close>,
  \<open>millis = ms mod 1000\<close>; hours, minutes and seconds zero-padded to 2 digits and millis to 3.
\<close>

definition spec_hours :: "int \<Rightarrow> int" where
  "spec_hours n = n div 3600000"

definition spec_minutes :: "int \<Rightarrow> int" where
  "spec_minutes n = (n mod 3600000) div 60000"

definition spec_seconds :: "int \<Rightarrow> int" where
  "spec_seconds n = (n mod 60000) div 1000"

definition spec_millis :: "int \<Rightarrow> int" where
  "spec_millis n = n mod 1000"

definition zero_padded :: "nat \<Rightarrow> int \<Rightarrow> string" where
  "zero_padded w v = replicate (w - length (string_of_nat (nat v))) CHR ''0'' @ string_of_nat (nat v)"

definition spec_compact :: "int \<Rightarrow> string" where
  "spec_compact n =
     zero_padded 2 (spec_hours n) @ '':'' @ zero_padded 2 (spec_minutes n) @ '':''
       @ zero_padded 2 (spec_seconds n)"

definition spec_withMillis :: "int \<Rightarrow> string" where
  "spec_withMillis n = spec_compact n @ ''.'' @ zero_padded 3 (spec_millis n)"


section \<open>String primitives of the digit buffers\<close>

text \<open>\<open>s.slice(-n)\<close>: the last \<open>n\<close> characters, the whole string when it is shorter.\<close>

definition slice_last :: "nat \<Rightarrow> 'a list \<Rightarrow> 'a list" where
  "slice_last n s = drop (length s - n) s"

text \<open>\<open>s.substring(a, b)\<close> and \<open>s.slice(a, b)\<close> for constants \<open>0 \<le> a \<le> b\<close>: both stop at the
  end of the string.\<close>

definition substring :: "nat \<Rightarrow> nat \<Rightarrow> string \<Rightarrow> string" where
  "substring a b s = take (b - a) (drop a s)"

text \<open>The characters \<open>0\<close> to \<open>9\<close> have the codes 48 to 57.\<close>

definition is_digit :: "char \<Rightarrow> bool" where
  "is_digit c = (48 \<le> (of_char c :: nat) \<and> (of_char c :: nat) \<le> 57)"

definition digit_value :: "char \<Rightarrow> nat" where
  "digit_value c = of_char c - 48"

definition decimal :: "string \<Rightarrow> nat" where
  "decimal s = foldl (\<lambda>a c. 10 * a + digit_value c) 0 s"

text \<open>
  \<open>parseInt(s)\<close> and \<open>parseInt(s, 10)\<close>. On a non-empty string of decimal digits both return
  its decimal value. Every other string is outside the model (JavaScript returns \<open>NaN\<close> or
  the value of a prefix, and \<open>NaN\<close> would then flow through the arithmetic): the result is
  \<open>None\<close>, and so is the result of the operation that called \<open>parseInt\<close>. The keypads
  send the digits 0 to 9 only, so the buffers hold digits only.
\<close>

definition parseInt :: "string \<Rightarrow> int option" where
  "parseInt s = (if s \<noteq> [] \<and> list_all is_digit s then Some (int (decimal s)) else None)"


section \<open>Class-based implementation: \<open>Timer\<close>, \<open>CountdownTimer\<close>, \<open>UIController\<close>\<close>

text \<open>
  The animation-frame handle only schedules the next call of \<open>_update\<close>; the model takes
  each call of \<open>_update\<close> as an event carrying the clock value it reads, and leaves the handle
  out. The two clock reads inside one call of \<open>start\<close> return the same value. What a method
  writes with \<open>console.warn\<close> is appended to the \<open>warnings\<close> field.
\<close>

subsection \<open>\<open>Timer\<close> (the stopwatch engine)\<close>

record Timer =
  t_startTime :: int
  t_elapsedTime :: int
  t_isRunning :: bool
  t_warnings :: "string list"

definition Timer_new :: Timer where
  "Timer_new = \<lparr> t_startTime = 0, t_elapsedTime = 0, t_isRunning = False, t_warnings = [] \<rparr>"

definition Timer_update :: "int \<Rightarrow> Timer \<Rightarrow> Timer" where
  "Timer_update now t =
     (if \<not> t_isRunning t then t else t\<lparr> t_elapsedTime := now - t_startTime t \<rparr>)"

definition Timer_start :: "int \<Rightarrow> Timer \<Rightarrow> Timer" where
  "Timer_start now t =
     (if t_isRunning t then t\<lparr> t_warnings := t_warnings t @ [''Timer is already running''] \<rparr>
      else Timer_update now (t\<lparr> t_isRunning := True, t_startTime := now - t_elapsedTime t \<rparr>))"

definition Timer_stop :: "Timer \<Rightarrow> Timer" where
  "Timer_stop t =
     (if \<not> t_isRunning t then t\<lparr> t_warnings := t_warnings t @ [''Timer is not running''] \<rparr>
      else t\<lparr> t_isRunning := False \<rparr>)"

definition Timer_reset :: "Timer \<Rightarrow> Timer" where
  "Timer_reset t = (Timer_stop t)\<lparr> t_elapsedTime := 0 \<rparr>"

definition Stopwatch_getTime :: "Timer \<Rightarrow> string" where
  "Stopwatch_getTime t = formatted (Timer_formatTime (t_elapsedTime t))"

definition Stopwatch_getTimeWithMs :: "Timer \<Rightarrow> string" where
  "Stopwatch_getTimeWithMs t = fullFormatted (Timer_formatTime (t_elapsedTime t))"

subsection \<open>\<open>CountdownTimer\<close>\<close>

record CountdownTimer =
  initialTime :: int
  remainingTime :: int
  isRunning :: bool
  startTime :: int
  hasExpired :: bool
  warnings :: "string list"

datatype js_error = Error string

definition CountdownTimer_new :: CountdownTimer where
  "CountdownTimer_new =
     \<lparr> initialTime = 0, remainingTime = 0, isRunning = False, startTime = 0,
       hasExpired = False, warnings = [] \<rparr>"

definition CountdownTimer_setTime :: "int \<Rightarrow> CountdownTimer \<Rightarrow> js_error + CountdownTimer" where
  "CountdownTimer_setTime n c =
     (if n \<le> 0 then Inl (Error ''Countdown time must be positive'')
      else Inr (c\<lparr> initialTime := n, remainingTime := n, hasExpired := False \<rparr>))"

definition CountdownTimer_update :: "int \<Rightarrow> CountdownTimer \<Rightarrow> CountdownTimer" where
  "CountdownTimer_update now c =
     (if \<not> isRunning c then c
      else let elapsed = now - startTime c;
               c1 = c\<lparr> remainingTime := max 0 (initialTime c - elapsed) \<rparr>
           in if remainingTime c1 \<le> 0
              then c1\<lparr> isRunning := False, remainingTime := 0, hasExpired := True \<rparr>
              else c1)"

definition CountdownTimer_start :: "int \<Rightarrow> CountdownTimer \<Rightarrow> CountdownTimer" where
  "CountdownTimer_start now c =
     (if isRunning c then c\<lparr> warnings := warnings c @ [''Countdown is already running''] \<rparr>
      else if remainingTime c \<le> 0
      then c\<lparr> warnings := warnings c @ [''Countdown time is not set or expired''] \<rparr>
      else CountdownTimer_update now (c\<lparr> isRunning := True, startTime := now, hasExpired := False \<rparr>))"

definition CountdownTimer_stop :: "CountdownTimer \<Rightarrow> CountdownTimer" where
  "CountdownTimer_stop c =
     (if \<not> isRunning c then c\<lparr> warnings := warnings c @ [''Countdown is not running''] \<rparr>
      else c\<lparr> isRunning := False \<rparr>)"

definition CountdownTimer_reset :: "CountdownTimer \<Rightarrow> CountdownTimer" where
  "CountdownTimer_reset c =
     (let c1 = CountdownTimer_stop c in c1\<lparr> remainingTime := initialTime c1, hasExpired := False \<rparr>)"

definition CountdownTimer_clear :: "CountdownTimer \<Rightarrow> CountdownTimer" where
  "CountdownTimer_clear c =
     (CountdownTimer_stop c)\<lparr> initialTime := 0, remainingTime := 0, hasExpired := False \<rparr>"

definition CountdownTimer_getTimeWithMs :: "CountdownTimer \<Rightarrow> string" where
  "CountdownTimer_getTimeWithMs c = fullFormatted (Timer_formatTime (remainingTime c))"

definition CountdownTimer_isExpired :: "CountdownTimer \<Rightarrow> bool" where
  "CountdownTimer_isExpired c = hasExpired c"

subsection \<open>\<open>UIController\<close>: the countdown half\<close>

text \<open>
  The record holds what the countdown methods of \<open>UIController\<close> read and write: the input
  sequence, the timer, the expiration flag, the \<open>hidden\<close> class of the elements involved, the
  text of the countdown display (the markup around the milliseconds is left out) and, in
  \<open>alerts\<close>, every call of \<open>showAlert(message, type)\<close>, oldest first. \<open>sounds\<close> counts
  the calls of \<open>_playCompletionSound\<close>.
\<close>

record UIController =
  inputSequence :: string
  countdownTimer :: CountdownTimer
  countdownExpired :: bool
  countdownDisplay :: string
  countdownScreen_hidden :: bool
  countdownInput_hidden :: bool
  countdownControls_hidden :: bool
  startCountdownBtn_hidden :: bool
  pauseCountdownBtn_hidden :: bool
  continueCountdownBtn_hidden :: bool
  clearCountdownBtn_hidden :: bool
  alerts :: "(string \<times> string) list"
  sounds :: nat

definition showAlert :: "string \<Rightarrow> string \<Rightarrow> UIController \<Rightarrow> UIController" where
  "showAlert message type ui = ui\<lparr> alerts := alerts ui @ [(message, type)] \<rparr>"

definition input_display :: "string \<Rightarrow> string" where
  "input_display sq =
     (let padded = padStart 6 CHR ''0'' sq;
          h = substring 0 2 padded;
          m = substring 2 4 padded;
          s = substring 4 6 padded
      in h @ '':'' @ m @ '':'' @ s @ ''.000'')"

definition handleNumberInput :: "string \<Rightarrow> UIController \<Rightarrow> UIController" where
  "handleNumberInput number ui =
     (let sq = slice_last 6 (inputSequence ui @ number)
      in ui\<lparr> inputSequence := sq, countdownDisplay := input_display sq \<rparr>)"

definition handleBackspace :: "UIController \<Rightarrow> UIController" where
  "handleBackspace ui =
     (let sq = butlast (inputSequence ui)
      in ui\<lparr> inputSequence := sq, countdownDisplay := input_display sq \<rparr>)"

definition clearCountdownInput :: "UIController \<Rightarrow> UIController" where
  "clearCountdownInput ui = ui\<lparr> inputSequence := [], countdownDisplay := ''00:00:00.000'' \<rparr>"

definition setCountdownTime :: "UIController \<Rightarrow> UIController option" where
  "setCountdownTime ui =
     (let padded = padStart 6 CHR ''0'' (inputSequence ui)
      in case (parseInt (substring 0 2 padded), parseInt (substring 2 4 padded),
               parseInt (substring 4 6 padded)) of
           (Some h, Some m, Some s) \<Rightarrow>
             (let totalMs = (h * 3600 + m * 60 + s) * 1000
              in if totalMs \<le> 0
                 then Some (showAlert ''Please enter a valid time greater than zero'' ''error'' ui)
                 else (case CountdownTimer_setTime totalMs (countdownTimer ui) of
                         Inl e \<Rightarrow>
                           Some (showAlert ''Please enter a valid time greater than zero'' ''error'' ui)
                       | Inr c \<Rightarrow>
                           Some (ui\<lparr> countdownTimer := c, countdownInput_hidden := True,
                                     countdownControls_hidden := False,
                                     startCountdownBtn_hidden := False,
                                     clearCountdownBtn_hidden := False,
                                     countdownExpired := False \<rparr>)))
         | _ \<Rightarrow> None)"

definition startCountdown :: "int \<Rightarrow> UIController \<Rightarrow> UIController" where
  "startCountdown now ui =
     ui\<lparr> countdownTimer := CountdownTimer_start now (countdownTimer ui),
         startCountdownBtn_hidden := True, pauseCountdownBtn_hidden := False,
         countdownExpired := False \<rparr>"

definition pauseCountdown :: "UIController \<Rightarrow> UIController" where
  "pauseCountdown ui =
     ui\<lparr> countdownTimer := CountdownTimer_stop (countdownTimer ui),
         pauseCountdownBtn_hidden := True, continueCountdownBtn_hidden := False \<rparr>"

definition continueCountdown :: "int \<Rightarrow> UIController \<Rightarrow> UIController" where
  "continueCountdown now ui =
     ui\<lparr> countdownTimer := CountdownTimer_start now (countdownTimer ui),
         continueCountdownBtn_hidden := True, pauseCountdownBtn_hidden := False \<rparr>"

definition resetCountdownUI :: "UIController \<Rightarrow> UIController" where
  "resetCountdownUI ui =
     clearCountdownInput
       (ui\<lparr> countdownInput_hidden := False, countdownControls_hidden := True,
            startCountdownBtn_hidden := True, pauseCountdownBtn_hidden := True,
            continueCountdownBtn_hidden := True, clearCountdownBtn_hidden := True \<rparr>)"

definition clearCountdown :: "UIController \<Rightarrow> UIController" where
  "clearCountdown ui =
     showAlert ''Countdown has been cleared'' ''success''
       (resetCountdownUI (ui\<lparr> countdownTimer := CountdownTimer_clear (countdownTimer ui) \<rparr>))"

text \<open>The countdown half of \<open>_updateDisplays\<close>, one call per animation frame.\<close>

definition updateDisplays :: "UIController \<Rightarrow> UIController" where
  "updateDisplays ui =
     (if \<not> countdownScreen_hidden ui \<and> \<not> countdownControls_hidden ui
      then let ui1 = ui\<lparr> countdownDisplay := CountdownTimer_getTimeWithMs (countdownTimer ui) \<rparr>
           in if CountdownTimer_isExpired (countdownTimer ui1) \<and> \<not> countdownExpired ui1
              then showAlert ''Countdown has expired!'' ''warning''
                     (ui1\<lparr> countdownTimer := CountdownTimer_stop (countdownTimer ui1),
                           pauseCountdownBtn_hidden := True, startCountdownBtn_hidden := False,
                           sounds := Suc (sounds ui1) \<rparr>)
                     \<lparr> countdownExpired := True \<rparr>
              else ui1
      else ui)"


section \<open>Procedural implementation: globals and \<open>onclick\<close> handlers\<close>

text \<open>
  The record \<open>page\<close> holds the script's global variables, the browser's table of live
  intervals (\<open>setInterval\<close> adds an entry and returns its handle, \<open>clearInterval\<close> removes
  it), the text of the display elements, the \<open>hidden\<close> class of the buttons and groups, and
  the messages passed to \<open>alert\<close>. \<open>swStart\<close> and \<open>cdEnd\<close> are declared without a value
  and are read only after a Start or Continue handler has assigned them.
\<close>

datatype callback = UpdateStopwatch | RunCountdown

record page =
  swStart :: int
  swElapsed :: int
  swInterval :: "nat option"
  cdDigits :: string
  cdMilliseconds :: int
  cdEnd :: int
  cdInterval :: "nat option"
  intervals :: "(nat \<times> callback) list"
  nextHandle :: nat
  swDisplay :: string
  swMs :: string
  cdDisplay :: string
  cdMs :: string
  swStartBtn_hidden :: bool
  swPauseBtn_hidden :: bool
  swContBtn_hidden :: bool
  cdInputControls_hidden :: bool
  cdSetBtn_hidden :: bool
  cdClearInputBtn_hidden :: bool
  cdControls_hidden :: bool
  cdStartBtn_hidden :: bool
  cdPauseBtn_hidden :: bool
  cdContBtn_hidden :: bool
  page_alerts :: "string list"

definition setInterval :: "callback \<Rightarrow> page \<Rightarrow> nat \<times> page" where
  "setInterval cb p =
     (nextHandle p,
      p\<lparr> intervals := intervals p @ [(nextHandle p, cb)], nextHandle := Suc (nextHandle p) \<rparr>)"

definition clearInterval :: "nat option \<Rightarrow> page \<Rightarrow> page" where
  "clearInterval h p =
     (case h of None \<Rightarrow> p
      | Some i \<Rightarrow> p\<lparr> intervals := filter (\<lambda>e. fst e \<noteq> i) (intervals p) \<rparr>)"

definition alert :: "string \<Rightarrow> page \<Rightarrow> page" where
  "alert message p = p\<lparr> page_alerts := page_alerts p @ [message] \<rparr>"

subsection \<open>Stopwatch\<close>

definition updateStopwatch :: "int \<Rightarrow> page \<Rightarrow> page" where
  "updateStopwatch now p =
     (let elapsed = now - swStart p + swElapsed p;
          f = formatTime elapsed
      in p\<lparr> swDisplay := time f, swMs := ms f \<rparr>)"

definition swStartBtn_onclick :: "int \<Rightarrow> page \<Rightarrow> page" where
  "swStartBtn_onclick now p =
     (let (h, p1) = setInterval UpdateStopwatch (p\<lparr> swStart := now \<rparr>)
      in p1\<lparr> swInterval := Some h, swStartBtn_hidden := True, swPauseBtn_hidden := False \<rparr>)"

definition swPauseBtn_onclick :: "int \<Rightarrow> page \<Rightarrow> page" where
  "swPauseBtn_onclick now p =
     (let p1 = clearInterval (swInterval p) p
      in p1\<lparr> swElapsed := swElapsed p1 + (now - swStart p1),
             swPauseBtn_hidden := True, swContBtn_hidden := False \<rparr>)"

definition swContBtn_onclick :: "int \<Rightarrow> page \<Rightarrow> page" where
  "swContBtn_onclick now p =
     (let (h, p1) = setInterval UpdateStopwatch (p\<lparr> swStart := now \<rparr>)
      in p1\<lparr> swInterval := Some h, swContBtn_hidden := True, swPauseBtn_hidden := False \<rparr>)"

definition swClearBtn_onclick :: "page \<Rightarrow> page" where
  "swClearBtn_onclick p =
     (clearInterval (swInterval p) p)
       \<lparr> swDisplay := ''00:00:00'', swMs := ''.000'', swElapsed := 0,
         swStartBtn_hidden := False, swPauseBtn_hidden := True, swContBtn_hidden := True \<rparr>"

subsection \<open>Countdown\<close>

definition updateCountdownDisplay :: "page \<Rightarrow> page" where
  "updateCountdownDisplay p =
     (let padded = padStart 6 CHR ''0'' (cdDigits p);
          h = substring 0 2 padded;
          m = substring 2 4 padded;
          s = substring 4 6 padded
      in p\<lparr> cdDisplay := h @ '':'' @ m @ '':'' @ s, cdMs := ''.000'' \<rparr>)"

text \<open>The handler of the button created for \<open>i\<close> by the loop \<open>for (let i = 0; i <= 9; i++)\<close>.\<close>

definition digit_onclick :: "nat \<Rightarrow> page \<Rightarrow> page" where
  "digit_onclick i p =
     (if length (cdDigits p) \<ge> 6 then p
      else updateCountdownDisplay (p\<lparr> cdDigits := cdDigits p @ Number_toString (int i) \<rparr>))"

definition getCountdownMilliseconds :: "page \<Rightarrow> int option" where
  "getCountdownMilliseconds p =
     (let padded = padStart 6 CHR ''0'' (cdDigits p)
      in case (parseInt (substring 0 2 padded), parseInt (substring 2 4 padded),
               parseInt (substring 4 6 padded)) of
           (Some h, Some m, Some s) \<Rightarrow> Some ((h * 3600 + m * 60 + s) * 1000)
         | _ \<Rightarrow> None)"

definition cdSetBtn_onclick :: "page \<Rightarrow> page option" where
  "cdSetBtn_onclick p =
     (case getCountdownMilliseconds p of
        None \<Rightarrow> None
      | Some v \<Rightarrow>
          (let p1 = p\<lparr> cdMilliseconds := v \<rparr>
           in if cdMilliseconds p1 = 0 then Some (alert ''Set a valid time.'' p1)
              else Some (p1\<lparr> cdInputControls_hidden := True, cdSetBtn_hidden := True,
                              cdClearInputBtn_hidden := True, cdControls_hidden := False \<rparr>)))"

definition runCountdown :: "int \<Rightarrow> page \<Rightarrow> page" where
  "runCountdown now p =
     (let remaining = max 0 (cdEnd p - now);
          f = formatTime remaining;
          p1 = p\<lparr> cdDisplay := time f, cdMs := ms f \<rparr>
      in if remaining \<le> 0 then alert ''Time's up!'' (clearInterval (cdInterval p1) p1) else p1)"

definition cdStartBtn_onclick :: "int \<Rightarrow> page \<Rightarrow> page" where
  "cdStartBtn_onclick now p =
     (let (h, p1) = setInterval RunCountdown (p\<lparr> cdEnd := now + cdMilliseconds p \<rparr>)
      in p1\<lparr> cdInterval := Some h, cdStartBtn_hidden := True, cdPauseBtn_hidden := False \<rparr>)"

definition cdPauseBtn_onclick :: "int \<Rightarrow> page \<Rightarrow> page" where
  "cdPauseBtn_onclick now p =
     (let p1 = clearInterval (cdInterval p) p
      in p1\<lparr> cdMilliseconds := max 0 (cdEnd p1 - now),
             cdPauseBtn_hidden := True, cdContBtn_hidden := False \<rparr>)"

definition cdContBtn_onclick :: "int \<Rightarrow> page \<Rightarrow> page" where
  "cdContBtn_onclick now p =
     (let (h, p1) = setInterval RunCountdown (p\<lparr> cdEnd := now + cdMilliseconds p \<rparr>)
      in p1\<lparr> cdInterval := Some h, cdContBtn_hidden := True, cdPauseBtn_hidden := False \<rparr>)"

definition cdClearBtn_onclick :: "page \<Rightarrow> page" where
  "cdClearBtn_onclick p =
     (clearInterval (cdInterval p) p)
       \<lparr> cdDigits := [], cdMilliseconds := 0, cdDisplay := ''00:00:00'', cdMs := ''.000'',
         cdControls_hidden := True, cdInputControls_hidden := False, cdSetBtn_hidden := False,
         cdClearInputBtn_hidden := False, cdStartBtn_hidden := False, cdPauseBtn_hidden := True,
         cdContBtn_hidden := True \<rparr>"

definition cdClearInputBtn_onclick :: "page \<Rightarrow> page" where
  "cdClearInputBtn_onclick p = updateCountdownDisplay (p\<lparr> cdDigits := [] \<rparr>)"

text \<open>The browser runs the callback of interval \<open>h\<close>, if that interval is live.\<close>

definition fire :: "nat \<Rightarrow> int \<Rightarrow> page \<Rightarrow> page" where
  "fire h now p =
     (case map_of (intervals p) h of
        None \<Rightarrow> p
      | Some UpdateStopwatch \<Rightarrow> updateStopwatch now p
      | Some RunCountdown \<Rightarrow> runCountdown now p)"


section \<open>\<open>TimerBase\<close> implementation: \<open>Stopwatch\<close> and \<open>Countdown\<close>\<close>

text \<open>
  \<open>start\<close> is the only method that calls \<open>setInterval\<close>, it returns early while
  \<open>isRunning\<close> holds, and every method that clears \<open>isRunning\<close> clears the interval in the
  same call; the field \<open>timerInterval\<close> is therefore modelled as the flag "the interval is
  live", and the interval's callback is the operation \<open>tick\<close>, which the browser runs only
  while the flag is set. The display is the pair of texts that \<open>updateDisplay\<close> writes into
  its two spans. \<open>ViewManager.showAlert(message)\<close> appends to the alerts field. Logging is
  left out.
\<close>

datatype button_state = Initial | Running | Paused

datatype control_state = Input | TimerControls

definition split_dot :: "string \<Rightarrow> string \<times> string" where
  "split_dot s =
     (takeWhile (\<lambda>c. c \<noteq> CHR ''.'') s,
      takeWhile (\<lambda>c. c \<noteq> CHR ''.'') (drop 1 (dropWhile (\<lambda>c. c \<noteq> CHR ''.'') s)))"

definition TimerBase_updateDisplay :: "int \<Rightarrow> string \<times> string" where
  "TimerBase_updateDisplay timeInMs = split_dot (TimerBase_formatTime timeInMs)"

subsection \<open>\<open>Stopwatch\<close>\<close>

record Stopwatch =
  s_startTime :: int
  s_elapsedTime :: int
  s_isRunning :: bool
  s_timerInterval :: bool
  s_display :: "string \<times> string"
  s_startBtn_hidden :: bool
  s_pauseBtn_hidden :: bool
  s_continueBtn_hidden :: bool
  s_clearBtn_hidden :: bool

definition Stopwatch_updateButtonVisibility :: "button_state \<Rightarrow> Stopwatch \<Rightarrow> Stopwatch" where
  "Stopwatch_updateButtonVisibility st s =
     s\<lparr> s_startBtn_hidden := (st \<noteq> Initial), s_pauseBtn_hidden := (st \<noteq> Running),
        s_continueBtn_hidden := (st \<noteq> Paused), s_clearBtn_hidden := False \<rparr>"

definition Stopwatch_start :: "int \<Rightarrow> Stopwatch \<Rightarrow> Stopwatch" where
  "Stopwatch_start now s =
     (if s_isRunning s then s
      else Stopwatch_updateButtonVisibility Running
             (s\<lparr> s_isRunning := True, s_startTime := now - s_elapsedTime s,
                 s_timerInterval := True \<rparr>))"

definition Stopwatch_tick :: "int \<Rightarrow> Stopwatch \<Rightarrow> Stopwatch" where
  "Stopwatch_tick now s =
     (if \<not> s_timerInterval s then s
      else let s1 = s\<lparr> s_elapsedTime := now - s_startTime s \<rparr>
           in s1\<lparr> s_display := TimerBase_updateDisplay (s_elapsedTime s1) \<rparr>)"

definition Stopwatch_pause :: "Stopwatch \<Rightarrow> Stopwatch" where
  "Stopwatch_pause s =
     (if \<not> s_isRunning s then s
      else Stopwatch_updateButtonVisibility Paused
             (s\<lparr> s_isRunning := False, s_timerInterval := False \<rparr>))"

definition Stopwatch_continue :: "int \<Rightarrow> Stopwatch \<Rightarrow> Stopwatch" where
  "Stopwatch_continue now s = Stopwatch_start now s"

definition Stopwatch_reset :: "Stopwatch \<Rightarrow> Stopwatch" where
  "Stopwatch_reset s =
     Stopwatch_updateButtonVisibility Initial
       (s\<lparr> s_isRunning := False, s_timerInterval := False, s_startTime := 0,
           s_elapsedTime := 0, s_display := TimerBase_updateDisplay 0 \<rparr>)"

subsection \<open>\<open>Countdown\<close>\<close>

record Countdown =
  c_initialTime :: int
  c_remainingTime :: int
  c_inputBuffer :: "string list"
  c_isRunning :: bool
  c_startTime :: int
  c_timerInterval :: bool
  c_display :: "string \<times> string"
  c_inputControls_hidden :: bool
  c_timerControls_hidden :: bool
  c_startBtn_hidden :: bool
  c_pauseBtn_hidden :: bool
  c_continueBtn_hidden :: bool
  c_clearTimerBtn_hidden :: bool
  c_alerts :: "string list"

definition maxTimeMs :: int where
  "maxTimeMs = 99 * 3600000 + 59 * 60000 + 59 * 1000"

definition ViewManager_showAlert :: "string \<Rightarrow> Countdown \<Rightarrow> Countdown" where
  "ViewManager_showAlert message s = s\<lparr> c_alerts := c_alerts s @ [message] \<rparr>"

definition Countdown_updateDisplay :: "int \<Rightarrow> Countdown \<Rightarrow> Countdown" where
  "Countdown_updateDisplay timeInMs s = s\<lparr> c_display := TimerBase_updateDisplay timeInMs \<rparr>"

definition Countdown_updateButtonVisibility :: "button_state \<Rightarrow> Countdown \<Rightarrow> Countdown" where
  "Countdown_updateButtonVisibility st s =
     s\<lparr> c_startBtn_hidden := (st \<noteq> Initial), c_pauseBtn_hidden := (st \<noteq> Running),
        c_continueBtn_hidden := (st \<noteq> Paused), c_clearTimerBtn_hidden := False \<rparr>"

definition Countdown_updateControlVisibility :: "control_state \<Rightarrow> Countdown \<Rightarrow> Countdown" where
  "Countdown_updateControlVisibility st s =
     Countdown_updateButtonVisibility Initial
       (s\<lparr> c_inputControls_hidden := (st \<noteq> Input),
           c_timerControls_hidden := (st \<noteq> TimerControls) \<rparr>)"

definition Countdown_resetInput :: "Countdown \<Rightarrow> Countdown" where
  "Countdown_resetInput s =
     Countdown_updateButtonVisibility Initial
       (Countdown_updateControlVisibility Input
          (Countdown_updateDisplay 0
             (s\<lparr> c_timerInterval := False, c_isRunning := False, c_inputBuffer := [],
                 c_initialTime := 0, c_remainingTime := 0 \<rparr>)))"

definition Countdown_resetTimer :: "Countdown \<Rightarrow> Countdown" where
  "Countdown_resetTimer s =
     (Countdown_updateButtonVisibility Initial
        (Countdown_updateControlVisibility Input
           (Countdown_updateDisplay 0
              (s\<lparr> c_timerInterval := False, c_isRunning := False, c_initialTime := 0,
                  c_remainingTime := 0 \<rparr>))))
       \<lparr> c_inputBuffer := [] \<rparr>"

definition Countdown_updateInputDisplay :: "Countdown \<Rightarrow> Countdown option" where
  "Countdown_updateInputDisplay s =
     (let rawTime = concat (c_inputBuffer s);
          paddedTime = (if length rawTime > 6 then slice_last 6 rawTime
                        else padStart 6 CHR ''0'' rawTime)
      in case (parseInt (substring 0 2 paddedTime), parseInt (substring 2 4 paddedTime),
               parseInt (substring 4 6 paddedTime)) of
           (Some h, Some m, Some sec) \<Rightarrow>
             (let currentInputMs = h * 3600000 + m * 60000 + sec * 1000;
                  s1 = s\<lparr> c_remainingTime := currentInputMs \<rparr>
              in Some (Countdown_updateDisplay (c_remainingTime s1) s1))
         | _ \<Rightarrow> None)"

definition Countdown_appendDigit :: "string \<Rightarrow> Countdown \<Rightarrow> Countdown option" where
  "Countdown_appendDigit digit s =
     (let s1 = (if length (c_inputBuffer s) \<ge> 6 then s\<lparr> c_inputBuffer := tl (c_inputBuffer s) \<rparr>
                else s)
      in Countdown_updateInputDisplay (s1\<lparr> c_inputBuffer := c_inputBuffer s1 @ [digit] \<rparr>))"

definition Countdown_setTime :: "Countdown \<Rightarrow> Countdown" where
  "Countdown_setTime s =
     (if c_inputBuffer s = [] \<or> c_remainingTime s = 0
      then ViewManager_showAlert ''Please enter a time greater than zero.'' s
      else if c_remainingTime s > maxTimeMs
      then Countdown_resetInput (ViewManager_showAlert ''Maximum time allowed is 99:59:59.'' s)
      else Countdown_updateButtonVisibility Initial
             (Countdown_updateControlVisibility TimerControls
                (s\<lparr> c_initialTime := c_remainingTime s \<rparr>)))"

text \<open>The callback that \<open>start\<close> hands to \<open>setInterval\<close>.\<close>

definition Countdown_tick :: "int \<Rightarrow> Countdown \<Rightarrow> Countdown" where
  "Countdown_tick now s =
     (if \<not> c_timerInterval s then s
      else let elapsedSinceLastUpdate = now - c_startTime s;
               s1 = s\<lparr> c_startTime := now,
                       c_remainingTime := c_remainingTime s - elapsedSinceLastUpdate \<rparr>
           in if c_remainingTime s1 \<le> 0
              then Countdown_resetInput
                     (Countdown_updateControlVisibility Input
                        (ViewManager_showAlert ''Countdown Expired!''
                           (Countdown_updateDisplay 0
                              (s1\<lparr> c_remainingTime := 0, c_timerInterval := False,
                                   c_isRunning := False \<rparr>))))
              else Countdown_updateDisplay (c_remainingTime s1) s1)"

definition Countdown_start :: "int \<Rightarrow> Countdown \<Rightarrow> Countdown" where
  "Countdown_start now s =
     (if c_isRunning s then s
      else if c_remainingTime s \<le> 0
      then Countdown_resetInput (ViewManager_showAlert ''Countdown is zero. Please set a time.'' s)
      else Countdown_updateButtonVisibility Running
             (s\<lparr> c_isRunning := True, c_startTime := now, c_timerInterval := True \<rparr>))"

definition Countdown_pause :: "Countdown \<Rightarrow> Countdown" where
  "Countdown_pause s =
     (if \<not> c_isRunning s then s
      else Countdown_updateButtonVisibility Paused
             (s\<lparr> c_isRunning := False, c_timerInterval := False \<rparr>))"

definition Countdown_continue :: "int \<Rightarrow> Countdown \<Rightarrow> Countdown" where
  "Countdown_continue now s = Countdown_start now s"


section \<open>The digit buffer as the specification words it\<close>

text \<open>
  \<open>currentDuration\<close>: pad the buffer to 6 digits with leading zeros, split it into 2+2+2
  digits as HH, MM, SS, and return \<open>(HH*3600 + MM*60 + SS) * 1000\<close> milliseconds.
  The digit-entry display shows the three pairs separated by colons.
\<close>

definition spec_currentDuration :: "string \<Rightarrow> int" where
  "spec_currentDuration buf =
     (let padded = replicate (6 - length buf) CHR ''0'' @ buf;
          HH = int (decimal (take 2 padded));
          MM = int (decimal (take 2 (drop 2 padded)));
          SS = int (decimal (take 2 (drop 4 padded)))
      in (HH * 3600 + MM * 60 + SS) * 1000)"

definition spec_display :: "string \<Rightarrow> string" where
  "spec_display buf =
     (let padded = replicate (6 - length buf) CHR ''0'' @ buf
      in take 2 padded @ '':'' @ take 2 (drop 2 padded) @ '':'' @ take 2 (drop 4 padded))"


section \<open>Initial states and sequences of digit presses\<close>

text \<open>
  The constructors give the fields their first values. The \<open>hidden\<close> classes the elements
  start with come from the page's markup, which is not among the sources; the initial states
  below take the classes that the code itself establishes for the digit-entry phase
  (\<open>resetCountdownUI\<close>, the Clear handlers, \<open>resetInput\<close>).
\<close>

definition UIController_new :: UIController where
  "UIController_new =
     resetCountdownUI
       \<lparr> inputSequence = [], countdownTimer = CountdownTimer_new, countdownExpired = False,
         countdownDisplay = [], countdownScreen_hidden = False, countdownInput_hidden = False,
         countdownControls_hidden = True, startCountdownBtn_hidden = True,
         pauseCountdownBtn_hidden = True, continueCountdownBtn_hidden = True,
         clearCountdownBtn_hidden = True, alerts = [], sounds = 0 \<rparr>"

definition page_new :: page where
  "page_new =
     \<lparr> swStart = 0, swElapsed = 0, swInterval = None, cdDigits = [], cdMilliseconds = 0,
       cdEnd = 0, cdInterval = None, intervals = [], nextHandle = 1,
       swDisplay = ''00:00:00'', swMs = ''.000'', cdDisplay = ''00:00:00'', cdMs = ''.000'',
       swStartBtn_hidden = False, swPauseBtn_hidden = True, swContBtn_hidden = True,
       cdInputControls_hidden = False, cdSetBtn_hidden = False, cdClearInputBtn_hidden = False,
       cdControls_hidden = True, cdStartBtn_hidden = False, cdPauseBtn_hidden = True,
       cdContBtn_hidden = True, page_alerts = [] \<rparr>"

definition Stopwatch_new :: Stopwatch where
  "Stopwatch_new =
     Stopwatch_reset
       \<lparr> s_startTime = 0, s_elapsedTime = 0, s_isRunning = False, s_timerInterval = False,
         s_display = ([], []), s_startBtn_hidden = False, s_pauseBtn_hidden = True,
         s_continueBtn_hidden = True, s_clearBtn_hidden = False \<rparr>"

definition Countdown_new :: Countdown where
  "Countdown_new =
     Countdown_resetInput
       \<lparr> c_initialTime = 0, c_remainingTime = 0, c_inputBuffer = [], c_isRunning = False,
         c_startTime = 0, c_timerInterval = False, c_display = ([], []),
         c_inputControls_hidden = False, c_timerControls_hidden = True,
         c_startBtn_hidden = False, c_pauseBtn_hidden = True, c_continueBtn_hidden = True,
         c_clearTimerBtn_hidden = False, c_alerts = [] \<rparr>"

text \<open>
  Pressing the keypad buttons for the digits \<open>ds\<close>, first to last. The text of the button
  for digit \<open>d\<close> is the one character \<open>digit_char d\<close>; the procedural page appends the
  loop index of the button.
\<close>

definition UIController_press :: "nat list \<Rightarrow> UIController \<Rightarrow> UIController" where
  "UIController_press ds ui = fold (\<lambda>d. handleNumberInput [digit_char d]) ds ui"

definition page_press :: "nat list \<Rightarrow> page \<Rightarrow> page" where
  "page_press ds p = fold digit_onclick ds p"

fun Countdown_press :: "nat list \<Rightarrow> Countdown \<Rightarrow> Countdown option" where
  "Countdown_press [] s = Some s"
| "Countdown_press (d # ds) s =
     (case Countdown_appendDigit [digit_char d] s of
        None \<Rightarrow> None
      | Some s' \<Rightarrow> Countdown_press ds s')"


section \<open>Runs of the class-based countdown\<close>

subsection \<open>Animation frames of a running countdown\<close>

text \<open>
  While the countdown screen is shown two callbacks run on animation frames:
  \<open>CountdownTimer._update\<close>, which reads the clock, and \<open>UIController._updateDisplays\<close>. A run
  is a list of such calls in the order in which they happen. \<open>expirations\<close> counts the
  expiration alerts shown so far.
\<close>

datatype frame = TimerFrame int | DisplayFrame

fun frame_step :: "frame \<Rightarrow> UIController \<Rightarrow> UIController" where
  "frame_step (TimerFrame now) ui =
     ui\<lparr> countdownTimer := CountdownTimer_update now (countdownTimer ui) \<rparr>"
| "frame_step DisplayFrame ui = updateDisplays ui"

definition run_frames :: "frame list \<Rightarrow> UIController \<Rightarrow> UIController" where
  "run_frames fs ui = fold frame_step fs ui"

definition expirations :: "UIController \<Rightarrow> nat" where
  "expirations ui = length (filter (\<lambda>a. a = (''Countdown has expired!'', ''warning'')) (alerts ui))"

text \<open>\<open>expiry_reached deadline fs\<close>: some timer frame of \<open>fs\<close> read a clock at or past the
  deadline. \<open>expiry_shown deadline fs\<close>: and a display frame came after the first such frame.\<close>

fun expiry_reached :: "int \<Rightarrow> frame list \<Rightarrow> bool" where
  "expiry_reached deadline [] = False"
| "expiry_reached deadline (TimerFrame now # fs) = (deadline \<le> now \<or> expiry_reached deadline fs)"
| "expiry_reached deadline (DisplayFrame # fs) = expiry_reached deadline fs"

fun expiry_shown :: "int \<Rightarrow> frame list \<Rightarrow> bool" where
  "expiry_shown deadline [] = False"
| "expiry_shown deadline (TimerFrame now # fs) =
     (if deadline \<le> now then DisplayFrame \<in> set fs else expiry_shown deadline fs)"
| "expiry_shown deadline (DisplayFrame # fs) = expiry_shown deadline fs"

subsection \<open>The engine under a clock that never runs backwards\<close>

text \<open>
  The state is the clock together with the timer; \<open>Advance n\<close> lets \<open>n\<close> milliseconds pass,
  every other event is an operation of \<open>CountdownTimer\<close>, reading the clock where the code calls
  \<open>Date.now()\<close>. A call of \<open>setTime\<close> that throws leaves the timer as it was.
\<close>

datatype cd_event = Advance nat | SetTime int | Start | Stop | Reset | Clear | Frame

fun cd_step :: "cd_event \<Rightarrow> int \<times> CountdownTimer \<Rightarrow> int \<times> CountdownTimer" where
  "cd_step (Advance n) (now, c) = (now + int n, c)"
| "cd_step (SetTime n) (now, c) =
     (case CountdownTimer_setTime n c of Inl e \<Rightarrow> (now, c) | Inr c' \<Rightarrow> (now, c'))"
| "cd_step Start (now, c) = (now, CountdownTimer_start now c)"
| "cd_step Stop (now, c) = (now, CountdownTimer_stop c)"
| "cd_step Reset (now, c) = (now, CountdownTimer_reset c)"
| "cd_step Clear (now, c) = (now, CountdownTimer_clear c)"
| "cd_step Frame (now, c) = (now, CountdownTimer_update now c)"

definition cd_run :: "cd_event list \<Rightarrow> int \<times> CountdownTimer \<Rightarrow> int \<times> CountdownTimer" where
  "cd_run es w = fold cd_step es w"

text \<open>The invariant of the engine: the remaining time lies between zero and the configured
  time, and a running timer was started no later than now.\<close>

definition cd_invariant :: "int \<times> CountdownTimer \<Rightarrow> bool" where
  "cd_invariant w =
     (case w of (now, c) \<Rightarrow>
        0 \<le> remainingTime c \<and> remainingTime c \<le> initialTime c
        \<and> (\<not> isRunning c \<or> startTime c \<le> now))"

definition changes_configuration :: "cd_event \<Rightarrow> bool" where
  "changes_configuration ev = (case ev of SetTime n \<Rightarrow> True | Clear \<Rightarrow> True | _ \<Rightarrow> False)"


section \<open>Runs of the procedural page\<close>

text \<open>
  The state is the clock together with the page. \<open>Wait n\<close> lets \<open>n\<close> milliseconds pass,
  \<open>IntervalFires h\<close> is the browser running the callback of interval \<open>h\<close>, and every other
  event is a click. A click reaches the handler only if the button can be clicked: a button
  carrying the class \<open>hidden\<close> is not displayed, and the click changes nothing. The digit
  buttons are the children that the script appends to \<open>cdInputControls\<close>, so they go with
  that group; the two Clear buttons of the timers are never hidden by the script. Which other
  buttons the groups contain is fixed by the markup: the model lets the click through
  whenever the button itself is not hidden, which admits every run of the page. The Set
  handler has no result when the buffer does not read as a number.
\<close>

datatype page_event =
    Wait nat
  | IntervalFires nat
  | ClickDigit nat
  | ClickSet
  | ClickClearInput
  | ClickCdStart
  | ClickCdPause
  | ClickCdCont
  | ClickCdClear
  | ClickSwStart
  | ClickSwPause
  | ClickSwCont
  | ClickSwClear

fun page_step :: "page_event \<Rightarrow> int \<times> page \<Rightarrow> (int \<times> page) option" where
  "page_step (Wait n) (now, p) = Some (now + int n, p)"
| "page_step (IntervalFires h) (now, p) = Some (now, fire h now p)"
| "page_step (ClickDigit i) (now, p) =
     Some (now, if i \<le> 9 \<and> \<not> cdInputControls_hidden p then digit_onclick i p else p)"
| "page_step ClickSet (now, p) =
     (if cdSetBtn_hidden p then Some (now, p) else map_option (Pair now) (cdSetBtn_onclick p))"
| "page_step ClickClearInput (now, p) =
     Some (now, if cdClearInputBtn_hidden p then p else cdClearInputBtn_onclick p)"
| "page_step ClickCdStart (now, p) =
     Some (now, if cdStartBtn_hidden p then p else cdStartBtn_onclick now p)"
| "page_step ClickCdPause (now, p) =
     Some (now, if cdPauseBtn_hidden p then p else cdPauseBtn_onclick now p)"
| "page_step ClickCdCont (now, p) =
     Some (now, if cdContBtn_hidden p then p else cdContBtn_onclick now p)"
| "page_step ClickCdClear (now, p) = Some (now, cdClearBtn_onclick p)"
| "page_step ClickSwStart (now, p) =
     Some (now, if swStartBtn_hidden p then p else swStartBtn_onclick now p)"
| "page_step ClickSwPause (now, p) =
     Some (now, if swPauseBtn_hidden p then p else swPauseBtn_onclick now p)"
| "page_step ClickSwCont (now, p) =
     Some (now, if swContBtn_hidden p then p else swContBtn_onclick now p)"
| "page_step ClickSwClear (now, p) = Some (now, swClearBtn_onclick p)"

fun page_run :: "page_event list \<Rightarrow> int \<times> page \<Rightarrow> (int \<times> page) option" where
  "page_run [] w = Some w"
| "page_run (ev # evs) w =
     (case page_step ev w of None \<Rightarrow> None | Some w' \<Rightarrow> page_run evs w')"

text \<open>The stopwatch of the page is running while an interval with the callback
  \<open>updateStopwatch\<close> is live.\<close>

definition stopwatch_running :: "page \<Rightarrow> bool" where
  "stopwatch_running p = list_ex (\<lambda>e. snd e = UpdateStopwatch) (intervals p)"

text \<open>
  What every run of the page keeps true of the countdown: the buffer holds digits, and as
  long as the Set button can be clicked no duration is stored (and an end time that the Pause
  handler could read is not ahead of the clock).
\<close>

definition countdown_page_invariant :: "int \<times> page \<Rightarrow> bool" where
  "countdown_page_invariant w =
     (case w of (now, p) \<Rightarrow>
        list_all is_digit (cdDigits p)
        \<and> (cdSetBtn_hidden p
            \<or> (cdMilliseconds p = 0 \<and> (cdPauseBtn_hidden p \<or> cdEnd p \<le> now))))"

text \<open>
  What every run of the page keeps true of the stopwatch: at most one of Start, Pause and
  Continue can be clicked; every live stopwatch interval is the one whose handle
  \<open>swInterval\<close> holds; and while Start or Continue can be clicked the stopwatch is not
  running.
\<close>

definition stopwatch_page_invariant :: "page \<Rightarrow> bool" where
  "stopwatch_page_invariant p =
     (list_all (\<lambda>e. snd e \<noteq> UpdateStopwatch \<or> swInterval p = Some (fst e)) (intervals p)
      \<and> (swStartBtn_hidden p \<or> swPauseBtn_hidden p)
      \<and> (swStartBtn_hidden p \<or> swContBtn_hidden p)
      \<and> (swPauseBtn_hidden p \<or> swContBtn_hidden p)
      \<and> ((swStartBtn_hidden p \<and> swContBtn_hidden p) \<or> \<not> stopwatch_running p))"


section \<open>Facts about the primitives\<close>

subsection \<open>Division in doubles\<close>

text \<open>
  The quotient of a non-negative integer below \<open>2^53\<close> by a positive integer, rounded to the
  nearest double, has the same floor as the exact quotient: between \<open>a / b\<close> and the next
  integer above it there is a gap of at least \<open>1 / b\<close>, which is more than half a unit in the
  last place of the quotient. Above \<open>2^53\<close> the rounding can reach the next integer.
\<close>

lemma bit_length_bounds:
  "0 < a \<Longrightarrow> 1 \<le> bit_length a \<and> 2 ^ nat (bit_length a - 1) \<le> a \<and> a < 2 ^ nat (bit_length a)"
proof (induction a rule: bit_length.induct)
  case (1 a)
  show ?case
  proof (cases "a = 1")
    case True
    have "bit_length 1 = 1" by (simp add: bit_length.simps)
    with True show ?thesis by simp
  next
    case False
    with "1.prems" have p: "0 < a div 2" by simp
    have n: "\<not> a \<le> 0" using "1.prems" by simp
    from "1.IH" [OF n p] have l: "1 \<le> bit_length (a div 2)"
      and lo: "2 ^ nat (bit_length (a div 2) - 1) \<le> a div 2"
      and hi: "a div 2 < 2 ^ nat (bit_length (a div 2))"
      by simp_all
    have b: "bit_length a = 1 + bit_length (a div 2)"
      using n by (subst bit_length.simps) simp
    have e1: "nat (bit_length a - 1) = Suc (nat (bit_length (a div 2) - 1))"
      using l b by simp
    have e2: "nat (bit_length a) = Suc (nat (bit_length (a div 2)))"
      using l b by simp
    have "2 * 2 ^ nat (bit_length (a div 2) - 1) \<le> 2 * (a div 2)" using lo by simp
    also have "\<dots> \<le> a" by simp
    finally have c1: "2 ^ nat (bit_length a - 1) \<le> a" by (simp add: e1)
    have "a div 2 + 1 \<le> 2 ^ nat (bit_length (a div 2))" using hi by simp
    then have "2 * (a div 2) + 2 \<le> 2 * 2 ^ nat (bit_length (a div 2))" by simp
    moreover have "a < 2 * (a div 2) + 2" by simp
    ultimately have c2: "a < 2 ^ nat (bit_length a)" by (simp add: e2)
    from c1 c2 l b show ?thesis by simp
  qed
qed

lemma bit_length_bounds_rat:
  assumes "0 < a"
  shows "2 powi (bit_length a - 1) \<le> (of_int a :: rat)" "(of_int a :: rat) < 2 powi (bit_length a)"
proof -
  from bit_length_bounds [OF assms] have l: "1 \<le> bit_length a"
    and lo: "2 ^ nat (bit_length a - 1) \<le> a" and hi: "a < 2 ^ nat (bit_length a)"
    by simp_all
  have "(of_int (2 ^ nat (bit_length a - 1)) :: rat) \<le> of_int a"
    using lo by (simp only: of_int_le_iff)
  then show "2 powi (bit_length a - 1) \<le> (of_int a :: rat)"
    using l by (simp add: power_int_def)
  have "(of_int a :: rat) < of_int (2 ^ nat (bit_length a))"
    using hi by (simp only: of_int_less_iff)
  then show "(of_int a :: rat) < 2 powi (bit_length a)"
    using l by (simp add: power_int_def)
qed

text \<open>The exponent puts the quotient into the binade of 53-bit significands.\<close>

lemma double_exponent_bounds:
  assumes "0 < a" "0 < b"
  defines "x \<equiv> (of_int a / of_int b :: rat)"
  defines "e \<equiv> double_exponent a b"
  shows "2 ^ 52 \<le> x / 2 powi e" "x / 2 powi e < 2 ^ 53"
proof -
  define k where "k = bit_length a - bit_length b"
  define L where "L = (if of_int b * 2 powi k \<le> (of_int a :: rat) then k else k - 1)"
  have e: "e = L - 52" by (simp add: e_def double_exponent_def k_def L_def Let_def)
  have bp: "(0::rat) < of_int b" using assms(2) by simp
  have pk: "(0::rat) < 2 powi i" for i by simp
  note A = bit_length_bounds_rat [OF assms(1)]
  note B = bit_length_bounds_rat [OF assms(2)]
  have lo: "2 powi L \<le> x"
  proof (cases "of_int b * 2 powi k \<le> (of_int a :: rat)")
    case True
    then have "2 powi k \<le> x" using bp by (simp add: x_def pos_le_divide_eq mult.commute)
    with True show ?thesis by (simp add: L_def)
  next
    case False
    have "(of_int b :: rat) * 2 powi (k - 1) \<le> 2 powi (bit_length b) * 2 powi (k - 1)"
      using less_imp_le [OF B(2)] by (intro mult_right_mono) simp_all
    also have "\<dots> = (2::rat) powi (bit_length a - 1)"
      by (simp add: k_def power_int_add [symmetric])
    also have "\<dots> \<le> of_int a" by (rule A(1))
    finally have "2 powi (k - 1) \<le> x" using bp by (simp add: x_def pos_le_divide_eq mult.commute)
    with False show ?thesis by (simp add: L_def)
  qed
  have hi: "x < 2 powi (L + 1)"
  proof (cases "of_int b * 2 powi k \<le> (of_int a :: rat)")
    case True
    have "(of_int a :: rat) < 2 powi (bit_length a)" by (rule A(2))
    also have "\<dots> = (2::rat) powi (bit_length b - 1) * 2 powi (k + 1)"
      by (simp add: k_def power_int_add [symmetric])
    also have "\<dots> \<le> of_int b * 2 powi (k + 1)"
      using B(1) by (intro mult_right_mono) simp_all
    finally have "x < 2 powi (k + 1)" using bp by (simp add: x_def pos_divide_less_eq mult.commute)
    with True show ?thesis by (simp add: L_def)
  next
    case False
    then have "x < 2 powi k" using bp by (simp add: x_def pos_divide_less_eq mult.commute not_le)
    with False show ?thesis by (simp add: L_def)
  qed
  have s: "(2::rat) powi L = 2 ^ 52 * 2 powi e"
    unfolding e by (simp add: power_int_diff)
  have s1: "(2::rat) powi (L + 1) = 2 ^ 53 * 2 powi e"
    unfolding e by (simp add: power_int_diff power_int_add)
  show "2 ^ 52 \<le> x / 2 powi e"
    using lo pk [of e] unfolding s by (simp add: pos_le_divide_eq)
  show "x / 2 powi e < 2 ^ 53"
    using hi pk [of e] unfolding s1 by (simp add: pos_divide_less_eq)
qed


lemma round_half_even_bounds:
  "\<lfloor>y\<rfloor> \<le> round_half_even y" "of_int (round_half_even y) \<le> y + 1 / 2"
proof -
  show "\<lfloor>y\<rfloor> \<le> round_half_even y" by (simp add: round_half_even_def Let_def)
  define f where "f = \<lfloor>y\<rfloor>"
  define d where "d = y - of_int f"
  have y: "y = of_int f + d" by (simp add: d_def)
  have r: "round_half_even y = (if d < 1 / 2 then f else if 1 / 2 < d then f + 1
                                else if even f then f else f + 1)"
    by (simp add: round_half_even_def Let_def f_def d_def)
  have d0: "0 \<le> d" by (simp add: d_def f_def)
  show "of_int (round_half_even y) \<le> y + 1 / 2"
  proof (cases "d < 1 / 2")
    case True
    then have "round_half_even y = f" by (simp add: r)
    then show ?thesis using d0 by (simp add: y)
  next
    case False
    have "round_half_even y \<le> f + 1" by (simp add: r)
    then have "(of_int (round_half_even y) :: rat) \<le> of_int (f + 1)" by (simp only: of_int_le_iff)
    then show ?thesis using False by (simp add: y)
  qed
qed

text \<open>Below \<open>2^53\<close> the rounding of the quotient never reaches the next integer: flooring the
  rounded quotient is integer division.\<close>

lemma floor_double_div:
  assumes "0 \<le> a" "a < 2 ^ 53" "0 < b"
  shows "Math_floor (double_div a b) = a div b"
proof (cases "a = 0")
  case True
  then show ?thesis by (simp add: double_div_def Math_floor_def)
next
  case False
  with assms(1) have ap: "0 < a" by simp
  define x :: rat where "x = of_int a / of_int b"
  define e where "e = double_exponent a b"
  define s :: rat where "s = 2 powi e"
  define m where "m = round_half_even (x / s)"
  define q where "q = a div b"
  have bp: "(0::rat) < of_int b" using assms(3) by simp
  have sp: "0 < s" by (simp add: s_def)
  have dd: "double_div a b = of_int m * s"
    using ap by (simp add: double_div_def Let_def m_def s_def e_def x_def)
  have "2 ^ 52 \<le> x / s"
    unfolding x_def s_def e_def by (rule double_exponent_bounds(1) [OF ap assms(3)])
  then have "2 ^ 52 * s \<le> x" using sp by (simp only: pos_le_divide_eq)
  then have f1: "s * 2 ^ 52 \<le> x" by (simp only: mult.commute)
  have xa: "x \<le> of_int a"
  proof -
    have "(1::rat) \<le> of_int b" using assms(3) by simp
    moreover have "(0::rat) \<le> of_int a" using assms(1) by simp
    ultimately have "of_int a / of_int b \<le> (of_int a :: rat) / 1"
      by (intro divide_left_mono) simp_all
    then show ?thesis by (simp add: x_def)
  qed
  have a53: "(of_int a :: rat) < 2 ^ 53"
  proof -
    have "(of_int a :: rat) < of_int (2 ^ 53)" using assms(2) by (simp only: of_int_less_iff)
    then show ?thesis by simp
  qed
  have e0: "e \<le> 0"
  proof (rule ccontr)
    assume "\<not> e \<le> 0"
    then have "1 \<le> e" by simp
    then have "(2::rat) powi 1 \<le> 2 powi e" by (intro power_int_increasing) simp_all
    then have "2 * 2 ^ 52 \<le> s * (2 ^ 52 :: rat)" by (simp add: s_def)
    with f1 xa a53 show False by simp
  qed
  define j where "j = nat (- e)"
  have sj: "s = 1 / 2 ^ j"
    using e0 by (cases "e = 0") (simp_all add: s_def j_def power_int_def inverse_eq_divide power_divide)
  have qx: "of_int q \<le> x"
  proof -
    have "\<lfloor>x\<rfloor> = q" by (simp add: x_def q_def floor_divide_of_int_eq)
    then show ?thesis using of_int_floor_le [of x] by simp
  qed
  have lower: "of_int q \<le> of_int m * s"
  proof -
    have "of_int (q * 2 ^ j) \<le> x / s" using qx by (simp add: sj)
    then have "q * 2 ^ j \<le> \<lfloor>x / s\<rfloor>" by (simp only: le_floor_iff)
    also have "\<dots> \<le> m" unfolding m_def by (rule round_half_even_bounds(1))
    finally have "(of_int (q * 2 ^ j) :: rat) \<le> of_int m" by (simp only: of_int_le_iff)
    then have "(of_int (q * 2 ^ j) :: rat) * s \<le> of_int m * s"
      using sp by (intro mult_right_mono) simp_all
    then show ?thesis by (simp add: sj)
  qed
  have xb: "x + 1 / of_int b \<le> of_int q + 1"
  proof -
    have "a mod b \<le> b - 1" using assms(3) by simp
    moreover have "a = q * b + a mod b" by (simp add: q_def)
    ultimately have "a + 1 \<le> (q + 1) * b" by (simp add: algebra_simps)
    then have "(of_int (a + 1) :: rat) \<le> of_int ((q + 1) * b)" by (simp only: of_int_le_iff)
    then have "(of_int a + 1) / of_int b \<le> (of_int q + 1 :: rat)"
      using bp by (simp add: pos_divide_le_eq)
    then show ?thesis by (simp add: x_def add_divide_distrib)
  qed
  have sb: "s / 2 < 1 / of_int b"
  proof -
    have "s * 2 ^ 52 * of_int b \<le> x * of_int b" using f1 bp by (intro mult_right_mono) simp_all
    also have "\<dots> = of_int a" using bp by (simp add: x_def)
    also have "\<dots> < 2 ^ 53" by (rule a53)
    finally have "s * of_int b < 2" by simp
    then show ?thesis using bp by (simp add: pos_less_divide_eq)
  qed
  have upper: "of_int m * s < of_int q + 1"
  proof -
    have "of_int m \<le> x / s + 1 / 2" unfolding m_def by (rule round_half_even_bounds(2))
    then have "of_int m * s \<le> (x / s + 1 / 2) * s" using sp by (intro mult_right_mono) simp_all
    also have "\<dots> = x + s / 2" using sp by (simp add: algebra_simps)
    also have "\<dots> < x + 1 / of_int b" using sb by simp
    also have "\<dots> \<le> of_int q + 1" by (rule xb)
    finally show ?thesis .
  qed
  have "\<lfloor>of_int m * s\<rfloor> = q" using lower upper by (intro floor_unique) simp_all
  then show ?thesis by (simp add: dd Math_floor_def q_def)
qed

lemma double_div_example: "Math_floor (double_div (2 ^ 63) 1000) = 9223372036854776"
  by code_simp

subsection \<open>Remainders, padding and the fields of a duration\<close>

lemma js_rem_nonneg: "0 \<le> a \<Longrightarrow> 0 < b \<Longrightarrow> js_rem a b = a mod b"
  by (cases "a = 0") (simp_all add: js_rem_def)

lemma padStart_nonneg: "0 \<le> v \<Longrightarrow> padStart w CHR ''0'' (Number_toString v) = zero_padded w v"
  by (simp add: padStart_def Number_toString_def zero_padded_def)

lemma seconds_split_hours: "(n::int) div 1000 div 3600 = n div 3600000"
proof -
  have "n div (1000 * 3600) = n div 1000 div 3600"
    by (rule zdiv_zmult2_eq) simp
  then show ?thesis by simp
qed

lemma seconds_split_minutes: "((n::int) div 1000 mod 3600) div 60 = (n mod 3600000) div 60000"
proof -
  have m: "n mod (1000 * 3600) = 1000 * (n div 1000 mod 3600) + n mod 1000"
    by (rule zmod_zmult2_eq) simp
  have q: "(1000 * (n div 1000 mod 3600) + n mod 1000) div 1000 = n div 1000 mod 3600"
    by simp
  have "(n mod (1000 * 3600)) div (1000 * 60) = (n mod (1000 * 3600)) div 1000 div 60"
    by (rule zdiv_zmult2_eq) simp
  also have "\<dots> = (n div 1000 mod 3600) div 60"
    by (simp only: m q)
  finally show ?thesis by simp
qed

lemma seconds_split_seconds: "(n::int) div 1000 mod 60 = (n mod 60000) div 1000"
proof -
  have m: "n mod (1000 * 60) = 1000 * (n div 1000 mod 60) + n mod 1000"
    by (rule zmod_zmult2_eq) simp
  have "(1000 * (n div 1000 mod 60) + n mod 1000) div 1000 = n div 1000 mod 60"
    by simp
  then show ?thesis using m by simp
qed

lemma spec_fields_nonneg:
  assumes "0 \<le> n"
  shows "0 \<le> spec_hours n" "0 \<le> spec_minutes n" "0 \<le> spec_seconds n" "0 \<le> spec_millis n"
  using assms by (simp_all add: spec_hours_def spec_minutes_def spec_seconds_def spec_millis_def
      pos_imp_zdiv_nonneg_iff)

lemma div1000_nonneg: "0 \<le> n \<Longrightarrow> 0 \<le> (n::int) div 1000"
  by (simp add: pos_imp_zdiv_nonneg_iff)

lemma length_string_of_nat_small: "n < 10 \<Longrightarrow> length (string_of_nat n) = 1"
  by (simp add: string_of_nat.simps)

lemma length_string_of_nat_two: "10 \<le> n \<Longrightarrow> n < 100 \<Longrightarrow> length (string_of_nat n) = 2"
  by (subst string_of_nat.simps) (simp add: length_string_of_nat_small)

lemma string_of_nat_not_Nil: "string_of_nat n \<noteq> []"
  by (subst string_of_nat.simps) simp

lemma length_string_of_nat_ge2: "10 \<le> n \<Longrightarrow> 2 \<le> length (string_of_nat n)"
proof -
  assume "10 \<le> n"
  then have "string_of_nat n = string_of_nat (n div 10) @ [digit_char (n mod 10)]"
    by (subst string_of_nat.simps) simp
  moreover have "0 < length (string_of_nat (n div 10))"
    using string_of_nat_not_Nil by blast
  ultimately show ?thesis by (simp add: Suc_le_eq)
qed

text \<open>Below 100 the padded field is exactly two characters wide; from 10 on nothing is
  added, so a value of 100 or more is printed with all its digits.\<close>

lemma length_zero_padded_2: "0 \<le> v \<Longrightarrow> v < 100 \<Longrightarrow> length (zero_padded 2 v) = 2"
proof (cases "v < 10")
  case True
  assume "0 \<le> v"
  with True have "length (string_of_nat (nat v)) = 1"
    by (intro length_string_of_nat_small) simp
  then show ?thesis by (simp add: zero_padded_def)
next
  case False
  assume "v < 100"
  with False have "length (string_of_nat (nat v)) = 2"
    by (intro length_string_of_nat_two) simp_all
  then show ?thesis by (simp add: zero_padded_def)
qed

lemma zero_padded_2_wide: "10 \<le> v \<Longrightarrow> zero_padded 2 v = string_of_nat (nat v)"
  using length_string_of_nat_ge2 [of "nat v"] by (simp add: zero_padded_def)

lemma div_by_constant:
  assumes "0 \<le> n" "n < 2 ^ 53" "0 < c"
  shows "Math_floor (double_div n c) = n div c"
  using assms by (rule floor_double_div)

lemma div1000_small: "0 \<le> n \<Longrightarrow> n < 2 ^ 53 \<Longrightarrow> (n::int) div 1000 < 2 ^ 53"
proof -
  assume a: "0 \<le> n" "n < 2 ^ 53"
  have "n div 1000 \<le> n div 1" using a(1) by (rule zdiv_mono2) simp_all
  then have "n div 1000 \<le> n" by simp
  then show ?thesis using a(2) by (rule le_less_trans)
qed

lemma mod_small: "0 < c \<Longrightarrow> c \<le> 2 ^ 53 \<Longrightarrow> (k::int) mod c < 2 ^ 53"
proof -
  assume a: "0 < c" "c \<le> 2 ^ 53"
  have "k mod c < c" using a(1) by (rule pos_mod_bound)
  then show ?thesis using a(2) by (rule less_le_trans)
qed

lemma seconds_fields:
  assumes "0 \<le> n" "n < 2 ^ 53"
  shows "Math_floor (double_div n 1000) = n div 1000"
    and "Math_floor (double_div (n div 1000) 3600) = spec_hours n"
    and "Math_floor (double_div (js_rem (n div 1000) 3600) 60) = spec_minutes n"
    and "js_rem (n div 1000) 60 = spec_seconds n"
    and "js_rem n 1000 = spec_millis n"
proof -
  have s: "0 \<le> n div 1000" using assms(1) by (rule div1000_nonneg)
  have b: "n div 1000 < 2 ^ 53" using assms by (rule div1000_small)
  show "Math_floor (double_div n 1000) = n div 1000"
    using assms by (rule div_by_constant) simp
  have "Math_floor (double_div (n div 1000) 3600) = n div 1000 div 3600"
    using s b by (rule div_by_constant) simp
  then show "Math_floor (double_div (n div 1000) 3600) = spec_hours n"
    by (simp only: seconds_split_hours spec_hours_def)
  have r1: "js_rem (n div 1000) 3600 = n div 1000 mod 3600"
    by (rule js_rem_nonneg [OF s]) simp
  have m0: "0 \<le> n div 1000 mod 3600" by simp
  have m1: "n div 1000 mod 3600 < 2 ^ 53" by (rule mod_small) simp_all
  have "Math_floor (double_div (n div 1000 mod 3600) 60) = n div 1000 mod 3600 div 60"
    using m0 m1 by (rule div_by_constant) simp
  then show "Math_floor (double_div (js_rem (n div 1000) 3600) 60) = spec_minutes n"
    by (simp only: r1 seconds_split_minutes spec_minutes_def)
  have "js_rem (n div 1000) 60 = n div 1000 mod 60"
    by (rule js_rem_nonneg [OF s]) simp
  then show "js_rem (n div 1000) 60 = spec_seconds n"
    by (simp only: seconds_split_seconds spec_seconds_def)
  have "js_rem n 1000 = n mod 1000"
    by (rule js_rem_nonneg [OF assms(1)]) simp
  then show "js_rem n 1000 = spec_millis n"
    by (simp only: spec_millis_def)
qed

lemma millis_fields:
  assumes "0 \<le> n" "n < 2 ^ 53"
  shows "Math_floor (double_div n 3600000) = spec_hours n"
    and "Math_floor (double_div (js_rem n 3600000) 60000) = spec_minutes n"
    and "Math_floor (double_div (js_rem n 60000) 1000) = spec_seconds n"
proof -
  have "Math_floor (double_div n 3600000) = n div 3600000"
    using assms by (rule div_by_constant) simp
  then show "Math_floor (double_div n 3600000) = spec_hours n"
    by (simp only: spec_hours_def)
  have r1: "js_rem n 3600000 = n mod 3600000"
    by (rule js_rem_nonneg [OF assms(1)]) simp
  have a0: "0 \<le> n mod 3600000" by simp
  have a1: "n mod 3600000 < 2 ^ 53" by (rule mod_small) simp_all
  have "Math_floor (double_div (n mod 3600000) 60000) = n mod 3600000 div 60000"
    using a0 a1 by (rule div_by_constant) simp
  then show "Math_floor (double_div (js_rem n 3600000) 60000) = spec_minutes n"
    by (simp only: r1 spec_minutes_def)
  have r2: "js_rem n 60000 = n mod 60000"
    by (rule js_rem_nonneg [OF assms(1)]) simp
  have b0: "0 \<le> n mod 60000" by simp
  have b1: "n mod 60000 < 2 ^ 53" by (rule mod_small) simp_all
  have "Math_floor (double_div (n mod 60000) 1000) = n mod 60000 div 1000"
    using b0 b1 by (rule div_by_constant) simp
  then show "Math_floor (double_div (js_rem n 60000) 1000) = spec_seconds n"
    by (simp only: r2 spec_seconds_def)
qed

lemma Timer_formatTime_spec:
  assumes "0 \<le> n" "n < 2 ^ 53"
  shows "Timer_formatTime n =
      \<lparr> hours = zero_padded 2 (spec_hours n), minutes = zero_padded 2 (spec_minutes n),
        seconds = zero_padded 2 (spec_seconds n), milliseconds = zero_padded 3 (spec_millis n),
        formatted = spec_compact n, fullFormatted = spec_withMillis n \<rparr>"
proof -
  note sf = seconds_fields [OF assms]
  note nn = spec_fields_nonneg [OF assms(1)]
  show ?thesis
    unfolding Timer_formatTime_def Let_def sf
    by (simp only: padStart_nonneg [OF nn(1)] padStart_nonneg [OF nn(2)]
        padStart_nonneg [OF nn(3)] padStart_nonneg [OF nn(4)] spec_compact_def
        spec_withMillis_def append_assoc)
qed

lemma formatTime_spec:
  assumes "0 \<le> n" "n < 2 ^ 53"
  shows "formatTime n = \<lparr> time = spec_compact n, ms = ''.'' @ zero_padded 3 (spec_millis n) \<rparr>"
proof -
  note sf = seconds_fields [OF assms]
  note nn = spec_fields_nonneg [OF assms(1)]
  show ?thesis
    unfolding formatTime_def Let_def pad_def sf
    by (simp only: padStart_nonneg [OF nn(1)] padStart_nonneg [OF nn(2)]
        padStart_nonneg [OF nn(3)] padStart_nonneg [OF nn(4)] spec_compact_def)
qed

lemma TimerBase_formatTime_spec:
  assumes "0 \<le> n" "n < 2 ^ 53"
  shows "TimerBase_formatTime n = spec_withMillis n"
proof -
  have x: "max 0 n = n" using assms(1) by simp
  have f: "js_rem n 1000 = spec_millis n" by (rule seconds_fields(5) [OF assms])
  note mf = millis_fields [OF assms]
  note nn = spec_fields_nonneg [OF assms(1)]
  show ?thesis
    unfolding TimerBase_formatTime_def Let_def pad_len_def x mf f
    by (simp only: padStart_nonneg [OF nn(1)] padStart_nonneg [OF nn(2)]
        padStart_nonneg [OF nn(3)] padStart_nonneg [OF nn(4)] spec_compact_def
        spec_withMillis_def append_assoc)
qed

text \<open>Printing a number digit by digit.\<close>

lemma string_of_nat_digit: "n < 10 \<Longrightarrow> string_of_nat n = [digit_char n]"
  by (subst string_of_nat.simps) simp

lemma string_of_nat_more:
  "10 \<le> n \<Longrightarrow> string_of_nat n = string_of_nat (n div 10) @ [digit_char (n mod 10)]"
  by (subst string_of_nat.simps) simp

lemmas print_number = Number_toString_def padStart_def zero_padded_def string_of_nat_digit
  string_of_nat_more digit_char_def char_of_def bit_0

lemma TimerBase_formatTime_zero: "TimerBase_formatTime 0 = ''00:00:00.000''"
  by code_simp

text \<open>The other two formatters do not clamp: on a negative input their fields carry a
  minus sign.\<close>

lemma Timer_formatTime_negative_example:
  "fullFormatted (Timer_formatTime (- 1500)) = ''-1:-1:-2.-500''"
  by code_simp

section \<open>Time Formatter\<close>

text \<open>
  Claim C9, as amended. For every non-negative integer number of milliseconds below \<open>2^53\<close>
  (the integers that a JavaScript number holds exactly), each of the
  three formatters (\<open>Timer.formatTime\<close>, the procedural \<open>formatTime\<close>,
  \<open>TimerBase.formatTime\<close>) returns hours = floor(ms / 3,600,000),
  minutes = floor((ms mod 3,600,000) / 60,000), seconds = floor((ms mod 60,000) / 1000) and
  millis = ms mod 1000, the first three zero-padded to two digits and the last to three.
  Inside this range there is no further bound, so an hours value above 99 is printed as it is.
\<close>

theorem formatters_decompose:
  assumes "0 \<le> n" and "n < 2 ^ 53"
  shows "Timer_formatTime n =
           \<lparr> hours = zero_padded 2 (spec_hours n), minutes = zero_padded 2 (spec_minutes n),
             seconds = zero_padded 2 (spec_seconds n), milliseconds = zero_padded 3 (spec_millis n),
             formatted = spec_compact n, fullFormatted = spec_withMillis n \<rparr>
         \<and> formatTime n = \<lparr> time = spec_compact n, ms = ''.'' @ zero_padded 3 (spec_millis n) \<rparr>
         \<and> TimerBase_formatTime n = spec_withMillis n"
  using Timer_formatTime_spec [OF assms] formatTime_spec [OF assms]
    TimerBase_formatTime_spec [OF assms]
  by (intro conjI)

theorem formatters_decompose_witness:
  "(0::int) \<le> 363723004 \<and> (363723004::int) < 2 ^ 53
   \<and> fullFormatted (Timer_formatTime 363723004) = ''101:02:03.004''
   \<and> time (formatTime 363723004) = ''101:02:03'' \<and> ms (formatTime 363723004) = ''.004''
   \<and> TimerBase_formatTime 363723004 = ''101:02:03.004''"
proof -
  have h: "(0::int) \<le> 363723004" by simp
  have b: "(363723004::int) < 2 ^ 53" by simp
  have c: "spec_compact 363723004 = ''101:02:03''" by code_simp
  have m: "zero_padded 3 (spec_millis 363723004) = ''004''" by code_simp
  show ?thesis
    using formatters_decompose [OF h b] by (simp add: c m spec_withMillis_def)
qed

text \<open>
  Without the bound the statement fails for the two formatters that first divide by 1000: the
  quotient of \<open>2^63\<close> by 1000 is \<open>9223372036854775.808\<close>, the nearest double is
  \<open>9223372036854776\<close>, and \<open>Timer.formatTime\<close> and \<open>formatTime\<close> print 56 seconds where
  floor((ms mod 60,000) / 1000) is 55.
\<close>

theorem formatters_decompose_counterexample:
  "(0::int) \<le> 9223372036854775808
   \<and> seconds (Timer_formatTime 9223372036854775808) = ''56''
   \<and> time (formatTime 9223372036854775808) = ''2562047788015:12:56''
   \<and> ms (formatTime 9223372036854775808) = ''.808''
   \<and> zero_padded 2 (spec_seconds 9223372036854775808) = ''55''
   \<and> spec_compact 9223372036854775808 = ''2562047788015:12:55''"
proof -
  have q: "Math_floor (double_div 9223372036854775808 1000) = 9223372036854776"
    by code_simp
  have h: "Math_floor (double_div 9223372036854776 3600) = 2562047788015"
    by code_simp
  have m: "Math_floor (double_div 776 60) = 12"
    by code_simp
  have r: "js_rem 9223372036854776 3600 = 776" "js_rem 9223372036854776 60 = 56"
    by (simp_all add: js_rem_def)
  have a: "seconds (Timer_formatTime 9223372036854775808) = ''56''"
    unfolding Timer_formatTime_def Let_def q r by (simp add: print_number)
  have b: "time (formatTime 9223372036854775808) = ''2562047788015:12:56''"
    unfolding formatTime_def Let_def pad_def q h r m by (simp add: print_number)
  have b': "ms (formatTime 9223372036854775808) = ''.808''"
    unfolding formatTime_def Let_def by (simp add: js_rem_def print_number)
  have c: "zero_padded 2 (spec_seconds 9223372036854775808) = ''55''"
    by (simp add: spec_seconds_def print_number)
  have d: "spec_compact 9223372036854775808 = ''2562047788015:12:55''"
    by (simp add: spec_compact_def spec_hours_def spec_minutes_def spec_seconds_def print_number)
  show ?thesis using a b b' c d by simp
qed

text \<open>
  Claim C10. \<open>TimerBase.formatTime\<close> is total on negative inputs: it clamps the input to
  zero first, so for every \<open>ms < 0\<close> it returns what it returns for 0, the string
  \<open>00:00:00.000\<close>.
\<close>

theorem TimerBase_formatTime_negative:
  assumes "n < 0"
  shows "TimerBase_formatTime n = TimerBase_formatTime 0
         \<and> TimerBase_formatTime n = ''00:00:00.000''"
proof -
  have "max 0 n = 0" using assms by simp
  then have "TimerBase_formatTime n = TimerBase_formatTime 0"
    by (simp add: TimerBase_formatTime_def)
  then show ?thesis by (simp only: TimerBase_formatTime_zero)
qed

theorem TimerBase_formatTime_negative_witness:
  "(- 1500 :: int) < 0 \<and> TimerBase_formatTime (- 1500) = TimerBase_formatTime 0
   \<and> TimerBase_formatTime (- 1500) = ''00:00:00.000''"
proof -
  have h: "(- 1500 :: int) < 0" by simp
  show ?thesis using h TimerBase_formatTime_negative [OF h] by blast
qed

lemma is_digit_digit_char: "d \<le> 9 \<Longrightarrow> is_digit (digit_char d)"
  by (simp add: is_digit_def digit_char_def)

lemma digit_value_digit_char: "d \<le> 9 \<Longrightarrow> digit_value (digit_char d) = d"
  by (simp add: digit_value_def digit_char_def)

lemma Number_toString_digit: "i \<le> 9 \<Longrightarrow> Number_toString (int i) = [digit_char i]"
  by (simp add: Number_toString_def string_of_nat.simps)

text \<open>Printing a number and reading the digits back gives the number: \<open>decimal\<close> undoes
  \<open>string_of_nat\<close>, and leading zeros do not change the value.\<close>

lemma decimal_snoc: "decimal (s @ [c]) = 10 * decimal s + digit_value c"
  by (simp add: decimal_def)

lemma decimal_string_of_nat: "decimal (string_of_nat n) = n"
proof (induction n rule: string_of_nat.induct)
  case (1 n)
  show ?case
  proof (cases "n < 10")
    case True
    then show ?thesis
      by (subst string_of_nat.simps) (simp add: decimal_def digit_value_digit_char)
  next
    case False
    have m: "n mod 10 \<le> 9" by simp
    from False 1 have "decimal (string_of_nat (n div 10)) = n div 10" by simp
    with False show ?thesis
      by (subst string_of_nat.simps) (simp add: decimal_snoc digit_value_digit_char [OF m])
  qed
qed

lemma decimal_leading_zeros: "decimal (replicate k CHR ''0'' @ s) = decimal s"
proof -
  have "foldl (\<lambda>a c. 10 * a + digit_value c) 0 (replicate k CHR ''0'') = 0"
    by (induction k) (simp_all add: digit_value_def)
  then show ?thesis by (simp add: decimal_def)
qed

lemma decimal_zero_padded: "0 \<le> v \<Longrightarrow> int (decimal (zero_padded w v)) = v"
  by (simp add: zero_padded_def decimal_leading_zeros decimal_string_of_nat)

lemma string_of_nat_digits: "list_all is_digit (string_of_nat n)"
proof (induction n rule: string_of_nat.induct)
  case (1 n)
  show ?case
  proof (cases "n < 10")
    case True
    then show ?thesis by (subst string_of_nat.simps) (simp add: is_digit_digit_char)
  next
    case False
    have m: "n mod 10 \<le> 9" by simp
    from False 1 have "list_all is_digit (string_of_nat (n div 10))" by simp
    with False show ?thesis
      by (subst string_of_nat.simps) (simp add: is_digit_digit_char [OF m])
  qed
qed

lemma slice_last_short: "length s \<le> n \<Longrightarrow> slice_last n s = s"
  by (simp add: slice_last_def)

lemma length_slice_last: "length (slice_last n s) = min n (length s)"
  by (simp add: slice_last_def)

lemma slice_last_append: "slice_last n (slice_last n x @ y) = slice_last n (x @ y)"
proof (cases "length x \<le> n")
  case True
  then show ?thesis by (simp add: slice_last_def)
next
  case False
  then have "length x + length y - (length x - n + n) + (length x - n) = length x + length y - n"
    by simp
  then show ?thesis by (simp add: slice_last_def)
qed

lemma list_all_slice_last: "list_all P s \<Longrightarrow> list_all P (slice_last n s)"
  by (auto simp: slice_last_def list_all_iff dest: in_set_dropD)

lemma length_padStart: "length (padStart n c s) = max n (length s)"
  by (simp add: padStart_def)

lemma is_digit_zero: "is_digit CHR ''0''"
  by (simp add: is_digit_def)

lemma padStart_digits: "list_all is_digit s \<Longrightarrow> list_all is_digit (padStart n CHR ''0'' s)"
  using is_digit_zero by (auto simp: padStart_def list_all_iff)

lemma parseInt_pair:
  assumes "list_all is_digit s" "6 \<le> length s" "a \<le> 4"
  shows "parseInt (take 2 (drop a s)) = Some (int (decimal (take 2 (drop a s))))"
proof -
  have "take 2 (drop a s) \<noteq> []" using assms by simp
  moreover have "list_all is_digit (take 2 (drop a s))"
    using assms(1) by (auto simp: list_all_iff dest!: in_set_takeD in_set_dropD)
  ultimately show ?thesis by (simp add: parseInt_def)
qed


lemma parse_padded:
  assumes "list_all is_digit buf"
  defines "padded \<equiv> padStart 6 CHR ''0'' buf"
  shows "parseInt (substring 0 2 padded) = Some (int (decimal (take 2 padded)))"
    and "parseInt (substring 2 4 padded) = Some (int (decimal (take 2 (drop 2 padded))))"
    and "parseInt (substring 4 6 padded) = Some (int (decimal (take 2 (drop 4 padded))))"
proof -
  have d: "list_all is_digit padded" unfolding padded_def using assms(1) by (rule padStart_digits)
  have l: "6 \<le> length padded" by (simp add: padded_def length_padStart)
  show "parseInt (substring 0 2 padded) = Some (int (decimal (take 2 padded)))"
    using parseInt_pair [OF d l, of 0] by (simp add: substring_def)
  show "parseInt (substring 2 4 padded) = Some (int (decimal (take 2 (drop 2 padded))))"
    using parseInt_pair [OF d l, of 2] by (simp add: substring_def)
  show "parseInt (substring 4 6 padded) = Some (int (decimal (take 2 (drop 4 padded))))"
    using parseInt_pair [OF d l, of 4] by (simp add: substring_def)
qed

lemma spec_currentDuration_padStart:
  "spec_currentDuration buf =
     (int (decimal (take 2 (padStart 6 CHR ''0'' buf))) * 3600
      + int (decimal (take 2 (drop 2 (padStart 6 CHR ''0'' buf)))) * 60
      + int (decimal (take 2 (drop 4 (padStart 6 CHR ''0'' buf))))) * 1000"
  by (simp only: spec_currentDuration_def Let_def padStart_def)

lemma getCountdownMilliseconds_spec:
  assumes "list_all is_digit (cdDigits p)"
  shows "getCountdownMilliseconds p = Some (spec_currentDuration (cdDigits p))"
  unfolding getCountdownMilliseconds_def Let_def
  by (simp only: parse_padded [OF assms] spec_currentDuration_padStart prod.case option.case)

lemma setCountdownTime_spec:
  assumes "list_all is_digit (inputSequence ui)"
  shows "setCountdownTime ui =
     Some (if spec_currentDuration (inputSequence ui) \<le> 0
           then showAlert ''Please enter a valid time greater than zero'' ''error'' ui
           else ui\<lparr> countdownTimer := (countdownTimer ui)
                       \<lparr> initialTime := spec_currentDuration (inputSequence ui),
                         remainingTime := spec_currentDuration (inputSequence ui),
                         hasExpired := False \<rparr>,
                     countdownInput_hidden := True, countdownControls_hidden := False,
                     startCountdownBtn_hidden := False, clearCountdownBtn_hidden := False,
                     countdownExpired := False \<rparr>)"
  unfolding setCountdownTime_def Let_def
  by (simp add: parse_padded [OF assms] spec_currentDuration_padStart CountdownTimer_setTime_def)

lemma Countdown_updateInputDisplay_spec:
  assumes "list_all is_digit (concat (c_inputBuffer s))" "length (concat (c_inputBuffer s)) \<le> 6"
  shows "Countdown_updateInputDisplay s =
     Some (s\<lparr> c_remainingTime := spec_currentDuration (concat (c_inputBuffer s)),
               c_display := TimerBase_updateDisplay (spec_currentDuration (concat (c_inputBuffer s))) \<rparr>)"
proof -
  have n: "\<not> 6 < length (concat (c_inputBuffer s))" using assms(2) by simp
  have e: "h * 3600000 + m * 60000 + x * 1000 = (h * 3600 + m * 60 + x) * 1000" for h m x :: int
    by (simp add: algebra_simps)
  show ?thesis
    unfolding Countdown_updateInputDisplay_def Let_def
    by (simp add: n parse_padded [OF assms(1)] spec_currentDuration_padStart e
        Countdown_updateDisplay_def)
qed


lemma input_display_spec: "input_display sq = spec_display sq @ ''.000''"
  by (simp add: input_display_def spec_display_def substring_def padStart_def)

lemma updateCountdownDisplay_spec:
  "updateCountdownDisplay p = p\<lparr> cdDisplay := spec_display (cdDigits p), cdMs := ''.000'' \<rparr>"
  by (simp add: updateCountdownDisplay_def spec_display_def substring_def padStart_def)

lemma handleNumberInput_unfold:
  "handleNumberInput n ui =
     ui\<lparr> inputSequence := slice_last 6 (inputSequence ui @ n),
         countdownDisplay := input_display (slice_last 6 (inputSequence ui @ n)) \<rparr>"
  by (simp add: handleNumberInput_def Let_def)

lemma UIController_press_buffer:
  "length (inputSequence ui) \<le> 6 \<Longrightarrow>
   inputSequence (UIController_press ds ui) = slice_last 6 (inputSequence ui @ map digit_char ds)"
proof (induction ds arbitrary: ui)
  case Nil
  then show ?case by (simp add: UIController_press_def slice_last_short)
next
  case (Cons d ds)
  let ?u = "handleNumberInput [digit_char d] ui"
  have b: "inputSequence ?u = slice_last 6 (inputSequence ui @ [digit_char d])"
    by (simp add: handleNumberInput_unfold)
  then have "length (inputSequence ?u) \<le> 6" by (simp add: length_slice_last)
  from Cons.IH [OF this] have
    "inputSequence (UIController_press ds ?u)
       = slice_last 6 (slice_last 6 (inputSequence ui @ [digit_char d]) @ map digit_char ds)"
    by (simp only: b)
  then show ?case by (simp add: UIController_press_def slice_last_append)
qed

lemma UIController_press_display:
  "ds \<noteq> [] \<Longrightarrow>
   countdownDisplay (UIController_press ds ui)
     = spec_display (inputSequence (UIController_press ds ui)) @ ''.000''"
proof (induction ds rule: rev_induct)
  case Nil
  then show ?case by simp
next
  case (snoc d ds)
  show ?case
    by (simp add: UIController_press_def handleNumberInput_unfold input_display_spec)
qed

lemma UIController_press_digits:
  "list_all is_digit (inputSequence ui) \<Longrightarrow> \<forall>d\<in>set ds. d \<le> 9 \<Longrightarrow>
   list_all is_digit (inputSequence (UIController_press ds ui))"
proof (induction ds arbitrary: ui)
  case Nil
  then show ?case by (simp add: UIController_press_def)
next
  case (Cons d ds)
  have "list_all is_digit (inputSequence (handleNumberInput [digit_char d] ui))"
    using Cons.prems by (simp add: handleNumberInput_unfold list_all_slice_last is_digit_digit_char)
  from Cons.IH [OF this] Cons.prems(2) show ?case by (simp add: UIController_press_def)
qed

lemma digits_map_digit_char: "\<forall>d\<in>set ds. d \<le> 9 \<Longrightarrow> list_all is_digit (map digit_char ds)"
  by (simp add: list_all_iff is_digit_digit_char)

lemma page_press_buffer:
  "length (cdDigits p) \<le> 6 \<Longrightarrow> \<forall>d\<in>set ds. d \<le> 9 \<Longrightarrow>
   cdDigits (page_press ds p) = take 6 (cdDigits p @ map digit_char ds)"
proof (induction ds arbitrary: p)
  case Nil
  then show ?case by (simp add: page_press_def)
next
  case (Cons d ds)
  show ?case
  proof (cases "6 \<le> length (cdDigits p)")
    case True
    then have e: "digit_onclick d p = p" by (simp add: digit_onclick_def)
    from True Cons.prems(1) have "length (cdDigits p) = 6" by simp
    then have "take 6 (cdDigits p @ map digit_char ds) = take 6 (cdDigits p @ map digit_char (d # ds))"
      by simp
    with Cons.IH [OF Cons.prems(1)] Cons.prems(2) e show ?thesis
      by (simp add: page_press_def)
  next
    case False
    let ?q = "digit_onclick d p"
    have d9: "d \<le> 9" using Cons.prems(2) by simp
    have b: "cdDigits ?q = cdDigits p @ [digit_char d]"
      using False by (simp add: digit_onclick_def updateCountdownDisplay_spec Number_toString_digit [OF d9])
    then have "length (cdDigits ?q) \<le> 6" using False by simp
    from Cons.IH [OF this] Cons.prems(2) b show ?thesis by (simp add: page_press_def)
  qed
qed


lemma concat_singletons: "concat (map (\<lambda>c. [c]) b) = b"
  by (induction b) simp_all

lemma slice_last_full: "length b = 6 \<Longrightarrow> slice_last 6 (b @ [c]) = tl b @ [c]"
  by (cases b) (simp_all add: slice_last_def)

lemma Countdown_appendDigit_step:
  assumes buf: "c_inputBuffer s = map (\<lambda>c. [c]) b"
    and dig: "list_all is_digit b" and len: "length b \<le> 6" and d9: "d \<le> 9"
  defines "b' \<equiv> slice_last 6 (b @ [digit_char d])"
  shows "Countdown_appendDigit [digit_char d] s =
     Some (s\<lparr> c_inputBuffer := map (\<lambda>c. [c]) b',
               c_remainingTime := spec_currentDuration b',
               c_display := TimerBase_updateDisplay (spec_currentDuration b') \<rparr>)"
proof -
  let ?s1 = "if length (c_inputBuffer s) \<ge> 6 then s\<lparr> c_inputBuffer := tl (c_inputBuffer s) \<rparr> else s"
  let ?s2 = "?s1\<lparr> c_inputBuffer := c_inputBuffer ?s1 @ [[digit_char d]] \<rparr>"
  have nb: "c_inputBuffer ?s2 = map (\<lambda>c. [c]) b'"
  proof (cases "6 \<le> length b")
    case True
    with len have "length b = 6" by simp
    then show ?thesis
      using True buf by (simp add: b'_def slice_last_full map_tl)
  next
    case False
    then show ?thesis using buf by (simp add: b'_def slice_last_short)
  qed
  have s2: "?s2 = s\<lparr> c_inputBuffer := map (\<lambda>c. [c]) b' \<rparr>"
    using nb by (cases "6 \<le> length (c_inputBuffer s)") simp_all
  have dg: "list_all is_digit b'"
    unfolding b'_def using dig d9 by (intro list_all_slice_last) (simp add: is_digit_digit_char)
  have ln: "length b' \<le> 6" by (simp add: b'_def length_slice_last)
  have "Countdown_appendDigit [digit_char d] s = Countdown_updateInputDisplay ?s2"
    by (simp add: Countdown_appendDigit_def Let_def)
  also have "\<dots> = Countdown_updateInputDisplay (s\<lparr> c_inputBuffer := map (\<lambda>c. [c]) b' \<rparr>)"
    by (simp only: s2)
  also have "\<dots> = Some (s\<lparr> c_inputBuffer := map (\<lambda>c. [c]) b',
               c_remainingTime := spec_currentDuration b',
               c_display := TimerBase_updateDisplay (spec_currentDuration b') \<rparr>)"
    using dg ln by (subst Countdown_updateInputDisplay_spec) (simp_all add: concat_singletons)
  finally show ?thesis .
qed

lemma spec_currentDuration_empty: "spec_currentDuration [] = 0"
  by code_simp

lemma Countdown_press_buffer:
  assumes "c_inputBuffer s = map (\<lambda>c. [c]) b" "list_all is_digit b" "length b \<le> 6"
    "\<forall>d\<in>set ds. d \<le> 9" "c_remainingTime s = spec_currentDuration b"
  shows "\<exists>s'. Countdown_press ds s = Some s'
           \<and> c_inputBuffer s' = map (\<lambda>c. [c]) (slice_last 6 (b @ map digit_char ds))
           \<and> c_remainingTime s' = spec_currentDuration (slice_last 6 (b @ map digit_char ds))
           \<and> c_initialTime s' = c_initialTime s"
  using assms
proof (induction ds arbitrary: s b)
  case Nil
  then show ?case by (simp add: slice_last_short)
next
  case (Cons d ds)
  define b' where "b' = slice_last 6 (b @ [digit_char d])"
  define s1 where "s1 = s\<lparr> c_inputBuffer := map (\<lambda>c. [c]) b',
               c_remainingTime := spec_currentDuration b',
               c_display := TimerBase_updateDisplay (spec_currentDuration b') \<rparr>"
  have d9: "d \<le> 9" using Cons.prems(4) by simp
  have st: "Countdown_appendDigit [digit_char d] s = Some s1"
    unfolding s1_def b'_def by (rule Countdown_appendDigit_step [OF Cons.prems(1-3) d9])
  have i1: "c_inputBuffer s1 = map (\<lambda>c. [c]) b'" by (simp add: s1_def)
  have i2: "list_all is_digit b'"
    unfolding b'_def using Cons.prems(2) d9
    by (intro list_all_slice_last) (simp add: is_digit_digit_char)
  have i3: "length b' \<le> 6" by (simp add: b'_def length_slice_last)
  have i4: "\<forall>d\<in>set ds. d \<le> 9" using Cons.prems(4) by simp
  have i5: "c_remainingTime s1 = spec_currentDuration b'" by (simp add: s1_def)
  have e: "slice_last 6 (b' @ map digit_char ds) = slice_last 6 (b @ map digit_char (d # ds))"
    by (simp add: b'_def slice_last_append)
  from Cons.IH [OF i1 i2 i3 i4 i5] obtain s' where
    "Countdown_press ds s1 = Some s'"
    "c_inputBuffer s' = map (\<lambda>c. [c]) (slice_last 6 (b' @ map digit_char ds))"
    "c_remainingTime s' = spec_currentDuration (slice_last 6 (b' @ map digit_char ds))"
    "c_initialTime s' = c_initialTime s1"
    by blast
  then show ?case using st e by (simp add: s1_def)
qed

lemma spec_display_empty: "spec_display [] = ''00:00:00''"
  by code_simp

lemma UIController_press_cleared:
  fixes ui :: UIController
  assumes "\<forall>d\<in>set ds. d \<le> 9"
  defines "U \<equiv> UIController_press ds (clearCountdownInput ui)"
  shows "inputSequence U = slice_last 6 (map digit_char ds)"
    and "countdownDisplay U = spec_display (slice_last 6 (map digit_char ds)) @ ''.000''"
    and "list_all is_digit (inputSequence U)"
proof -
  have c: "inputSequence (clearCountdownInput ui) = []" by (simp add: clearCountdownInput_def)
  show b: "inputSequence U = slice_last 6 (map digit_char ds)"
    unfolding U_def by (subst UIController_press_buffer) (simp_all add: c)
  show "countdownDisplay U = spec_display (slice_last 6 (map digit_char ds)) @ ''.000''"
  proof (cases "ds = []")
    case True
    then show ?thesis
      by (simp add: U_def UIController_press_def clearCountdownInput_def slice_last_def
          spec_display_empty)
  next
    case False
    from UIController_press_display [OF False, of "clearCountdownInput ui"] b
    show ?thesis by (simp add: U_def)
  qed
  show "list_all is_digit (inputSequence U)"
    unfolding b using assms(1) by (intro list_all_slice_last digits_map_digit_char)
qed

lemma page_press_display:
  "cdDisplay p = spec_display (cdDigits p) \<Longrightarrow>
   cdDisplay (page_press ds p) = spec_display (cdDigits (page_press ds p))"
proof (induction ds arbitrary: p)
  case Nil
  then show ?case by (simp add: page_press_def)
next
  case (Cons d ds)
  have "cdDisplay (digit_onclick d p) = spec_display (cdDigits (digit_onclick d p))"
    using Cons.prems by (simp add: digit_onclick_def updateCountdownDisplay_spec)
  from Cons.IH [OF this] show ?case by (simp add: page_press_def)
qed

lemma list_all_take: "list_all P xs \<Longrightarrow> list_all P (take n xs)"
  by (auto simp: list_all_iff dest: in_set_takeD)

lemma page_press_cleared:
  fixes p :: page
  assumes "\<forall>d\<in>set ds. d \<le> 9"
  defines "P \<equiv> page_press ds (cdClearInputBtn_onclick p)"
  shows "cdDigits P = take 6 (map digit_char ds)"
    and "cdDisplay P = spec_display (take 6 (map digit_char ds))"
    and "getCountdownMilliseconds P = Some (spec_currentDuration (take 6 (map digit_char ds)))"
proof -
  let ?p0 = "cdClearInputBtn_onclick p"
  have c: "cdDigits ?p0 = []" and d: "cdDisplay ?p0 = spec_display (cdDigits ?p0)"
    by (simp_all add: cdClearInputBtn_onclick_def updateCountdownDisplay_spec)
  show b: "cdDigits P = take 6 (map digit_char ds)"
    unfolding P_def using assms(1) by (subst page_press_buffer) (simp_all add: c)
  show "cdDisplay P = spec_display (take 6 (map digit_char ds))"
    using page_press_display [OF d, of ds] b by (simp add: P_def)
  have "list_all is_digit (cdDigits P)"
    unfolding b using digits_map_digit_char [OF assms(1)] by (rule list_all_take)
  from getCountdownMilliseconds_spec [OF this] b
  show "getCountdownMilliseconds P = Some (spec_currentDuration (take 6 (map digit_char ds)))"
    by simp
qed

lemma Countdown_press_display:
  assumes "c_inputBuffer s = map (\<lambda>c. [c]) b" "list_all is_digit b" "length b \<le> 6"
    "\<forall>d\<in>set ds. d \<le> 9" "c_display s = TimerBase_updateDisplay (c_remainingTime s)"
    "Countdown_press ds s = Some s'"
  shows "c_display s' = TimerBase_updateDisplay (c_remainingTime s')"
  using assms
proof (induction ds arbitrary: s b)
  case Nil
  then show ?case by simp
next
  case (Cons d ds)
  define b' where "b' = slice_last 6 (b @ [digit_char d])"
  define s1 where "s1 = s\<lparr> c_inputBuffer := map (\<lambda>c. [c]) b',
               c_remainingTime := spec_currentDuration b',
               c_display := TimerBase_updateDisplay (spec_currentDuration b') \<rparr>"
  have d9: "d \<le> 9" using Cons.prems(4) by simp
  have st: "Countdown_appendDigit [digit_char d] s = Some s1"
    unfolding s1_def b'_def by (rule Countdown_appendDigit_step [OF Cons.prems(1-3) d9])
  have i1: "c_inputBuffer s1 = map (\<lambda>c. [c]) b'" by (simp add: s1_def)
  have i2: "list_all is_digit b'"
    unfolding b'_def using Cons.prems(2) d9
    by (intro list_all_slice_last) (simp add: is_digit_digit_char)
  have i3: "length b' \<le> 6" by (simp add: b'_def length_slice_last)
  have i4: "\<forall>d\<in>set ds. d \<le> 9" using Cons.prems(4) by simp
  have i5: "c_display s1 = TimerBase_updateDisplay (c_remainingTime s1)" by (simp add: s1_def)
  have i6: "Countdown_press ds s1 = Some s'" using Cons.prems(6) st by simp
  from Cons.IH [OF i1 i2 i3 i4 i5 i6] show ?case .
qed

lemma Countdown_resetInput_fields:
  "c_inputBuffer (Countdown_resetInput s) = []"
  "c_remainingTime (Countdown_resetInput s) = 0"
  "c_initialTime (Countdown_resetInput s) = 0"
  "c_display (Countdown_resetInput s) = TimerBase_updateDisplay 0"
  "c_isRunning (Countdown_resetInput s) = False"
  "c_timerInterval (Countdown_resetInput s) = False"
  "c_inputControls_hidden (Countdown_resetInput s) = False"
  "c_timerControls_hidden (Countdown_resetInput s) = True"
  "c_alerts (Countdown_resetInput s) = c_alerts s"
  by (simp_all add: Countdown_resetInput_def Countdown_updateButtonVisibility_def
      Countdown_updateControlVisibility_def Countdown_updateDisplay_def)

lemma Countdown_press_cleared:
  assumes "\<forall>d\<in>set ds. d \<le> 9"
  shows "\<exists>s'. Countdown_press ds (Countdown_resetInput s) = Some s'
           \<and> c_inputBuffer s' = map (\<lambda>c. [c]) (slice_last 6 (map digit_char ds))
           \<and> c_remainingTime s' = spec_currentDuration (slice_last 6 (map digit_char ds))
           \<and> c_display s' = TimerBase_updateDisplay (spec_currentDuration (slice_last 6 (map digit_char ds)))
           \<and> c_initialTime s' = 0"
proof -
  let ?s0 = "Countdown_resetInput s"
  have h1: "c_inputBuffer ?s0 = map (\<lambda>c. [c]) []" by (simp add: Countdown_resetInput_fields)
  have h2: "list_all is_digit []" and h3: "length ([]::string) \<le> 6" by simp_all
  have h5: "c_remainingTime ?s0 = spec_currentDuration []"
    by (simp add: Countdown_resetInput_fields spec_currentDuration_empty)
  have h6: "c_display ?s0 = TimerBase_updateDisplay (c_remainingTime ?s0)"
    by (simp add: Countdown_resetInput_fields)
  from Countdown_press_buffer [OF h1 h2 h3 assms h5] obtain s' where
    r: "Countdown_press ds ?s0 = Some s'"
      "c_inputBuffer s' = map (\<lambda>c. [c]) (slice_last 6 ([] @ map digit_char ds))"
      "c_remainingTime s' = spec_currentDuration (slice_last 6 ([] @ map digit_char ds))"
      "c_initialTime s' = c_initialTime ?s0"
    by blast
  from Countdown_press_display [OF h1 h2 h3 assms h6 r(1)]
  have "c_display s' = TimerBase_updateDisplay (c_remainingTime s')" .
  with r show ?thesis by (simp add: Countdown_resetInput_fields)
qed

section \<open>Digit Input Buffer\<close>

text \<open>
  Claim C8. For every buffer of at most 6 digits the duration that each implementation derives
  from it (\<open>getCountdownMilliseconds\<close>, the value \<open>setCountdownTime\<close> hands to the timer,
  the value \<open>updateInputDisplay\<close> stores) is the one the specification words: pad to 6 digits
  with leading zeros, split into HH, MM, SS, return \<open>(HH*3600 + MM*60 + SS) * 1000\<close>. Nothing
  checks that MM or SS are below 60.
\<close>

theorem currentDuration_arithmetic:
  assumes "list_all is_digit buf" and "length buf \<le> 6"
  shows "getCountdownMilliseconds (p\<lparr> cdDigits := buf \<rparr>) = Some (spec_currentDuration buf)
    \<and> setCountdownTime (ui\<lparr> inputSequence := buf \<rparr>) =
        Some (if spec_currentDuration buf \<le> 0
              then showAlert ''Please enter a valid time greater than zero'' ''error''
                     (ui\<lparr> inputSequence := buf \<rparr>)
              else ui\<lparr> inputSequence := buf,
                       countdownTimer := (countdownTimer ui)
                         \<lparr> initialTime := spec_currentDuration buf,
                           remainingTime := spec_currentDuration buf, hasExpired := False \<rparr>,
                       countdownInput_hidden := True, countdownControls_hidden := False,
                       startCountdownBtn_hidden := False, clearCountdownBtn_hidden := False,
                       countdownExpired := False \<rparr>)
    \<and> Countdown_updateInputDisplay (s\<lparr> c_inputBuffer := map (\<lambda>c. [c]) buf \<rparr>) =
        Some (s\<lparr> c_inputBuffer := map (\<lambda>c. [c]) buf,
                  c_remainingTime := spec_currentDuration buf,
                  c_display := TimerBase_updateDisplay (spec_currentDuration buf) \<rparr>)"
proof -
  have a: "getCountdownMilliseconds (p\<lparr> cdDigits := buf \<rparr>) = Some (spec_currentDuration buf)"
    using getCountdownMilliseconds_spec [of "p\<lparr> cdDigits := buf \<rparr>"] assms(1) by simp
  have b: "setCountdownTime (ui\<lparr> inputSequence := buf \<rparr>) =
        Some (if spec_currentDuration buf \<le> 0
              then showAlert ''Please enter a valid time greater than zero'' ''error''
                     (ui\<lparr> inputSequence := buf \<rparr>)
              else ui\<lparr> inputSequence := buf,
                       countdownTimer := (countdownTimer ui)
                         \<lparr> initialTime := spec_currentDuration buf,
                           remainingTime := spec_currentDuration buf, hasExpired := False \<rparr>,
                       countdownInput_hidden := True, countdownControls_hidden := False,
                       startCountdownBtn_hidden := False, clearCountdownBtn_hidden := False,
                       countdownExpired := False \<rparr>)"
    using setCountdownTime_spec [of "ui\<lparr> inputSequence := buf \<rparr>"] assms(1) by simp
  have c: "Countdown_updateInputDisplay (s\<lparr> c_inputBuffer := map (\<lambda>c. [c]) buf \<rparr>) =
        Some (s\<lparr> c_inputBuffer := map (\<lambda>c. [c]) buf,
                  c_remainingTime := spec_currentDuration buf,
                  c_display := TimerBase_updateDisplay (spec_currentDuration buf) \<rparr>)"
    using Countdown_updateInputDisplay_spec [of "s\<lparr> c_inputBuffer := map (\<lambda>c. [c]) buf \<rparr>"] assms
    by (simp add: concat_singletons)
  from a b c show ?thesis by (intro conjI)
qed

theorem currentDuration_arithmetic_witness:
  "list_all is_digit ''7599'' \<and> length ''7599'' \<le> 6
   \<and> getCountdownMilliseconds (page_new\<lparr> cdDigits := ''7599'' \<rparr>) = Some 4599000
   \<and> map_option (\<lambda>u. initialTime (countdownTimer u))
        (setCountdownTime (UIController_new\<lparr> inputSequence := ''7599'' \<rparr>)) = Some 4599000
   \<and> map_option c_remainingTime
        (Countdown_updateInputDisplay (Countdown_new\<lparr> c_inputBuffer := map (\<lambda>c. [c]) ''7599'' \<rparr>))
       = Some 4599000"
proof -
  have h1: "list_all is_digit ''7599''" by (simp add: is_digit_def)
  have h2: "length ''7599'' \<le> 6" by simp
  have v: "spec_currentDuration ''7599'' = 4599000" by code_simp
  note T = currentDuration_arithmetic [OF h1 h2, of page_new UIController_new Countdown_new,
      unfolded v]
  show ?thesis using T h1 by simp
qed

text \<open>
  Claim C1, as amended. Starting from an empty buffer and pressing any sequence of digits:
  in \<open>UIController.handleNumberInput\<close> and in \<open>Countdown.appendDigit\<close> the buffer is the last
  6 digits entered (a 7th digit pushes the oldest one out), the display shows them zero-padded
  as HH:MM:SS, and the buffered duration is their HHMMSS reading; pressing 1,2,3,4,5 shows
  00:00:01, 00:00:12, 00:01:23, 00:12:34, 01:23:45. The procedural digit handler ignores a
  press once 6 digits are held: its buffer is the first 6 digits entered, which is the same
  buffer as long as at most 6 digits have been pressed.
\<close>

theorem digit_buffer_shift:
  assumes "\<forall>d\<in>set ds. d \<le> 9"
  shows "inputSequence (UIController_press ds (clearCountdownInput ui))
           = slice_last 6 (map digit_char ds)
    \<and> countdownDisplay (UIController_press ds (clearCountdownInput ui))
           = spec_display (slice_last 6 (map digit_char ds)) @ ''.000''
    \<and> map_option (\<lambda>u. initialTime (countdownTimer u))
          (setCountdownTime (UIController_press ds (clearCountdownInput ui)))
           = Some (if spec_currentDuration (slice_last 6 (map digit_char ds)) \<le> 0
                   then initialTime (countdownTimer ui)
                   else spec_currentDuration (slice_last 6 (map digit_char ds)))
    \<and> (\<exists>s'. Countdown_press ds (Countdown_resetInput s) = Some s'
           \<and> c_inputBuffer s' = map (\<lambda>c. [c]) (slice_last 6 (map digit_char ds))
           \<and> c_remainingTime s' = spec_currentDuration (slice_last 6 (map digit_char ds))
           \<and> c_display s'
               = TimerBase_updateDisplay (spec_currentDuration (slice_last 6 (map digit_char ds))))
    \<and> cdDigits (page_press ds (cdClearInputBtn_onclick p)) = take 6 (map digit_char ds)
    \<and> cdDisplay (page_press ds (cdClearInputBtn_onclick p))
           = spec_display (take 6 (map digit_char ds))
    \<and> getCountdownMilliseconds (page_press ds (cdClearInputBtn_onclick p))
           = Some (spec_currentDuration (take 6 (map digit_char ds)))
    \<and> (length ds \<le> 6 \<longrightarrow> take 6 (map digit_char ds) = slice_last 6 (map digit_char ds))
    \<and> map (\<lambda>k. spec_display (slice_last 6 (map digit_char (take k [1, 2, 3, 4, 5]))))
          [1, 2, 3, 4, 5]
        = [''00:00:01'', ''00:00:12'', ''00:01:23'', ''00:12:34'', ''01:23:45'']"
proof -
  let ?U = "UIController_press ds (clearCountdownInput ui)"
  let ?L = "slice_last 6 (map digit_char ds)"
  note A = UIController_press_cleared [OF assms, of ui]
  have ct: "countdownTimer ?U = countdownTimer ui"
    unfolding UIController_press_def
    by (induction ds rule: rev_induct) (simp_all add: clearCountdownInput_def handleNumberInput_unfold)
  have a3: "map_option (\<lambda>u. initialTime (countdownTimer u)) (setCountdownTime ?U)
           = Some (if spec_currentDuration ?L \<le> 0 then initialTime (countdownTimer ui)
                   else spec_currentDuration ?L)"
    by (simp add: setCountdownTime_spec [OF A(3)] A(1) ct showAlert_def)
  note B = page_press_cleared [OF assms, of p]
  have b4: "length ds \<le> 6 \<longrightarrow> take 6 (map digit_char ds) = ?L"
    by (simp add: slice_last_def)
  have ex: "map (\<lambda>k. spec_display (slice_last 6 (map digit_char (take k [1, 2, 3, 4, 5]))))
          [1, 2, 3, 4, 5]
        = [''00:00:01'', ''00:00:12'', ''00:01:23'', ''00:12:34'', ''01:23:45'']"
    by code_simp
  from A(1) A(2) a3 Countdown_press_cleared [OF assms, of s] B(1) B(2) B(3) b4 ex
  show ?thesis by (intro conjI) blast+
qed

theorem digit_buffer_shift_witness:
  "list_all (\<lambda>d. d \<le> 9) [1, 2, 3, 4, 5, 6, 7 :: nat]
   \<and> inputSequence (UIController_press [1, 2, 3, 4, 5, 6, 7] (clearCountdownInput UIController_new))
        = ''234567''
   \<and> countdownDisplay (UIController_press [1, 2, 3, 4, 5, 6, 7] (clearCountdownInput UIController_new))
        = ''23:45:67.000''
   \<and> map_option (\<lambda>u. initialTime (countdownTimer u))
        (setCountdownTime (UIController_press [1, 2, 3, 4, 5, 6, 7] (clearCountdownInput UIController_new)))
        = Some 85567000
   \<and> cdDigits (page_press [1, 2, 3, 4, 5, 6, 7] (cdClearInputBtn_onclick page_new)) = ''123456''
   \<and> getCountdownMilliseconds (page_press [1, 2, 3, 4, 5, 6, 7] (cdClearInputBtn_onclick page_new))
        = Some 45296000"
proof -
  have h: "\<forall>d\<in>set [1, 2, 3, 4, 5, 6, 7 :: nat]. d \<le> 9" by simp
  have l: "slice_last 6 (map digit_char [1, 2, 3, 4, 5, 6, 7]) = ''234567''" by code_simp
  have f: "take 6 (map digit_char [1, 2, 3, 4, 5, 6, 7]) = ''123456''" by code_simp
  have d: "spec_display ''234567'' = ''23:45:67''" by code_simp
  have v: "spec_currentDuration ''234567'' = 85567000" by code_simp
  have w: "spec_currentDuration ''123456'' = 45296000" by code_simp
  note T = digit_buffer_shift [OF h, of UIController_new Countdown_new page_new,
      unfolded l f d v w]
  show ?thesis using T h by simp
qed

text \<open>The claim as written fails on the procedural page: after 1,2,3,4,5,6,7 its buffer is
  not the last six digits.\<close>

theorem digit_buffer_shift_counterexample:
  "cdDigits (page_press [1, 2, 3, 4, 5, 6, 7] (cdClearInputBtn_onclick page_new))
     \<noteq> slice_last 6 (map digit_char [1, 2, 3, 4, 5, 6, 7])"
  by code_simp

lemma run_frames_Cons: "run_frames (f # fs) ui = run_frames fs (frame_step f ui)"
  by (simp add: run_frames_def)

lemma run_frames_append: "run_frames (fs @ gs) ui = run_frames gs (run_frames fs ui)"
  by (simp add: run_frames_def)

lemma frames_after_notification:
  assumes "\<not> isRunning (countdownTimer ui)" "countdownExpired ui"
  shows "alerts (run_frames fs ui) = alerts ui
         \<and> countdownTimer (run_frames fs ui) = countdownTimer ui"
  using assms
proof (induction fs arbitrary: ui)
  case Nil
  then show ?case by (simp add: run_frames_def)
next
  case (Cons f fs)
  have s: "\<not> isRunning (countdownTimer (frame_step f ui)) \<and> countdownExpired (frame_step f ui)
           \<and> alerts (frame_step f ui) = alerts ui
           \<and> countdownTimer (frame_step f ui) = countdownTimer ui"
    using Cons.prems
    by (cases f) (simp_all add: CountdownTimer_update_def updateDisplays_def Let_def)
  then have p: "\<not> isRunning (countdownTimer (frame_step f ui))" "countdownExpired (frame_step f ui)"
    by blast+
  from Cons.IH [OF p] s show ?case by (simp add: run_frames_Cons)
qed

lemma expirations_showAlert:
  "expirations (showAlert ''Countdown has expired!'' ''warning'' ui) = Suc (expirations ui)"
  by (simp add: expirations_def showAlert_def)

lemma frames_after_expiry:
  assumes "\<not> isRunning (countdownTimer ui)" "hasExpired (countdownTimer ui)"
    "remainingTime (countdownTimer ui) = 0"
    "\<not> countdownExpired ui" "\<not> countdownScreen_hidden ui" "\<not> countdownControls_hidden ui"
  shows "expirations (run_frames fs ui)
           = expirations ui + (if DisplayFrame \<in> set fs then 1 else 0)
         \<and> remainingTime (countdownTimer (run_frames fs ui)) = 0
         \<and> hasExpired (countdownTimer (run_frames fs ui))
         \<and> \<not> isRunning (countdownTimer (run_frames fs ui))"
  using assms
proof (induction fs arbitrary: ui)
  case Nil
  then show ?case by (simp add: run_frames_def)
next
  case (Cons f fs)
  show ?case
  proof (cases f)
    case (TimerFrame now)
    have "frame_step f ui = ui"
      using Cons.prems(1) by (simp add: TimerFrame CountdownTimer_update_def)
    with Cons.IH [OF Cons.prems] show ?thesis by (simp add: run_frames_Cons TimerFrame)
  next
    case DisplayFrame
    let ?u = "frame_step f ui"
    have a: "\<not> isRunning (countdownTimer ?u)" "countdownExpired ?u"
      "hasExpired (countdownTimer ?u)" "remainingTime (countdownTimer ?u) = 0"
      using Cons.prems
      by (simp_all add: DisplayFrame updateDisplays_def Let_def CountdownTimer_isExpired_def
          CountdownTimer_stop_def showAlert_def)
    have e: "expirations ?u = Suc (expirations ui)"
      using Cons.prems
      by (simp add: DisplayFrame updateDisplays_def Let_def CountdownTimer_isExpired_def
          expirations_def showAlert_def)
    from frames_after_notification [OF a(1,2), of fs] a e
    show ?thesis by (simp add: run_frames_Cons DisplayFrame expirations_def)
  qed
qed

lemma frames_while_running:
  assumes "isRunning (countdownTimer ui)" "\<not> hasExpired (countdownTimer ui)"
    "initialTime (countdownTimer ui) = D" "startTime (countdownTimer ui) = t0" "0 < D"
    "\<not> countdownExpired ui" "\<not> countdownScreen_hidden ui" "\<not> countdownControls_hidden ui"
  shows "expirations (run_frames fs ui)
           = expirations ui + (if expiry_shown (t0 + D) fs then 1 else 0)
         \<and> (expiry_reached (t0 + D) fs \<longrightarrow>
               remainingTime (countdownTimer (run_frames fs ui)) = 0
               \<and> hasExpired (countdownTimer (run_frames fs ui))
               \<and> \<not> isRunning (countdownTimer (run_frames fs ui)))
         \<and> (\<not> expiry_reached (t0 + D) fs \<longrightarrow>
               isRunning (countdownTimer (run_frames fs ui))
               \<and> \<not> hasExpired (countdownTimer (run_frames fs ui)))"
  using assms
proof (induction fs arbitrary: ui)
  case Nil
  then show ?case by (simp add: run_frames_def)
next
  case (Cons f fs)
  show ?case
  proof (cases f)
    case DisplayFrame
    let ?u = "frame_step f ui"
    have k: "countdownTimer ?u = countdownTimer ui" "countdownExpired ?u = countdownExpired ui"
      "countdownScreen_hidden ?u = countdownScreen_hidden ui"
      "countdownControls_hidden ?u = countdownControls_hidden ui" "alerts ?u = alerts ui"
      using Cons.prems
      by (simp_all add: DisplayFrame updateDisplays_def Let_def CountdownTimer_isExpired_def)
    have e: "expirations ?u = expirations ui" by (simp add: expirations_def k)
    have r: "isRunning (countdownTimer ?u)" "\<not> hasExpired (countdownTimer ?u)"
      "initialTime (countdownTimer ?u) = D" "startTime (countdownTimer ?u) = t0"
      "\<not> countdownExpired ?u" "\<not> countdownScreen_hidden ?u" "\<not> countdownControls_hidden ?u"
      using Cons.prems by (simp_all only: k not_False_eq_True)
    from Cons.IH [OF r(1-4) Cons.prems(5) r(5-7)] e show ?thesis
      by (simp add: run_frames_Cons DisplayFrame)
  next
    case (TimerFrame now)
    let ?u = "frame_step f ui"
    have fl: "countdownExpired ?u = countdownExpired ui"
      "countdownScreen_hidden ?u = countdownScreen_hidden ui"
      "countdownControls_hidden ?u = countdownControls_hidden ui" "alerts ?u = alerts ui"
      by (simp_all add: TimerFrame)
    have ex: "expirations ?u = expirations ui" by (simp add: expirations_def fl)
    show ?thesis
    proof (cases "t0 + D \<le> now")
      case True
      have x: "\<not> isRunning (countdownTimer ?u)" "hasExpired (countdownTimer ?u)"
        "remainingTime (countdownTimer ?u) = 0"
        using Cons.prems True by (simp_all add: TimerFrame CountdownTimer_update_def Let_def)
      have v: "\<not> countdownExpired ?u" "\<not> countdownScreen_hidden ?u"
        "\<not> countdownControls_hidden ?u"
        using Cons.prems by (simp_all only: fl not_False_eq_True)
      from frames_after_expiry [OF x v, of fs] ex True
      show ?thesis by (simp add: run_frames_Cons TimerFrame)
    next
      case False
      have r: "isRunning (countdownTimer ?u)" "\<not> hasExpired (countdownTimer ?u)"
        "initialTime (countdownTimer ?u) = D" "startTime (countdownTimer ?u) = t0"
        using Cons.prems False by (simp_all add: TimerFrame CountdownTimer_update_def Let_def)
      have v: "\<not> countdownExpired ?u" "\<not> countdownScreen_hidden ?u"
        "\<not> countdownControls_hidden ?u"
        using Cons.prems by (simp_all only: fl not_False_eq_True)
      from Cons.IH [OF r Cons.prems(5) v] ex False
      show ?thesis by (simp add: run_frames_Cons TimerFrame)
    qed
  qed
qed

lemma expiry_shown_append: "expiry_shown dl fs \<Longrightarrow> expiry_shown dl (fs @ gs)"
  by (induction dl fs rule: expiry_shown.induct) (auto split: if_splits)

section \<open>Countdown Engine: expiration\<close>

lemma startCountdown_running:
  fixes t0 :: int
  assumes "0 < d" "\<not> isRunning c" "\<not> countdownScreen_hidden ui" "\<not> countdownControls_hidden ui"
  defines "c1 \<equiv> c\<lparr> initialTime := d, remainingTime := d, hasExpired := False \<rparr>"
  defines "u \<equiv> startCountdown t0 (ui\<lparr> countdownTimer := c1 \<rparr>)"
  shows "isRunning (countdownTimer u)" "\<not> hasExpired (countdownTimer u)"
    "initialTime (countdownTimer u) = d" "startTime (countdownTimer u) = t0"
    "\<not> countdownExpired u" "\<not> countdownScreen_hidden u" "\<not> countdownControls_hidden u"
    "expirations u = expirations ui"
  using assms(1-4)
  by (simp_all add: u_def c1_def startCountdown_def CountdownTimer_start_def
      CountdownTimer_update_def Let_def expirations_def)

text \<open>
  Within one run the notification is shown once. Configure a positive duration \<open>d\<close> and
  start at clock \<open>t0\<close>, on the countdown screen with the timer controls shown. Whatever
  frames follow, the expiration alert is shown once if a timer frame read a clock at or past
  \<open>t0 + d\<close> and a display frame came after it, and not at all otherwise; from that timer
  frame on the timer is expired and stopped with nothing remaining; and once the alert has
  been shown no further frame shows another.
\<close>

lemma frames_expire_once:
  assumes "0 < d" and "\<not> isRunning (countdownTimer ui)"
    and "\<not> countdownScreen_hidden ui" and "\<not> countdownControls_hidden ui"
  shows "case CountdownTimer_setTime d (countdownTimer ui) of
           Inl e \<Rightarrow> False
         | Inr c1 \<Rightarrow>
            (let u = startCountdown t0 (ui\<lparr> countdownTimer := c1 \<rparr>);
                 final = run_frames fs u
             in expirations final = expirations ui + (if expiry_shown (t0 + d) fs then 1 else 0)
                \<and> (expiry_reached (t0 + d) fs \<longrightarrow>
                      remainingTime (countdownTimer final) = 0
                      \<and> hasExpired (countdownTimer final)
                      \<and> \<not> isRunning (countdownTimer final))
                \<and> (expiry_shown (t0 + d) fs \<longrightarrow>
                      expirations (run_frames (fs @ gs) u) = expirations final))"
proof -
  define c1 where "c1 = (countdownTimer ui)\<lparr> initialTime := d, remainingTime := d, hasExpired := False \<rparr>"
  define u where "u = startCountdown t0 (ui\<lparr> countdownTimer := c1 \<rparr>)"
  have st: "CountdownTimer_setTime d (countdownTimer ui) = Inr c1"
    using assms(1) by (simp add: CountdownTimer_setTime_def c1_def)
  note R = startCountdown_running [OF assms, of t0, folded c1_def, folded u_def]
  note F = frames_while_running [OF R(1-4) assms(1) R(5-7)]
  have one: "expirations (run_frames fs u)
               = expirations ui + (if expiry_shown (t0 + d) fs then 1 else 0)"
    using F [of fs] R(8) by simp
  have two: "expiry_reached (t0 + d) fs \<longrightarrow>
               remainingTime (countdownTimer (run_frames fs u)) = 0
               \<and> hasExpired (countdownTimer (run_frames fs u))
               \<and> \<not> isRunning (countdownTimer (run_frames fs u))"
    using F [of fs] by blast
  have three: "expiry_shown (t0 + d) fs \<longrightarrow>
                 expirations (run_frames (fs @ gs) u) = expirations (run_frames fs u)"
  proof
    assume s: "expiry_shown (t0 + d) fs"
    then have "expiry_shown (t0 + d) (fs @ gs)" by (rule expiry_shown_append)
    with s F [of fs] F [of "fs @ gs"] show
      "expirations (run_frames (fs @ gs) u) = expirations (run_frames fs u)"
      by simp
  qed
  from one two three show ?thesis
    unfolding st sum.case Let_def u_def [symmetric] by (intro conjI)
qed

text \<open>The timer frame that reads a clock at or past the deadline, and the display frame
  after it: the notification is shown and the Start button is put back.\<close>

lemma expiry_frames:
  assumes "isRunning (countdownTimer ui)" "initialTime (countdownTimer ui) = D"
    "startTime (countdownTimer ui) = t0" "t0 + D \<le> now" "\<not> countdownExpired ui"
    "\<not> countdownScreen_hidden ui" "\<not> countdownControls_hidden ui"
  shows "expirations (run_frames [TimerFrame now, DisplayFrame] ui) = Suc (expirations ui)"
    and "\<not> isRunning (countdownTimer (run_frames [TimerFrame now, DisplayFrame] ui))"
    and "remainingTime (countdownTimer (run_frames [TimerFrame now, DisplayFrame] ui)) = 0"
    and "hasExpired (countdownTimer (run_frames [TimerFrame now, DisplayFrame] ui))"
    and "\<not> startCountdownBtn_hidden (run_frames [TimerFrame now, DisplayFrame] ui)"
    and "\<not> countdownScreen_hidden (run_frames [TimerFrame now, DisplayFrame] ui)"
    and "\<not> countdownControls_hidden (run_frames [TimerFrame now, DisplayFrame] ui)"
  using assms
  by (simp_all add: run_frames_def CountdownTimer_update_def updateDisplays_def Let_def
      CountdownTimer_isExpired_def CountdownTimer_stop_def showAlert_def expirations_def)

text \<open>
  Once the timer has expired, a click on Start does not start it (nothing remains, so
  \<open>CountdownTimer.start\<close> returns after its warning and \<open>hasExpired\<close> stays set), but
  \<open>startCountdown\<close> clears \<open>countdownExpired\<close> all the same: the next display frame takes
  the expiration for a new one.
\<close>

lemma start_after_expiry:
  assumes "\<not> isRunning (countdownTimer ui)" "remainingTime (countdownTimer ui) = 0"
  shows "\<not> isRunning (countdownTimer (startCountdown now ui))"
    and "remainingTime (countdownTimer (startCountdown now ui)) = 0"
    and "hasExpired (countdownTimer (startCountdown now ui)) = hasExpired (countdownTimer ui)"
    and "\<not> countdownExpired (startCountdown now ui)"
  using assms by (simp_all add: startCountdown_def CountdownTimer_start_def)

lemma notification_repeats:
  assumes "\<not> isRunning (countdownTimer ui)" "remainingTime (countdownTimer ui) = 0"
    "hasExpired (countdownTimer ui)" "\<not> countdownScreen_hidden ui"
    "\<not> countdownControls_hidden ui"
  shows "expirations (run_frames [TimerFrame t, DisplayFrame] (startCountdown now ui))
          = Suc (expirations ui)"
    and "\<not> isRunning (countdownTimer (run_frames [TimerFrame t, DisplayFrame] (startCountdown now ui)))"
    and "remainingTime (countdownTimer (run_frames [TimerFrame t, DisplayFrame] (startCountdown now ui)))
          = 0"
    and "hasExpired (countdownTimer (run_frames [TimerFrame t, DisplayFrame] (startCountdown now ui)))"
    and "\<not> startCountdownBtn_hidden (run_frames [TimerFrame t, DisplayFrame] (startCountdown now ui))"
    and "\<not> countdownScreen_hidden (run_frames [TimerFrame t, DisplayFrame] (startCountdown now ui))"
    and "\<not> countdownControls_hidden (run_frames [TimerFrame t, DisplayFrame] (startCountdown now ui))"
  using assms
  by (simp_all add: run_frames_def startCountdown_def CountdownTimer_start_def
      CountdownTimer_update_def updateDisplays_def Let_def CountdownTimer_isExpired_def
      CountdownTimer_stop_def showAlert_def expirations_def)

text \<open>
  Claim C2 says that the expiration notification is emitted exactly once per run and that no
  tick after the expiration emits another. In \<open>UIController\<close> it is emitted again without a
  new run. Enter 5 and confirm (5000 ms), start at clock 0, let the timer frame at clock 5000
  and a display frame pass: the timer has expired with nothing remaining, the notification
  has been shown once, and the display frame has put the Start button back. Click it at clock
  6000: the timer does not run and nothing remains, yet the next display frame shows the
  notification a second time; another click at clock 7000 and it is shown a third time.
\<close>

theorem countdown_alert_repeats:
  "case setCountdownTime (UIController_press [5] UIController_new) of
     None \<Rightarrow> False
   | Some configured \<Rightarrow>
       (let expired = run_frames [TimerFrame 5000, DisplayFrame] (startCountdown 0 configured);
            again = run_frames [TimerFrame 6016, DisplayFrame] (startCountdown 6000 expired);
            third = run_frames [TimerFrame 7016, DisplayFrame] (startCountdown 7000 again)
        in initialTime (countdownTimer configured) = 5000
           \<and> isRunning (countdownTimer (startCountdown 0 configured))
           \<and> expirations expired = 1
           \<and> hasExpired (countdownTimer expired)
           \<and> remainingTime (countdownTimer expired) = 0
           \<and> \<not> isRunning (countdownTimer expired)
           \<and> \<not> startCountdownBtn_hidden expired
           \<and> \<not> isRunning (countdownTimer (startCountdown 6000 expired))
           \<and> remainingTime (countdownTimer (startCountdown 6000 expired)) = 0
           \<and> expirations again = 2
           \<and> \<not> isRunning (countdownTimer again)
           \<and> remainingTime (countdownTimer again) = 0
           \<and> \<not> startCountdownBtn_hidden again
           \<and> expirations third = 3)"
proof -
  define base where "base = UIController_press [5] UIController_new"
  have d: "inputSequence base = ''5''"
    by (simp add: base_def UIController_press_def handleNumberInput_unfold UIController_new_def
        resetCountdownUI_def clearCountdownInput_def slice_last_def digit_char_def char_of_def
        bit_0)
  have v: "spec_currentDuration ''5'' = 5000" by code_simp
  have g: "list_all is_digit (inputSequence base)"
    by (simp add: d is_digit_def)
  have f: "countdownTimer base = CountdownTimer_new" "alerts base = []"
    "\<not> countdownScreen_hidden base"
    by (simp_all add: base_def UIController_press_def handleNumberInput_unfold UIController_new_def
        resetCountdownUI_def clearCountdownInput_def)
  define configured where "configured =
      base\<lparr> countdownTimer := (countdownTimer base)
                       \<lparr> initialTime := 5000, remainingTime := 5000, hasExpired := False \<rparr>,
            countdownInput_hidden := True, countdownControls_hidden := False,
            startCountdownBtn_hidden := False, clearCountdownBtn_hidden := False,
            countdownExpired := False \<rparr>"
  define started where "started = startCountdown 0 configured"
  define expired where "expired = run_frames [TimerFrame 5000, DisplayFrame] started"
  define again where
    "again = run_frames [TimerFrame 6016, DisplayFrame] (startCountdown 6000 expired)"
  define third where
    "third = run_frames [TimerFrame 7016, DisplayFrame] (startCountdown 7000 again)"
  have sc: "setCountdownTime base = Some configured"
    using setCountdownTime_spec [OF g] by (simp add: d v configured_def)
  have c: "initialTime (countdownTimer configured) = 5000"
    by (simp add: configured_def)
  have s: "isRunning (countdownTimer started)" "initialTime (countdownTimer started) = 5000"
    "startTime (countdownTimer started) = 0" "\<not> countdownExpired started"
    "\<not> countdownScreen_hidden started" "\<not> countdownControls_hidden started"
    "expirations started = 0"
    by (simp_all add: started_def configured_def f startCountdown_def CountdownTimer_start_def
        CountdownTimer_update_def CountdownTimer_new_def Let_def expirations_def)
  have t: "(0::int) + 5000 \<le> 5000" by simp
  note e = expiry_frames [OF s(1-3) t s(4-6), folded expired_def]
  note b = start_after_expiry [OF e(2,3), of 6000]
  note a = notification_repeats [OF e(2-4) e(6,7), where now = 6000 and t = 6016, folded again_def]
  note h = notification_repeats [OF a(2-4) a(6,7), where now = 7000 and t = 7016, folded third_def]
  have "initialTime (countdownTimer configured) = 5000
      \<and> isRunning (countdownTimer started)
      \<and> expirations expired = 1
      \<and> hasExpired (countdownTimer expired)
      \<and> remainingTime (countdownTimer expired) = 0
      \<and> \<not> isRunning (countdownTimer expired)
      \<and> \<not> startCountdownBtn_hidden expired
      \<and> \<not> isRunning (countdownTimer (startCountdown 6000 expired))
      \<and> remainingTime (countdownTimer (startCountdown 6000 expired)) = 0
      \<and> expirations again = 2
      \<and> \<not> isRunning (countdownTimer again)
      \<and> remainingTime (countdownTimer again) = 0
      \<and> \<not> startCountdownBtn_hidden again
      \<and> expirations third = 3"
    using c s(1) e b a h by (simp add: s(7))
  then show ?thesis
    unfolding base_def [symmetric] sc option.case Let_def third_def again_def expired_def
      started_def .
qed

lemma cd_run_Cons: "cd_run (ev # es) w = cd_run es (cd_step ev w)"
  by (simp add: cd_run_def)

lemma cd_invariant_new: "cd_invariant (now, CountdownTimer_new)"
  by (simp add: cd_invariant_def CountdownTimer_new_def)

lemma cd_step_invariant: "cd_invariant w \<Longrightarrow> cd_invariant (cd_step ev w)"
proof (cases w)
  case (Pair now c)
  assume "cd_invariant w"
  then have i: "0 \<le> remainingTime c" "remainingTime c \<le> initialTime c"
    "\<not> isRunning c \<or> startTime c \<le> now"
    by (simp_all add: Pair cd_invariant_def)
  show ?thesis
  proof (cases ev)
    case (Advance n)
    then show ?thesis using i by (auto simp: Pair cd_invariant_def)
  next
    case (SetTime n)
    then show ?thesis using i by (simp add: Pair cd_invariant_def CountdownTimer_setTime_def)
  next
    case Start
    then show ?thesis using i
      by (simp add: Pair cd_invariant_def CountdownTimer_start_def CountdownTimer_update_def Let_def)
  next
    case Stop
    then show ?thesis using i by (simp add: Pair cd_invariant_def CountdownTimer_stop_def)
  next
    case Reset
    then show ?thesis using i
      by (simp add: Pair cd_invariant_def CountdownTimer_reset_def CountdownTimer_stop_def Let_def)
  next
    case Clear
    then show ?thesis using i
      by (simp add: Pair cd_invariant_def CountdownTimer_clear_def CountdownTimer_stop_def)
  next
    case Frame
    then show ?thesis using i
      by (auto simp: Pair cd_invariant_def CountdownTimer_update_def Let_def)
  qed
qed

lemma cd_run_invariant: "cd_invariant w \<Longrightarrow> cd_invariant (cd_run es w)"
proof (induction es arbitrary: w)
  case Nil
  then show ?case by (simp add: cd_run_def)
next
  case (Cons ev es)
  from Cons.IH [OF cd_step_invariant [OF Cons.prems]] show ?case by (simp add: cd_run_Cons)
qed

lemma cd_step_keeps_initialTime:
  "\<not> changes_configuration ev \<Longrightarrow> initialTime (snd (cd_step ev w)) = initialTime (snd w)"
  by (cases w; cases ev)
    (simp_all add: changes_configuration_def CountdownTimer_start_def CountdownTimer_update_def
      CountdownTimer_stop_def CountdownTimer_reset_def Let_def)

text \<open>\<open>start\<close> on a paused timer measures the new run against \<open>initialTime\<close>: the time
  that had already elapsed before the pause is counted again.\<close>

lemma CountdownTimer_start_reloads_initialTime:
  assumes "\<not> isRunning c" "0 < remainingTime c" "0 < initialTime c"
  shows "remainingTime (CountdownTimer_start now c) = initialTime c"
  using assms by (simp add: CountdownTimer_start_def CountdownTimer_update_def Let_def)

text \<open>The procedural page and the \<open>TimerBase\<close> countdown resume from the time that was left.\<close>

lemma page_pause_resume_conserves:
  "cdEnd (cdContBtn_onclick t2 (cdPauseBtn_onclick t1 p)) - t2 = max 0 (cdEnd p - t1)"
  by (simp add: cdContBtn_onclick_def cdPauseBtn_onclick_def setInterval_def clearInterval_def
      Let_def split: option.splits)

lemma Countdown_pause_resume_conserves:
  assumes "0 < c_remainingTime s"
  shows "c_remainingTime (Countdown_continue t2 (Countdown_pause s)) = c_remainingTime s"
  using assms
  by (simp add: Countdown_continue_def Countdown_start_def Countdown_pause_def
      Countdown_updateButtonVisibility_def)

section \<open>Countdown Engine: pause and resume\<close>

text \<open>
  Claim C3 says that pausing and resuming a countdown neither loses nor gains time. In
  \<open>CountdownTimer\<close> it gains time: configure 5000 ms, start, let 2000 ms pass (3000 ms
  remain), pause, and resume later: the remaining time is 5000 ms again; after 3000 ms more
  of running (5000 ms in all) the countdown has not expired, it expires only after 7000 ms of
  running.
\<close>

theorem CountdownTimer_resume_regains_time:
  "remainingTime (snd (cd_run [SetTime 5000, Start, Advance 2000, Frame, Stop]
        (0, CountdownTimer_new))) = 3000
   \<and> remainingTime (snd (cd_run [SetTime 5000, Start, Advance 2000, Frame, Stop, Advance 8000, Start]
        (0, CountdownTimer_new))) = 5000
   \<and> remainingTime (snd (cd_run [SetTime 5000, Start, Advance 2000, Frame, Stop, Advance 8000, Start,
        Advance 3000, Frame] (0, CountdownTimer_new))) = 2000
   \<and> \<not> hasExpired (snd (cd_run [SetTime 5000, Start, Advance 2000, Frame, Stop, Advance 8000, Start,
        Advance 3000, Frame] (0, CountdownTimer_new)))
   \<and> hasExpired (snd (cd_run [SetTime 5000, Start, Advance 2000, Frame, Stop, Advance 8000, Start,
        Advance 3000, Frame, Advance 2000, Frame] (0, CountdownTimer_new)))"
  by (simp add: cd_run_def CountdownTimer_new_def CountdownTimer_setTime_def CountdownTimer_start_def
      CountdownTimer_update_def CountdownTimer_stop_def Let_def)

section \<open>Countdown session invariant\<close>

lemma Countdown_setTime_accepts:
  assumes "c_inputBuffer s \<noteq> []" "0 < c_remainingTime s" "c_remainingTime s \<le> maxTimeMs"
  shows "Countdown_setTime s =
           Countdown_updateButtonVisibility Initial
             (Countdown_updateControlVisibility TimerControls
                (s\<lparr> c_initialTime := c_remainingTime s \<rparr>))"
  using assms by (simp add: Countdown_setTime_def)

lemma Countdown_setTime_accepts_fields:
  assumes "c_inputBuffer s \<noteq> []" "0 < c_remainingTime s" "c_remainingTime s \<le> maxTimeMs"
  shows "c_initialTime (Countdown_setTime s) = c_remainingTime s"
    "c_remainingTime (Countdown_setTime s) = c_remainingTime s"
    "c_inputBuffer (Countdown_setTime s) = c_inputBuffer s"
    "c_alerts (Countdown_setTime s) = c_alerts s"
    "c_timerControls_hidden (Countdown_setTime s) = False"
    "c_inputControls_hidden (Countdown_setTime s) = True"
  by (simp_all add: Countdown_setTime_accepts [OF assms] Countdown_updateButtonVisibility_def
      Countdown_updateControlVisibility_def)

lemma Countdown_tick_keeps_bound:
  assumes "c_remainingTime s \<le> c_initialTime s" "\<not> c_timerInterval s \<or> c_startTime s \<le> now"
  shows "c_remainingTime (Countdown_tick now s) \<le> c_initialTime (Countdown_tick now s)"
  using assms
  by (auto simp: Countdown_tick_def Let_def Countdown_resetInput_fields Countdown_updateDisplay_def)

lemma Countdown_start_keeps_bound:
  assumes "c_remainingTime s \<le> c_initialTime s"
  shows "c_remainingTime (Countdown_start now s) \<le> c_initialTime (Countdown_start now s)"
  using assms
  by (simp add: Countdown_start_def Countdown_resetInput_fields Countdown_updateButtonVisibility_def)

lemma Countdown_pause_keeps_bound:
  assumes "c_remainingTime s \<le> c_initialTime s"
  shows "c_remainingTime (Countdown_pause s) \<le> c_initialTime (Countdown_pause s)"
  using assms by (simp add: Countdown_pause_def Countdown_updateButtonVisibility_def)

lemma Countdown_tick_expiry_resets:
  assumes "c_timerInterval s" "c_remainingTime s \<le> now - c_startTime s"
  shows "c_initialTime (Countdown_tick now s) = 0" "c_remainingTime (Countdown_tick now s) = 0"
    "c_inputBuffer (Countdown_tick now s) = []"
  using assms by (simp_all add: Countdown_tick_def Let_def Countdown_resetInput_fields)

text \<open>
  Claim C6, as amended. \<open>CountdownTimer\<close>: in every state reached from a new timer by
  \<open>setTime\<close>, \<open>start\<close>, \<open>stop\<close>, \<open>reset\<close>, \<open>clear\<close> and frame updates, under a clock that does
  not run backwards, \<open>0 \<le> remainingTime \<le> initialTime\<close>; and no operation other than
  \<open>setTime\<close> and \<open>clear\<close> changes \<open>initialTime\<close>. \<open>Countdown\<close>: digit entry stores the buffered
  duration in \<open>remainingTime\<close> while \<open>initialTime\<close> is still 0, so the bound does not hold
  during digit input; a successful \<open>setTime\<close> makes \<open>initialTime\<close> equal to \<open>remainingTime\<close>, and
  \<open>start\<close>, \<open>pause\<close> and the ticks keep \<open>remainingTime \<le> initialTime\<close>; the tick on which the
  countdown expires resets \<open>initialTime\<close> to 0 together with the rest of the input state.
\<close>

theorem countdown_session_invariant:
  "0 \<le> remainingTime (snd (cd_run es (now, CountdownTimer_new)))
   \<and> remainingTime (snd (cd_run es (now, CountdownTimer_new)))
        \<le> initialTime (snd (cd_run es (now, CountdownTimer_new)))
   \<and> (\<not> changes_configuration ev \<longrightarrow> initialTime (snd (cd_step ev w)) = initialTime (snd w))
   \<and> ((\<forall>d\<in>set ds. d \<le> 9) \<longrightarrow>
        (\<exists>s'. Countdown_press ds (Countdown_resetInput s0) = Some s'
           \<and> c_initialTime s' = 0
           \<and> c_remainingTime s' = spec_currentDuration (slice_last 6 (map digit_char ds))))
   \<and> (c_inputBuffer s \<noteq> [] \<and> 0 < c_remainingTime s \<and> c_remainingTime s \<le> maxTimeMs \<longrightarrow>
        c_initialTime (Countdown_setTime s) = c_remainingTime s
        \<and> c_remainingTime (Countdown_setTime s) = c_remainingTime s)
   \<and> (c_remainingTime s \<le> c_initialTime s \<and> (\<not> c_timerInterval s \<or> c_startTime s \<le> t) \<longrightarrow>
        c_remainingTime (Countdown_tick t s) \<le> c_initialTime (Countdown_tick t s)
        \<and> c_remainingTime (Countdown_start t s) \<le> c_initialTime (Countdown_start t s)
        \<and> c_remainingTime (Countdown_pause s) \<le> c_initialTime (Countdown_pause s))
   \<and> (c_timerInterval s \<and> c_remainingTime s \<le> t - c_startTime s \<longrightarrow>
        c_initialTime (Countdown_tick t s) = 0)"
proof -
  have "cd_invariant (cd_run es (now, CountdownTimer_new))"
    by (rule cd_run_invariant [OF cd_invariant_new])
  then have a: "0 \<le> remainingTime (snd (cd_run es (now, CountdownTimer_new)))"
    and b: "remainingTime (snd (cd_run es (now, CountdownTimer_new)))
        \<le> initialTime (snd (cd_run es (now, CountdownTimer_new)))"
    by (simp_all add: cd_invariant_def split: prod.splits)
  have c: "\<not> changes_configuration ev \<longrightarrow> initialTime (snd (cd_step ev w)) = initialTime (snd w)"
    using cd_step_keeps_initialTime by blast
  have d: "(\<forall>d\<in>set ds. d \<le> 9) \<longrightarrow>
        (\<exists>s'. Countdown_press ds (Countdown_resetInput s0) = Some s'
           \<and> c_initialTime s' = 0
           \<and> c_remainingTime s' = spec_currentDuration (slice_last 6 (map digit_char ds)))"
    using Countdown_press_cleared [of ds s0] by blast
  have e: "c_inputBuffer s \<noteq> [] \<and> 0 < c_remainingTime s \<and> c_remainingTime s \<le> maxTimeMs \<longrightarrow>
        c_initialTime (Countdown_setTime s) = c_remainingTime s
        \<and> c_remainingTime (Countdown_setTime s) = c_remainingTime s"
    using Countdown_setTime_accepts_fields(1,2) [of s] by blast
  have f: "c_remainingTime s \<le> c_initialTime s \<and> (\<not> c_timerInterval s \<or> c_startTime s \<le> t) \<longrightarrow>
        c_remainingTime (Countdown_tick t s) \<le> c_initialTime (Countdown_tick t s)
        \<and> c_remainingTime (Countdown_start t s) \<le> c_initialTime (Countdown_start t s)
        \<and> c_remainingTime (Countdown_pause s) \<le> c_initialTime (Countdown_pause s)"
    using Countdown_tick_keeps_bound [of s t] Countdown_start_keeps_bound [of s t]
      Countdown_pause_keeps_bound [of s] by blast
  have g: "c_timerInterval s \<and> c_remainingTime s \<le> t - c_startTime s \<longrightarrow>
        c_initialTime (Countdown_tick t s) = 0"
    using Countdown_tick_expiry_resets(1) [of s t] by blast
  from a b c d e f g show ?thesis by (intro conjI)
qed

text \<open>The claim as written fails during digit entry in \<open>Countdown\<close>: after pressing 1 on a
  fresh countdown, 1000 ms remain while the configured time is 0.\<close>

theorem countdown_session_invariant_counterexample:
  "map_option c_remainingTime (Countdown_press [1] Countdown_new) = Some 1000
   \<and> map_option c_initialTime (Countdown_press [1] Countdown_new) = Some 0"
  by code_simp

theorem countdown_session_invariant_witness:
  "let S = Countdown_new\<lparr> c_inputBuffer := [''5''], c_remainingTime := 5000, c_initialTime := 5000,
                           c_isRunning := True, c_timerInterval := True, c_startTime := 0 \<rparr>;
       ES = [SetTime 5000, Start, Advance 2000, Frame]
   in \<not> changes_configuration Start
      \<and> list_all (\<lambda>d. d \<le> 9) [1, 2 :: nat]
      \<and> (c_inputBuffer S \<noteq> [] \<and> 0 < c_remainingTime S \<and> c_remainingTime S \<le> maxTimeMs)
      \<and> (c_remainingTime S \<le> c_initialTime S \<and> c_startTime S \<le> 6000)
      \<and> (c_timerInterval S \<and> c_remainingTime S \<le> 6000 - c_startTime S)
      \<and> 0 \<le> remainingTime (snd (cd_run ES (0, CountdownTimer_new)))
      \<and> remainingTime (snd (cd_run ES (0, CountdownTimer_new)))
           \<le> initialTime (snd (cd_run ES (0, CountdownTimer_new)))
      \<and> initialTime (snd (cd_step Start (0, CountdownTimer_new))) = initialTime CountdownTimer_new
      \<and> (\<exists>s'. Countdown_press [1, 2] (Countdown_resetInput Countdown_new) = Some s'
             \<and> c_initialTime s' = 0 \<and> c_remainingTime s' = 12000)
      \<and> c_initialTime (Countdown_setTime S) = 5000
      \<and> c_remainingTime (Countdown_tick 6000 S) \<le> c_initialTime (Countdown_tick 6000 S)
      \<and> c_initialTime (Countdown_tick 6000 S) = 0"
proof -
  define S where "S = Countdown_new\<lparr> c_inputBuffer := [''5''], c_remainingTime := 5000,
      c_initialTime := 5000, c_isRunning := True, c_timerInterval := True, c_startTime := 0 \<rparr>"
  define ES where "ES = [SetTime 5000, Start, Advance 2000, Frame]"
  have h1: "\<not> changes_configuration Start" by (simp add: changes_configuration_def)
  have h2: "\<forall>d\<in>set [1, 2 :: nat]. d \<le> 9" by simp
  have h3: "c_inputBuffer S \<noteq> [] \<and> 0 < c_remainingTime S \<and> c_remainingTime S \<le> maxTimeMs"
    by (simp add: S_def maxTimeMs_def)
  have h4: "c_remainingTime S \<le> c_initialTime S \<and> (\<not> c_timerInterval S \<or> c_startTime S \<le> 6000)"
    by (simp add: S_def)
  have h5: "c_timerInterval S \<and> c_remainingTime S \<le> 6000 - c_startTime S"
    by (simp add: S_def)
  have r: "c_remainingTime S = 5000" by (simp add: S_def)
  have v: "spec_currentDuration (slice_last 6 (map digit_char [1, 2])) = 12000" by code_simp
  note T = countdown_session_invariant [where es = ES and now = 0 and ev = Start
      and w = "(0, CountdownTimer_new)" and ds = "[1, 2]" and ?s0.0 = Countdown_new and s = S
      and t = 6000, unfolded v]
  have "\<not> changes_configuration Start
      \<and> list_all (\<lambda>d. d \<le> 9) [1, 2 :: nat]
      \<and> (c_inputBuffer S \<noteq> [] \<and> 0 < c_remainingTime S \<and> c_remainingTime S \<le> maxTimeMs)
      \<and> (c_remainingTime S \<le> c_initialTime S \<and> c_startTime S \<le> 6000)
      \<and> (c_timerInterval S \<and> c_remainingTime S \<le> 6000 - c_startTime S)
      \<and> 0 \<le> remainingTime (snd (cd_run ES (0, CountdownTimer_new)))
      \<and> remainingTime (snd (cd_run ES (0, CountdownTimer_new)))
           \<le> initialTime (snd (cd_run ES (0, CountdownTimer_new)))
      \<and> initialTime (snd (cd_step Start (0, CountdownTimer_new))) = initialTime CountdownTimer_new
      \<and> (\<exists>s'. Countdown_press [1, 2] (Countdown_resetInput Countdown_new) = Some s'
             \<and> c_initialTime s' = 0 \<and> c_remainingTime s' = 12000)
      \<and> c_initialTime (Countdown_setTime S) = 5000
      \<and> c_remainingTime (Countdown_tick 6000 S) \<le> c_initialTime (Countdown_tick 6000 S)
      \<and> c_initialTime (Countdown_tick 6000 S) = 0"
    using T h1 h2 h3 h4 h5 r by (intro conjI) (simp_all del: cd_step.simps)
  then show ?thesis unfolding S_def ES_def Let_def .
qed

section \<open>Rejected configurations\<close>

lemma spec_currentDuration_nonneg: "0 \<le> spec_currentDuration buf"
  by (simp add: spec_currentDuration_def Let_def)

lemma cdSetBtn_onclick_zero:
  assumes "list_all is_digit (cdDigits p)" "spec_currentDuration (cdDigits p) = 0"
  shows "cdSetBtn_onclick p = Some (alert ''Set a valid time.'' (p\<lparr> cdMilliseconds := 0 \<rparr>))"
  using assms by (simp add: cdSetBtn_onclick_def getCountdownMilliseconds_spec Let_def)

lemma cdSetBtn_onclick_positive:
  assumes "list_all is_digit (cdDigits p)" "spec_currentDuration (cdDigits p) \<noteq> 0"
  shows "cdSetBtn_onclick p =
     Some (p\<lparr> cdMilliseconds := spec_currentDuration (cdDigits p), cdInputControls_hidden := True,
               cdSetBtn_hidden := True, cdClearInputBtn_hidden := True,
               cdControls_hidden := False \<rparr>)"
  using assms by (simp add: cdSetBtn_onclick_def getCountdownMilliseconds_spec Let_def)

subsection \<open>Runs of the procedural page\<close>

lemma page_run_append:
  "page_run (evs @ evs') w = (case page_run evs w of None \<Rightarrow> None | Some w' \<Rightarrow> page_run evs' w')"
  by (induction evs arbitrary: w) (simp_all split: option.splits)

text \<open>The countdown half of the page.\<close>

lemma fire_countdown_fields:
  "cdDigits (fire h now p) = cdDigits p" "cdSetBtn_hidden (fire h now p) = cdSetBtn_hidden p"
  "cdMilliseconds (fire h now p) = cdMilliseconds p"
  "cdPauseBtn_hidden (fire h now p) = cdPauseBtn_hidden p" "cdEnd (fire h now p) = cdEnd p"
  by (simp_all add: fire_def updateStopwatch_def runCountdown_def alert_def clearInterval_def
      Let_def split: option.splits callback.splits)

lemma stopwatch_handlers_countdown_fields:
  "cdDigits (swStartBtn_onclick now p) = cdDigits p"
  "cdSetBtn_hidden (swStartBtn_onclick now p) = cdSetBtn_hidden p"
  "cdMilliseconds (swStartBtn_onclick now p) = cdMilliseconds p"
  "cdPauseBtn_hidden (swStartBtn_onclick now p) = cdPauseBtn_hidden p"
  "cdEnd (swStartBtn_onclick now p) = cdEnd p"
  "cdDigits (swPauseBtn_onclick now p) = cdDigits p"
  "cdSetBtn_hidden (swPauseBtn_onclick now p) = cdSetBtn_hidden p"
  "cdMilliseconds (swPauseBtn_onclick now p) = cdMilliseconds p"
  "cdPauseBtn_hidden (swPauseBtn_onclick now p) = cdPauseBtn_hidden p"
  "cdEnd (swPauseBtn_onclick now p) = cdEnd p"
  "cdDigits (swContBtn_onclick now p) = cdDigits p"
  "cdSetBtn_hidden (swContBtn_onclick now p) = cdSetBtn_hidden p"
  "cdMilliseconds (swContBtn_onclick now p) = cdMilliseconds p"
  "cdPauseBtn_hidden (swContBtn_onclick now p) = cdPauseBtn_hidden p"
  "cdEnd (swContBtn_onclick now p) = cdEnd p"
  "cdDigits (swClearBtn_onclick p) = cdDigits p"
  "cdSetBtn_hidden (swClearBtn_onclick p) = cdSetBtn_hidden p"
  "cdMilliseconds (swClearBtn_onclick p) = cdMilliseconds p"
  "cdPauseBtn_hidden (swClearBtn_onclick p) = cdPauseBtn_hidden p"
  "cdEnd (swClearBtn_onclick p) = cdEnd p"
  by (simp_all add: swStartBtn_onclick_def swPauseBtn_onclick_def swContBtn_onclick_def
      swClearBtn_onclick_def setInterval_def clearInterval_def Let_def split: option.splits)

lemma digit_onclick_countdown_fields:
  assumes "i \<le> 9" "list_all is_digit (cdDigits p)"
  shows "list_all is_digit (cdDigits (digit_onclick i p))"
    "cdSetBtn_hidden (digit_onclick i p) = cdSetBtn_hidden p"
    "cdMilliseconds (digit_onclick i p) = cdMilliseconds p"
    "cdPauseBtn_hidden (digit_onclick i p) = cdPauseBtn_hidden p"
    "cdEnd (digit_onclick i p) = cdEnd p"
  using assms
  by (simp_all add: digit_onclick_def updateCountdownDisplay_spec Number_toString_digit
      is_digit_digit_char)

lemma countdown_page_invariant_new: "countdown_page_invariant (t0, page_new)"
  by (simp add: countdown_page_invariant_def page_new_def)

lemma page_step_countdown_invariant:
  assumes "countdown_page_invariant w" "page_step ev w = Some w'"
  shows "countdown_page_invariant w'"
proof (cases w)
  case (Pair now p)
  from assms(1) have d: "list_all is_digit (cdDigits p)"
    and s: "cdSetBtn_hidden p \<or> (cdMilliseconds p = 0 \<and> (cdPauseBtn_hidden p \<or> cdEnd p \<le> now))"
    by (simp_all add: Pair countdown_page_invariant_def)
  show ?thesis
  proof (cases ev)
    case (Wait n)
    then show ?thesis using assms(2) d s
      by (auto simp: Pair countdown_page_invariant_def
          split: if_splits)
  next
    case (IntervalFires h)
    then show ?thesis using assms(2) d s
      by (auto simp: Pair countdown_page_invariant_def fire_countdown_fields split: if_splits)
  next
    case (ClickDigit i)
    then show ?thesis using assms(2) d s
      by (auto simp: Pair countdown_page_invariant_def
          digit_onclick_countdown_fields split: if_splits)
  next
    case ClickSet
    show ?thesis
    proof (cases "cdSetBtn_hidden p")
      case True
      then show ?thesis using assms ClickSet by (auto simp: Pair)
    next
      case False
      show ?thesis
      proof (cases "spec_currentDuration (cdDigits p) = 0")
        case True
        from cdSetBtn_onclick_zero [OF d True] False s assms(2) d show ?thesis
          by (auto simp: Pair ClickSet countdown_page_invariant_def alert_def)
      next
        case nz: False
        from cdSetBtn_onclick_positive [OF d nz] False assms(2) d show ?thesis
          by (auto simp: Pair ClickSet countdown_page_invariant_def)
      qed
    qed
  next
    case ClickClearInput
    then show ?thesis using assms(2) d s
      by (auto simp: Pair countdown_page_invariant_def cdClearInputBtn_onclick_def
          updateCountdownDisplay_spec split: if_splits)
  next
    case ClickCdStart
    then show ?thesis using assms(2) d s
      by (auto simp: Pair countdown_page_invariant_def
          cdStartBtn_onclick_def setInterval_def split: if_splits)
  next
    case ClickCdPause
    then show ?thesis using assms(2) d s
      by (auto simp: Pair countdown_page_invariant_def cdPauseBtn_onclick_def clearInterval_def
          Let_def split: option.splits if_splits)
  next
    case ClickCdCont
    then show ?thesis using assms(2) d s
      by (auto simp: Pair countdown_page_invariant_def
          cdContBtn_onclick_def setInterval_def split: if_splits)
  next
    case ClickCdClear
    then show ?thesis using assms(2) d s
      by (auto simp: Pair countdown_page_invariant_def cdClearBtn_onclick_def clearInterval_def
          split: option.splits if_splits)
  next
    case ClickSwStart
    then show ?thesis using assms(2) d s
      by (auto simp: Pair countdown_page_invariant_def
          stopwatch_handlers_countdown_fields split: if_splits)
  next
    case ClickSwPause
    then show ?thesis using assms(2) d s
      by (auto simp: Pair countdown_page_invariant_def
          stopwatch_handlers_countdown_fields split: if_splits)
  next
    case ClickSwCont
    then show ?thesis using assms(2) d s
      by (auto simp: Pair countdown_page_invariant_def
          stopwatch_handlers_countdown_fields split: if_splits)
  next
    case ClickSwClear
    then show ?thesis using assms(2) d s
      by (auto simp: Pair countdown_page_invariant_def
          stopwatch_handlers_countdown_fields split: if_splits)
  qed
qed

lemma page_run_countdown_invariant:
  assumes "countdown_page_invariant w" "page_run evs w = Some w'"
  shows "countdown_page_invariant w'"
  using assms
proof (induction evs arbitrary: w)
  case Nil
  then show ?case by simp
next
  case (Cons ev evs)
  from Cons.prems(2) obtain w1 where a: "page_step ev w = Some w1" and b: "page_run evs w1 = Some w'"
    by (auto split: option.splits)
  from Cons.IH [OF page_step_countdown_invariant [OF Cons.prems(1) a] b] show ?case .
qed

text \<open>The runs of the page are total: the buffer always reads as a number.\<close>

lemma page_step_total:
  assumes "countdown_page_invariant w"
  shows "\<exists>w'. page_step ev w = Some w'"
proof (cases w)
  case (Pair now p)
  from assms have d: "list_all is_digit (cdDigits p)"
    by (simp add: Pair countdown_page_invariant_def)
  show ?thesis
    by (cases ev) (simp_all add: Pair cdSetBtn_onclick_def getCountdownMilliseconds_spec [OF d] Let_def)
qed

lemma page_run_total:
  assumes "countdown_page_invariant w"
  shows "\<exists>w'. page_run evs w = Some w'"
  using assms
proof (induction evs arbitrary: w)
  case Nil
  then show ?case by simp
next
  case (Cons ev evs)
  from page_step_total [OF Cons.prems, of ev] obtain w1 where a: "page_step ev w = Some w1"
    by blast
  from Cons.IH [OF page_step_countdown_invariant [OF Cons.prems a]] a show ?case by simp
qed

lemma reachable_set_click:
  assumes "page_run evs (t0, page_new) = Some (now, p)" "\<not> cdSetBtn_hidden p"
    "getCountdownMilliseconds p = Some 0"
  shows "cdSetBtn_onclick p = Some (p\<lparr> page_alerts := page_alerts p @ [''Set a valid time.''] \<rparr>)"
proof -
  have i: "countdown_page_invariant (now, p)"
    using countdown_page_invariant_new assms(1) by (rule page_run_countdown_invariant)
  then have d: "list_all is_digit (cdDigits p)" and z: "cdMilliseconds p = 0"
    using assms(2) by (simp_all add: countdown_page_invariant_def)
  have s: "spec_currentDuration (cdDigits p) = 0"
    using assms(3) by (simp add: getCountdownMilliseconds_spec [OF d])
  have "p\<lparr> cdMilliseconds := 0 \<rparr> = p" using z by simp
  with cdSetBtn_onclick_zero [OF d s] show ?thesis by (simp add: alert_def)
qed

text \<open>
  Claim C4. A zero duration is rejected and nothing else changes. \<open>CountdownTimer.setTime(ms)\<close>
  with \<open>ms \<le> 0\<close> throws whatever the state of the timer, which therefore stays as it was;
  \<open>UIController.setCountdownTime\<close> and \<open>Countdown.setTime\<close> on a buffer that reads zero show
  their alert and change nothing else. On the procedural page, in every state that a run of
  the page reaches and in which the Set button can be clicked, a click on it with a buffer
  that reads zero shows the alert and leaves every variable of the page, \<open>cdMilliseconds\<close>
  and \<open>cdEnd\<close> among them, as it was. (The handler stores the computed 0 in
  \<open>cdMilliseconds\<close> before it checks, but while Set can be clicked \<open>cdMilliseconds\<close> is 0
  already.)
\<close>

theorem zero_duration_rejected:
  "(n \<le> 0 \<longrightarrow>
      CountdownTimer_setTime n c = Inl (Error ''Countdown time must be positive'')
      \<and> cd_step (SetTime n) (now, c) = (now, c))
   \<and> (list_all is_digit (inputSequence ui) \<and> spec_currentDuration (inputSequence ui) = 0 \<longrightarrow>
      setCountdownTime ui
        = Some (ui\<lparr> alerts := alerts ui @ [(''Please enter a valid time greater than zero'', ''error'')] \<rparr>))
   \<and> (c_remainingTime s = 0 \<longrightarrow>
      Countdown_setTime s
        = s\<lparr> c_alerts := c_alerts s @ [''Please enter a time greater than zero.''] \<rparr>)
   \<and> (page_run evs (t0, page_new) = Some (t, p) \<and> \<not> cdSetBtn_hidden p
        \<and> getCountdownMilliseconds p = Some 0 \<longrightarrow>
      cdSetBtn_onclick p = Some (p\<lparr> page_alerts := page_alerts p @ [''Set a valid time.''] \<rparr>)
      \<and> page_step ClickSet (t, p)
          = Some (t, p\<lparr> page_alerts := page_alerts p @ [''Set a valid time.''] \<rparr>))"
proof -
  have a: "n \<le> 0 \<longrightarrow>
      CountdownTimer_setTime n c = Inl (Error ''Countdown time must be positive'')
      \<and> cd_step (SetTime n) (now, c) = (now, c)"
    by (simp add: CountdownTimer_setTime_def)
  have b: "list_all is_digit (inputSequence ui) \<and> spec_currentDuration (inputSequence ui) = 0 \<longrightarrow>
      setCountdownTime ui
        = Some (ui\<lparr> alerts := alerts ui @ [(''Please enter a valid time greater than zero'', ''error'')] \<rparr>)"
    by (simp add: setCountdownTime_spec showAlert_def)
  have c: "c_remainingTime s = 0 \<longrightarrow>
      Countdown_setTime s
        = s\<lparr> c_alerts := c_alerts s @ [''Please enter a time greater than zero.''] \<rparr>"
    by (simp add: Countdown_setTime_def ViewManager_showAlert_def)
  have d: "page_run evs (t0, page_new) = Some (t, p) \<and> \<not> cdSetBtn_hidden p
        \<and> getCountdownMilliseconds p = Some 0 \<longrightarrow>
      cdSetBtn_onclick p = Some (p\<lparr> page_alerts := page_alerts p @ [''Set a valid time.''] \<rparr>)
      \<and> page_step ClickSet (t, p)
          = Some (t, p\<lparr> page_alerts := page_alerts p @ [''Set a valid time.''] \<rparr>)"
    using reachable_set_click [of evs t0 t p] by simp
  from a b c d show ?thesis by (intro conjI)
qed

theorem zero_duration_rejected_witness:
  "(0::int) \<le> 0
   \<and> (list_all is_digit (inputSequence (UIController_new\<lparr> inputSequence := ''000'' \<rparr>))
      \<and> spec_currentDuration (inputSequence (UIController_new\<lparr> inputSequence := ''000'' \<rparr>)) = 0)
   \<and> c_remainingTime Countdown_new = 0
   \<and> CountdownTimer_setTime 0 (CountdownTimer_new\<lparr> initialTime := 5000, remainingTime := 3000 \<rparr>)
        = Inl (Error ''Countdown time must be positive'')
   \<and> cd_step (SetTime 0) (7, CountdownTimer_new\<lparr> initialTime := 5000, remainingTime := 3000 \<rparr>)
        = (7, CountdownTimer_new\<lparr> initialTime := 5000, remainingTime := 3000 \<rparr>)
   \<and> map_option alerts (setCountdownTime (UIController_new\<lparr> inputSequence := ''000'' \<rparr>))
        = Some [(''Please enter a valid time greater than zero'', ''error'')]
   \<and> map_option countdownTimer (setCountdownTime (UIController_new\<lparr> inputSequence := ''000'' \<rparr>))
        = Some CountdownTimer_new
   \<and> c_alerts (Countdown_setTime Countdown_new) = [''Please enter a time greater than zero.'']
   \<and> (case page_run [ClickDigit 5, ClickSet, ClickCdStart, Wait 2000, ClickCdPause, ClickCdClear,
                      ClickDigit 0] (1000, page_new) of
         None \<Rightarrow> False
       | Some w \<Rightarrow>
           fst w = 3000 \<and> \<not> cdSetBtn_hidden (snd w) \<and> cdDigits (snd w) = ''0''
           \<and> getCountdownMilliseconds (snd w) = Some 0 \<and> cdMilliseconds (snd w) = 0
           \<and> page_alerts (snd w) = []
           \<and> cdSetBtn_onclick (snd w) = Some ((snd w)\<lparr> page_alerts := [''Set a valid time.''] \<rparr>)
           \<and> page_step ClickSet w = Some (fst w, (snd w)\<lparr> page_alerts := [''Set a valid time.''] \<rparr>))"
proof -
  let ?evs = "[ClickDigit 5, ClickSet, ClickCdStart, Wait 2000, ClickCdPause, ClickCdClear,
               ClickDigit 0]"
  have h1: "(0::int) \<le> 0" by simp
  have z: "spec_currentDuration ''000'' = 0" by code_simp
  have h2: "list_all is_digit (inputSequence (UIController_new\<lparr> inputSequence := ''000'' \<rparr>))
      \<and> spec_currentDuration (inputSequence (UIController_new\<lparr> inputSequence := ''000'' \<rparr>)) = 0"
    by (simp add: z is_digit_def)
  have h3: "c_remainingTime Countdown_new = 0"
    by (simp add: Countdown_new_def Countdown_resetInput_fields)
  have u: "alerts UIController_new = []" "countdownTimer UIController_new = CountdownTimer_new"
    by (simp_all add: UIController_new_def resetCountdownUI_def clearCountdownInput_def)
  have k: "c_alerts Countdown_new = []"
    by (simp add: Countdown_new_def Countdown_resetInput_fields)
  obtain w where r: "page_run ?evs (1000, page_new) = Some w"
    using page_run_total [OF countdown_page_invariant_new] by blast
  have v5: "spec_currentDuration ''5'' = 5000" by code_simp
  have v0: "spec_currentDuration ''0'' = 0" by code_simp
  have d5: "digit_onclick 5 page_new = page_new\<lparr> cdDigits := ''5'', cdDisplay := ''00:00:05'' \<rparr>"
    by code_simp
  have e: "map_option (\<lambda>w. (fst w, cdSetBtn_hidden (snd w), cdDigits (snd w), cdMilliseconds (snd w),
               page_alerts (snd w))) (page_run ?evs (1000, page_new))
           = Some (3000, False, ''0'', 0, [])"
    by (simp add: d5 cdSetBtn_onclick_positive is_digit_def v5 page_new_def cdStartBtn_onclick_def
        cdPauseBtn_onclick_def cdClearBtn_onclick_def setInterval_def clearInterval_def Let_def
        digit_onclick_def updateCountdownDisplay_spec Number_toString_def string_of_nat_digit
        digit_char_def char_of_def bit_0)
  from e [unfolded r] have f: "fst w = 3000" "\<not> cdSetBtn_hidden (snd w)" "cdDigits (snd w) = ''0''"
    "cdMilliseconds (snd w) = 0" "page_alerts (snd w) = []"
    by simp_all
  have r': "page_run ?evs (1000, page_new) = Some (fst w, snd w)"
    using r by (simp only: prod.collapse)
  have c8: "getCountdownMilliseconds (snd w) = Some 0"
    by (simp add: getCountdownMilliseconds_spec f(3) is_digit_def v0)
  have h4: "page_run ?evs (1000, page_new) = Some (fst w, snd w) \<and> \<not> cdSetBtn_hidden (snd w)
      \<and> getCountdownMilliseconds (snd w) = Some 0"
    using r' f(2) c8 by (intro conjI)
  note T = zero_duration_rejected [where n = 0
      and c = "CountdownTimer_new\<lparr> initialTime := 5000, remainingTime := 3000 \<rparr>" and now = 7
      and ui = "UIController_new\<lparr> inputSequence := ''000'' \<rparr>" and s = Countdown_new
      and evs = ?evs and ?t0.0 = 1000 and t = "fst w" and p = "snd w"]
  from T h1 h2 h3 h4
  have t1: "CountdownTimer_setTime 0 (CountdownTimer_new\<lparr> initialTime := 5000, remainingTime := 3000 \<rparr>)
        = Inl (Error ''Countdown time must be positive'')"
    and t2: "cd_step (SetTime 0) (7, CountdownTimer_new\<lparr> initialTime := 5000, remainingTime := 3000 \<rparr>)
        = (7, CountdownTimer_new\<lparr> initialTime := 5000, remainingTime := 3000 \<rparr>)"
    and t3: "setCountdownTime (UIController_new\<lparr> inputSequence := ''000'' \<rparr>)
        = Some (UIController_new\<lparr> inputSequence := ''000'',
              alerts := alerts (UIController_new\<lparr> inputSequence := ''000'' \<rparr>)
                @ [(''Please enter a valid time greater than zero'', ''error'')] \<rparr>)"
    and t4: "Countdown_setTime Countdown_new
        = Countdown_new\<lparr> c_alerts := c_alerts Countdown_new
                                 @ [''Please enter a time greater than zero.''] \<rparr>"
    and t5: "cdSetBtn_onclick (snd w)
        = Some ((snd w)\<lparr> page_alerts := page_alerts (snd w) @ [''Set a valid time.''] \<rparr>)"
    and t6: "page_step ClickSet (fst w, snd w)
        = Some (fst w, (snd w)\<lparr> page_alerts := page_alerts (snd w) @ [''Set a valid time.''] \<rparr>)"
    by blast+
  have c3: "map_option alerts (setCountdownTime (UIController_new\<lparr> inputSequence := ''000'' \<rparr>))
        = Some [(''Please enter a valid time greater than zero'', ''error'')]"
    and c4: "map_option countdownTimer (setCountdownTime (UIController_new\<lparr> inputSequence := ''000'' \<rparr>))
        = Some CountdownTimer_new"
    by (simp_all add: t3 u)
  have c5: "c_alerts (Countdown_setTime Countdown_new) = [''Please enter a time greater than zero.'']"
    by (simp add: t4 k)
  have c6: "cdSetBtn_onclick (snd w) = Some ((snd w)\<lparr> page_alerts := [''Set a valid time.''] \<rparr>)"
    using t5 by (simp add: f(5))
  have c7: "page_step ClickSet w = Some (fst w, (snd w)\<lparr> page_alerts := [''Set a valid time.''] \<rparr>)"
    using t6 by (simp add: f(5) del: page_step.simps)
  have "fst w = 3000 \<and> \<not> cdSetBtn_hidden (snd w) \<and> cdDigits (snd w) = ''0''
           \<and> getCountdownMilliseconds (snd w) = Some 0 \<and> cdMilliseconds (snd w) = 0
           \<and> page_alerts (snd w) = []
           \<and> cdSetBtn_onclick (snd w) = Some ((snd w)\<lparr> page_alerts := [''Set a valid time.''] \<rparr>)
           \<and> page_step ClickSet w = Some (fst w, (snd w)\<lparr> page_alerts := [''Set a valid time.''] \<rparr>)"
    using f c6 c7 c8 by (intro conjI)
  then have c9: "case page_run ?evs (1000, page_new) of
         None \<Rightarrow> False
       | Some w \<Rightarrow>
           fst w = 3000 \<and> \<not> cdSetBtn_hidden (snd w) \<and> cdDigits (snd w) = ''0''
           \<and> getCountdownMilliseconds (snd w) = Some 0 \<and> cdMilliseconds (snd w) = 0
           \<and> page_alerts (snd w) = []
           \<and> cdSetBtn_onclick (snd w) = Some ((snd w)\<lparr> page_alerts := [''Set a valid time.''] \<rparr>)
           \<and> page_step ClickSet w = Some (fst w, (snd w)\<lparr> page_alerts := [''Set a valid time.''] \<rparr>)"
    unfolding r option.case .
  from h1 h2 [THEN conjunct1] h2 [THEN conjunct2] h3 t1 t2 c3 c4 c5 c9 show ?thesis
    by (intro conjI)
qed

section \<open>Maximum duration\<close>

lemma maxTimeMs_value: "maxTimeMs = 359999000"
  by (simp add: maxTimeMs_def)

lemma Countdown_setTime_overflow:
  assumes "c_inputBuffer s \<noteq> []" "maxTimeMs < c_remainingTime s"
  shows "Countdown_setTime s
           = Countdown_resetInput (s\<lparr> c_alerts := c_alerts s @ [''Maximum time allowed is 99:59:59.''] \<rparr>)"
  using assms by (simp add: Countdown_setTime_def ViewManager_showAlert_def maxTimeMs_def)

text \<open>
  Claim C5, as amended. \<open>Countdown.setTime\<close> enforces the ceiling of 359,999,000 ms: with a
  non-empty buffer whose duration \<open>d\<close> has \<open>0 < d \<le> 359,999,000\<close> the confirmation succeeds
  (\<open>initialTime\<close> becomes \<open>d\<close>, the timer controls are shown, no alert), and with
  \<open>d > 359,999,000\<close> it is rejected with the alert "Maximum time allowed is 99:59:59." and the
  buffer is reset to empty. \<open>CountdownTimer.setTime\<close> has no ceiling: it accepts every
  \<open>d > 0\<close>.
\<close>

theorem maximum_duration_policy:
  "(c_inputBuffer s \<noteq> [] \<and> 0 < c_remainingTime s \<and> c_remainingTime s \<le> 359999000 \<longrightarrow>
      c_initialTime (Countdown_setTime s) = c_remainingTime s
      \<and> c_remainingTime (Countdown_setTime s) = c_remainingTime s
      \<and> c_inputBuffer (Countdown_setTime s) = c_inputBuffer s
      \<and> c_alerts (Countdown_setTime s) = c_alerts s
      \<and> \<not> c_timerControls_hidden (Countdown_setTime s)
      \<and> c_inputControls_hidden (Countdown_setTime s))
   \<and> (c_inputBuffer s \<noteq> [] \<and> 359999000 < c_remainingTime s \<longrightarrow>
      c_alerts (Countdown_setTime s) = c_alerts s @ [''Maximum time allowed is 99:59:59.'']
      \<and> c_inputBuffer (Countdown_setTime s) = []
      \<and> c_initialTime (Countdown_setTime s) = 0
      \<and> c_remainingTime (Countdown_setTime s) = 0
      \<and> \<not> c_inputControls_hidden (Countdown_setTime s)
      \<and> c_timerControls_hidden (Countdown_setTime s))
   \<and> (0 < d \<longrightarrow>
      CountdownTimer_setTime d c
        = Inr (c\<lparr> initialTime := d, remainingTime := d, hasExpired := False \<rparr>))"
proof -
  have a: "c_inputBuffer s \<noteq> [] \<and> 0 < c_remainingTime s \<and> c_remainingTime s \<le> 359999000 \<longrightarrow>
      c_initialTime (Countdown_setTime s) = c_remainingTime s
      \<and> c_remainingTime (Countdown_setTime s) = c_remainingTime s
      \<and> c_inputBuffer (Countdown_setTime s) = c_inputBuffer s
      \<and> c_alerts (Countdown_setTime s) = c_alerts s
      \<and> \<not> c_timerControls_hidden (Countdown_setTime s)
      \<and> c_inputControls_hidden (Countdown_setTime s)"
    using Countdown_setTime_accepts_fields [of s] by (simp add: maxTimeMs_value)
  have b: "c_inputBuffer s \<noteq> [] \<and> 359999000 < c_remainingTime s \<longrightarrow>
      c_alerts (Countdown_setTime s) = c_alerts s @ [''Maximum time allowed is 99:59:59.'']
      \<and> c_inputBuffer (Countdown_setTime s) = []
      \<and> c_initialTime (Countdown_setTime s) = 0
      \<and> c_remainingTime (Countdown_setTime s) = 0
      \<and> \<not> c_inputControls_hidden (Countdown_setTime s)
      \<and> c_timerControls_hidden (Countdown_setTime s)"
    using Countdown_setTime_overflow [of s]
    by (simp add: maxTimeMs_value Countdown_resetInput_fields)
  have c: "0 < d \<longrightarrow>
      CountdownTimer_setTime d c
        = Inr (c\<lparr> initialTime := d, remainingTime := d, hasExpired := False \<rparr>)"
    by (simp add: CountdownTimer_setTime_def)
  from a b c show ?thesis by (intro conjI)
qed

text \<open>The largest duration the keypad can enter is 99:99:99, which is above the ceiling.\<close>

theorem maximum_duration_policy_witness:
  "let S1 = Countdown_new\<lparr> c_inputBuffer := [''9'', ''9'', ''5'', ''9'', ''5'', ''9''],
                            c_remainingTime := 359999000 \<rparr>;
       S2 = Countdown_new\<lparr> c_inputBuffer := [''9'', ''9'', ''9'', ''9'', ''9'', ''9''],
                            c_remainingTime := 362439000 \<rparr>
   in (c_inputBuffer S1 \<noteq> [] \<and> 0 < c_remainingTime S1 \<and> c_remainingTime S1 \<le> 359999000)
      \<and> (c_inputBuffer S2 \<noteq> [] \<and> 359999000 < c_remainingTime S2)
      \<and> (0::int) < 362439000
      \<and> c_initialTime (Countdown_setTime S1) = 359999000
      \<and> c_alerts (Countdown_setTime S1) = []
      \<and> \<not> c_timerControls_hidden (Countdown_setTime S1)
      \<and> c_alerts (Countdown_setTime S2) = [''Maximum time allowed is 99:59:59.'']
      \<and> c_inputBuffer (Countdown_setTime S2) = []
      \<and> c_initialTime (Countdown_setTime S2) = 0
      \<and> c_remainingTime (Countdown_setTime S2) = 0
      \<and> CountdownTimer_setTime 362439000 CountdownTimer_new
            = Inr (CountdownTimer_new\<lparr> initialTime := 362439000, remainingTime := 362439000,
                                       hasExpired := False \<rparr>)"
proof -
  define S1 where "S1 = Countdown_new\<lparr> c_inputBuffer := [''9'', ''9'', ''5'', ''9'', ''5'', ''9''],
                            c_remainingTime := 359999000 \<rparr>"
  define S2 where "S2 = Countdown_new\<lparr> c_inputBuffer := [''9'', ''9'', ''9'', ''9'', ''9'', ''9''],
                            c_remainingTime := 362439000 \<rparr>"
  have al: "c_alerts Countdown_new = []"
    by (simp add: Countdown_new_def Countdown_resetInput_fields)
  have h1: "c_inputBuffer S1 \<noteq> [] \<and> 0 < c_remainingTime S1 \<and> c_remainingTime S1 \<le> 359999000"
    by (simp add: S1_def)
  have h2: "c_inputBuffer S2 \<noteq> [] \<and> 359999000 < c_remainingTime S2"
    by (simp add: S2_def)
  have h3: "(0::int) < 362439000" by simp
  have f: "c_remainingTime S1 = 359999000" "c_alerts S1 = []" "c_alerts S2 = []"
    by (simp_all add: S1_def S2_def al)
  note T1 = maximum_duration_policy [where s = S1 and d = 362439000 and c = CountdownTimer_new]
  note T2 = maximum_duration_policy [where s = S2 and d = 362439000 and c = CountdownTimer_new]
  have "(c_inputBuffer S1 \<noteq> [] \<and> 0 < c_remainingTime S1 \<and> c_remainingTime S1 \<le> 359999000)
      \<and> (c_inputBuffer S2 \<noteq> [] \<and> 359999000 < c_remainingTime S2)
      \<and> (0::int) < 362439000
      \<and> c_initialTime (Countdown_setTime S1) = 359999000
      \<and> c_alerts (Countdown_setTime S1) = []
      \<and> \<not> c_timerControls_hidden (Countdown_setTime S1)
      \<and> c_alerts (Countdown_setTime S2) = [''Maximum time allowed is 99:59:59.'']
      \<and> c_inputBuffer (Countdown_setTime S2) = []
      \<and> c_initialTime (Countdown_setTime S2) = 0
      \<and> c_remainingTime (Countdown_setTime S2) = 0
      \<and> CountdownTimer_setTime 362439000 CountdownTimer_new
            = Inr (CountdownTimer_new\<lparr> initialTime := 362439000, remainingTime := 362439000,
                                       hasExpired := False \<rparr>)"
    using T1 T2 h1 h2 h3 f by (intro conjI) simp_all
  then show ?thesis unfolding S1_def S2_def Let_def .
qed

text \<open>The claim as written fails on \<open>CountdownTimer.setTime\<close>: 100 hours are accepted.\<close>

theorem maximum_duration_policy_counterexample:
  "CountdownTimer_setTime 360000000 CountdownTimer_new
     = Inr (CountdownTimer_new\<lparr> initialTime := 360000000, remainingTime := 360000000,
                                hasExpired := False \<rparr>)"
  by (simp add: CountdownTimer_setTime_def)

section \<open>Stopwatch Engine: starting twice\<close>

subsection \<open>The stopwatch half of the procedural page\<close>

lemma stopwatch_running_iff:
  "stopwatch_running p \<longleftrightarrow> (\<exists>e\<in>set (intervals p). snd e = UpdateStopwatch)"
  by (simp add: stopwatch_running_def list_ex_iff)

lemma stopwatch_page_invariant_new: "stopwatch_page_invariant page_new"
  by (simp add: stopwatch_page_invariant_def stopwatch_running_def page_new_def)

text \<open>Handlers and callbacks that leave the stopwatch's buttons and \<open>swInterval\<close> alone and
  add no stopwatch interval keep the invariant.\<close>

lemma stopwatch_page_invariant_frame:
  assumes "stopwatch_page_invariant p"
    and "swInterval q = swInterval p" and "swStartBtn_hidden q = swStartBtn_hidden p"
    and "swPauseBtn_hidden q = swPauseBtn_hidden p" and "swContBtn_hidden q = swContBtn_hidden p"
    and "\<forall>e\<in>set (intervals q). snd e = UpdateStopwatch \<longrightarrow> e \<in> set (intervals p)"
  shows "stopwatch_page_invariant q"
  using assms
  by (auto simp: stopwatch_page_invariant_def stopwatch_running_def list_all_iff list_ex_iff)

lemma fire_stopwatch_fields:
  "swInterval (fire h now p) = swInterval p" "swStartBtn_hidden (fire h now p) = swStartBtn_hidden p"
  "swPauseBtn_hidden (fire h now p) = swPauseBtn_hidden p"
  "swContBtn_hidden (fire h now p) = swContBtn_hidden p"
  "set (intervals (fire h now p)) \<subseteq> set (intervals p)"
  by (auto simp: fire_def updateStopwatch_def runCountdown_def alert_def clearInterval_def
      Let_def split: option.splits callback.splits)

lemma countdown_handlers_stopwatch_fields:
  "swInterval (digit_onclick i p) = swInterval p"
  "swStartBtn_hidden (digit_onclick i p) = swStartBtn_hidden p"
  "swPauseBtn_hidden (digit_onclick i p) = swPauseBtn_hidden p"
  "swContBtn_hidden (digit_onclick i p) = swContBtn_hidden p"
  "intervals (digit_onclick i p) = intervals p"
  "swInterval (cdClearInputBtn_onclick p) = swInterval p"
  "swStartBtn_hidden (cdClearInputBtn_onclick p) = swStartBtn_hidden p"
  "swPauseBtn_hidden (cdClearInputBtn_onclick p) = swPauseBtn_hidden p"
  "swContBtn_hidden (cdClearInputBtn_onclick p) = swContBtn_hidden p"
  "intervals (cdClearInputBtn_onclick p) = intervals p"
  by (simp_all add: digit_onclick_def cdClearInputBtn_onclick_def updateCountdownDisplay_spec)

lemma countdown_timer_handlers_stopwatch_fields:
  "swInterval (cdStartBtn_onclick now p) = swInterval p"
  "swStartBtn_hidden (cdStartBtn_onclick now p) = swStartBtn_hidden p"
  "swPauseBtn_hidden (cdStartBtn_onclick now p) = swPauseBtn_hidden p"
  "swContBtn_hidden (cdStartBtn_onclick now p) = swContBtn_hidden p"
  "intervals (cdStartBtn_onclick now p) = intervals p @ [(nextHandle p, RunCountdown)]"
  "swInterval (cdContBtn_onclick now p) = swInterval p"
  "swStartBtn_hidden (cdContBtn_onclick now p) = swStartBtn_hidden p"
  "swPauseBtn_hidden (cdContBtn_onclick now p) = swPauseBtn_hidden p"
  "swContBtn_hidden (cdContBtn_onclick now p) = swContBtn_hidden p"
  "intervals (cdContBtn_onclick now p) = intervals p @ [(nextHandle p, RunCountdown)]"
  "swInterval (cdPauseBtn_onclick now p) = swInterval p"
  "swStartBtn_hidden (cdPauseBtn_onclick now p) = swStartBtn_hidden p"
  "swPauseBtn_hidden (cdPauseBtn_onclick now p) = swPauseBtn_hidden p"
  "swContBtn_hidden (cdPauseBtn_onclick now p) = swContBtn_hidden p"
  "set (intervals (cdPauseBtn_onclick now p)) \<subseteq> set (intervals p)"
  "swInterval (cdClearBtn_onclick p) = swInterval p"
  "swStartBtn_hidden (cdClearBtn_onclick p) = swStartBtn_hidden p"
  "swPauseBtn_hidden (cdClearBtn_onclick p) = swPauseBtn_hidden p"
  "swContBtn_hidden (cdClearBtn_onclick p) = swContBtn_hidden p"
  "set (intervals (cdClearBtn_onclick p)) \<subseteq> set (intervals p)"
  by (auto simp: cdStartBtn_onclick_def cdContBtn_onclick_def cdPauseBtn_onclick_def
      cdClearBtn_onclick_def setInterval_def clearInterval_def Let_def split: option.splits)

lemma cdSetBtn_onclick_stopwatch_fields:
  assumes "cdSetBtn_onclick p = Some q"
  shows "swInterval q = swInterval p" "swStartBtn_hidden q = swStartBtn_hidden p"
    "swPauseBtn_hidden q = swPauseBtn_hidden p" "swContBtn_hidden q = swContBtn_hidden p"
    "intervals q = intervals p"
  using assms
  by (auto simp: cdSetBtn_onclick_def alert_def Let_def split: option.splits if_splits)

text \<open>Start and Continue register the only live stopwatch interval; Pause and Clear remove
  it.\<close>

lemma swStartBtn_onclick_invariant:
  assumes "stopwatch_page_invariant p" "\<not> swStartBtn_hidden p"
  shows "stopwatch_page_invariant (swStartBtn_onclick now p)"
  using assms
  by (auto simp: stopwatch_page_invariant_def stopwatch_running_def list_all_iff list_ex_iff
      swStartBtn_onclick_def setInterval_def)

lemma swContBtn_onclick_invariant:
  assumes "stopwatch_page_invariant p" "\<not> swContBtn_hidden p"
  shows "stopwatch_page_invariant (swContBtn_onclick now p)"
  using assms
  by (auto simp: stopwatch_page_invariant_def stopwatch_running_def list_all_iff list_ex_iff
      swContBtn_onclick_def setInterval_def)

lemma swPauseBtn_onclick_invariant:
  assumes "stopwatch_page_invariant p" "\<not> swPauseBtn_hidden p"
  shows "stopwatch_page_invariant (swPauseBtn_onclick now p)"
  using assms
  by (auto simp: stopwatch_page_invariant_def stopwatch_running_def list_all_iff list_ex_iff
      swPauseBtn_onclick_def clearInterval_def Let_def split: option.splits)

lemma swClearBtn_onclick_invariant:
  assumes "stopwatch_page_invariant p"
  shows "stopwatch_page_invariant (swClearBtn_onclick p)"
  using assms
  by (auto simp: stopwatch_page_invariant_def stopwatch_running_def list_all_iff list_ex_iff
      swClearBtn_onclick_def clearInterval_def split: option.splits)

lemma page_step_stopwatch_invariant:
  assumes "stopwatch_page_invariant (snd w)" "page_step ev w = Some w'"
  shows "stopwatch_page_invariant (snd w')"
proof (cases w)
  case (Pair now p)
  from assms(1) have i: "stopwatch_page_invariant p" by (simp add: Pair)
  show ?thesis
  proof (cases ev)
    case (Wait n)
    then show ?thesis using assms(2) i by (auto simp: Pair)
  next
    case (IntervalFires h)
    have "stopwatch_page_invariant (fire h now p)"
      using fire_stopwatch_fields(5) [of h now p]
      by (intro stopwatch_page_invariant_frame [OF i]) (auto simp: fire_stopwatch_fields(1-4))
    then show ?thesis using assms(2) by (auto simp: Pair IntervalFires)
  next
    case (ClickDigit d)
    have "stopwatch_page_invariant (digit_onclick d p)"
      by (intro stopwatch_page_invariant_frame [OF i])
        (simp_all add: countdown_handlers_stopwatch_fields)
    then show ?thesis using assms(2) i by (auto simp: Pair ClickDigit split: if_splits)
  next
    case ClickSet
    show ?thesis
    proof (cases "cdSetBtn_hidden p")
      case True
      then show ?thesis using assms(2) i by (auto simp: Pair ClickSet)
    next
      case False
      with assms(2) obtain q where q: "cdSetBtn_onclick p = Some q" and w': "w' = (now, q)"
        by (auto simp: Pair ClickSet)
      have "stopwatch_page_invariant q"
        by (intro stopwatch_page_invariant_frame [OF i])
          (simp_all add: cdSetBtn_onclick_stopwatch_fields [OF q])
      then show ?thesis by (simp add: w')
    qed
  next
    case ClickClearInput
    have "stopwatch_page_invariant (cdClearInputBtn_onclick p)"
      by (intro stopwatch_page_invariant_frame [OF i])
        (simp_all add: countdown_handlers_stopwatch_fields)
    then show ?thesis using assms(2) i by (auto simp: Pair ClickClearInput split: if_splits)
  next
    case ClickCdStart
    have "stopwatch_page_invariant (cdStartBtn_onclick now p)"
      by (intro stopwatch_page_invariant_frame [OF i])
        (auto simp: countdown_timer_handlers_stopwatch_fields)
    then show ?thesis using assms(2) i by (auto simp: Pair ClickCdStart split: if_splits)
  next
    case ClickCdPause
    have "stopwatch_page_invariant (cdPauseBtn_onclick now p)"
      using countdown_timer_handlers_stopwatch_fields(15) [of now p]
      by (intro stopwatch_page_invariant_frame [OF i])
        (auto simp: countdown_timer_handlers_stopwatch_fields(11-14))
    then show ?thesis using assms(2) i by (auto simp: Pair ClickCdPause split: if_splits)
  next
    case ClickCdCont
    have "stopwatch_page_invariant (cdContBtn_onclick now p)"
      by (intro stopwatch_page_invariant_frame [OF i])
        (auto simp: countdown_timer_handlers_stopwatch_fields)
    then show ?thesis using assms(2) i by (auto simp: Pair ClickCdCont split: if_splits)
  next
    case ClickCdClear
    have "stopwatch_page_invariant (cdClearBtn_onclick p)"
      using countdown_timer_handlers_stopwatch_fields(20) [of p]
      by (intro stopwatch_page_invariant_frame [OF i])
        (auto simp: countdown_timer_handlers_stopwatch_fields(16-19))
    then show ?thesis using assms(2) i by (auto simp: Pair ClickCdClear)
  next
    case ClickSwStart
    then show ?thesis using assms(2) i swStartBtn_onclick_invariant [OF i, of now]
      by (auto simp: Pair split: if_splits)
  next
    case ClickSwPause
    then show ?thesis using assms(2) i swPauseBtn_onclick_invariant [OF i, of now]
      by (auto simp: Pair split: if_splits)
  next
    case ClickSwCont
    then show ?thesis using assms(2) i swContBtn_onclick_invariant [OF i, of now]
      by (auto simp: Pair split: if_splits)
  next
    case ClickSwClear
    then show ?thesis using assms(2) swClearBtn_onclick_invariant [OF i]
      by (auto simp: Pair)
  qed
qed

lemma page_run_stopwatch_invariant:
  assumes "stopwatch_page_invariant (snd w)" "page_run evs w = Some w'"
  shows "stopwatch_page_invariant (snd w')"
  using assms
proof (induction evs arbitrary: w)
  case Nil
  then show ?case by simp
next
  case (Cons ev evs)
  from Cons.prems(2) obtain w1 where a: "page_step ev w = Some w1" and b: "page_run evs w1 = Some w'"
    by (auto split: option.splits)
  from Cons.IH [OF page_step_stopwatch_invariant [OF Cons.prems(1) a] b] show ?case .
qed

lemma running_hides_start:
  assumes "stopwatch_page_invariant p" "stopwatch_running p"
  shows "swStartBtn_hidden p" "swContBtn_hidden p"
  using assms by (auto simp: stopwatch_page_invariant_def)

lemma Timer_start_running: "t_isRunning (Timer_start now t)"
  by (simp add: Timer_start_def Timer_update_def)

lemma Stopwatch_start_running: "s_isRunning (Stopwatch_start now s)"
  by (simp add: Stopwatch_start_def Stopwatch_updateButtonVisibility_def)

text \<open>The Start handler of the page has no check of its own: a call sets \<open>swStart\<close> to the
  current clock and registers an interval. It hides the Start button, and that is what keeps
  the page from starting a running stopwatch again.\<close>

lemma swStartBtn_onclick_fields:
  "swStart (swStartBtn_onclick now p) = now"
  "intervals (swStartBtn_onclick now p) = intervals p @ [(nextHandle p, UpdateStopwatch)]"
  "swStartBtn_hidden (swStartBtn_onclick now p)"
  "stopwatch_running (swStartBtn_onclick now p)"
  by (simp_all add: swStartBtn_onclick_def setInterval_def stopwatch_running_def)

lemma start_clicks_in_a_row:
  "page_run [ClickSwStart, Wait n, ClickSwStart] w = page_run [ClickSwStart, Wait n] w"
  by (cases w) (simp add: swStartBtn_onclick_fields)

lemma reachable_running_start_hidden:
  assumes "page_run evs (t0, page_new) = Some (now, p)" "stopwatch_running p"
  shows "swStartBtn_hidden p"
proof -
  have "stopwatch_page_invariant (snd (t0, page_new))"
    by (simp add: stopwatch_page_invariant_new)
  from page_run_stopwatch_invariant [OF this assms(1)] have "stopwatch_page_invariant p"
    by simp
  then show ?thesis using assms(2) by (rule running_hides_start)
qed

text \<open>
  Claim C7. Starting a running stopwatch again changes nothing. \<open>Timer.start\<close>: a second call
  without a \<open>stop\<close> in between only appends a warning and leaves the anchor, the elapsed time
  and the running flag as the first call left them, so that later updates show the same
  elapsed time. \<open>Stopwatch.start\<close> of the \<open>TimerBase\<close> implementation returns without any
  change. The procedural page: in every state that a run of the page reaches and in which the
  stopwatch is running, the Start button is hidden and a click on it changes nothing; and two
  clicks on Start, at any point of a run and with any wait between them, leave the page as the
  first click and the wait alone do.
\<close>

theorem start_twice:
  "Timer_start now2 (Timer_start now1 t)
     = (Timer_start now1 t)\<lparr> t_warnings := t_warnings (Timer_start now1 t)
                                              @ [''Timer is already running''] \<rparr>
   \<and> Timer_update now3 (Timer_start now2 (Timer_start now1 t))
     = (Timer_update now3 (Timer_start now1 t))
          \<lparr> t_warnings := t_warnings (Timer_start now1 t) @ [''Timer is already running''] \<rparr>
   \<and> Stopwatch_start now2 (Stopwatch_start now1 s) = Stopwatch_start now1 s
   \<and> (page_run evs (t0, page_new) = Some (now, p) \<and> stopwatch_running p \<longrightarrow>
        swStartBtn_hidden p \<and> page_step ClickSwStart (now, p) = Some (now, p))
   \<and> page_run (evs @ [ClickSwStart, Wait n, ClickSwStart]) (t0, page_new)
       = page_run (evs @ [ClickSwStart, Wait n]) (t0, page_new)"
proof -
  have a: "Timer_start now2 (Timer_start now1 t)
     = (Timer_start now1 t)\<lparr> t_warnings := t_warnings (Timer_start now1 t)
                                              @ [''Timer is already running''] \<rparr>"
    using Timer_start_running [of now1 t] by (simp add: Timer_start_def [of now2])
  have b: "Timer_update now3 (Timer_start now2 (Timer_start now1 t))
     = (Timer_update now3 (Timer_start now1 t))
          \<lparr> t_warnings := t_warnings (Timer_start now1 t) @ [''Timer is already running''] \<rparr>"
    unfolding a using Timer_start_running [of now1 t] by (simp add: Timer_update_def)
  have c: "Stopwatch_start now2 (Stopwatch_start now1 s) = Stopwatch_start now1 s"
    using Stopwatch_start_running [of now1 s] by (simp add: Stopwatch_start_def [of now2])
  have d: "page_run evs (t0, page_new) = Some (now, p) \<and> stopwatch_running p \<longrightarrow>
        swStartBtn_hidden p \<and> page_step ClickSwStart (now, p) = Some (now, p)"
    using reachable_running_start_hidden [of evs t0 now p] by simp
  have e: "page_run (evs @ [ClickSwStart, Wait n, ClickSwStart]) (t0, page_new)
       = page_run (evs @ [ClickSwStart, Wait n]) (t0, page_new)"
    by (simp only: page_run_append start_clicks_in_a_row)
  from a b c d e show ?thesis by (intro conjI)
qed

theorem start_twice_witness:
  "t_startTime (Timer_start 2500 (Timer_start 1000 Timer_new)) = 1000
   \<and> t_elapsedTime (Timer_update 3000 (Timer_start 2500 (Timer_start 1000 Timer_new))) = 2000
   \<and> t_warnings (Timer_start 2500 (Timer_start 1000 Timer_new)) = [''Timer is already running'']
   \<and> s_startTime (Stopwatch_start 2500 (Stopwatch_start 1000 Stopwatch_new)) = 1000
   \<and> (case page_run [ClickSwStart, Wait 1500, IntervalFires 1] (1000, page_new) of
         None \<Rightarrow> False
       | Some w \<Rightarrow>
           fst w = 2500 \<and> stopwatch_running (snd w) \<and> swStart (snd w) = 1000
           \<and> swStartBtn_hidden (snd w) \<and> page_step ClickSwStart w = Some w)
   \<and> map_option (\<lambda>w. swStart (snd w))
        (page_run ([ClickSwStart] @ [ClickSwStart, Wait 1500, ClickSwStart]) (0, page_new))
       = Some 0"
proof -
  let ?evs = "[ClickSwStart, Wait 1500, IntervalFires 1]"
  have a: "t_startTime (Timer_start 1000 Timer_new) = 1000"
    "t_warnings (Timer_start 1000 Timer_new) = []"
    "t_elapsedTime (Timer_update 3000 (Timer_start 1000 Timer_new)) = 2000"
    by (simp_all add: Timer_start_def Timer_update_def Timer_new_def)
  have b: "s_startTime (Stopwatch_start 1000 Stopwatch_new) = 1000"
    by (simp add: Stopwatch_start_def Stopwatch_new_def Stopwatch_reset_def
        Stopwatch_updateButtonVisibility_def)
  obtain w where r: "page_run ?evs (1000, page_new) = Some w"
    using page_run_total [OF countdown_page_invariant_new] by blast
  have e: "map_option (\<lambda>w. (fst w, stopwatch_running (snd w), swStart (snd w)))
             (page_run ?evs (1000, page_new)) = Some (2500, True, 1000)"
    by (simp add: page_new_def swStartBtn_onclick_def setInterval_def fire_def
        updateStopwatch_def Let_def stopwatch_running_def)
  from e [unfolded r] have f: "fst w = 2500" "stopwatch_running (snd w)" "swStart (snd w) = 1000"
    by simp_all
  have r': "page_run ?evs (1000, page_new) = Some (fst w, snd w)"
    using r by (simp only: prod.collapse)
  have h: "page_run ?evs (1000, page_new) = Some (fst w, snd w) \<and> stopwatch_running (snd w)"
    using r' f(2) by (intro conjI)
  note T = start_twice [where ?now1.0 = 1000 and ?now2.0 = 2500 and ?now3.0 = 3000
      and t = Timer_new and s = Stopwatch_new and evs = ?evs and ?t0.0 = 1000
      and now = "fst w" and p = "snd w" and n = 1500]
  note U = start_twice [where ?now1.0 = 1000 and ?now2.0 = 2500 and ?now3.0 = 3000
      and t = Timer_new and s = Stopwatch_new and evs = "[ClickSwStart]" and ?t0.0 = 0
      and now = 0 and p = page_new and n = 1500]
  from T h have t1: "Timer_start 2500 (Timer_start 1000 Timer_new)
      = (Timer_start 1000 Timer_new)\<lparr> t_warnings := t_warnings (Timer_start 1000 Timer_new)
                                              @ [''Timer is already running''] \<rparr>"
    and t2: "Timer_update 3000 (Timer_start 2500 (Timer_start 1000 Timer_new))
      = (Timer_update 3000 (Timer_start 1000 Timer_new))
          \<lparr> t_warnings := t_warnings (Timer_start 1000 Timer_new) @ [''Timer is already running''] \<rparr>"
    and t3: "Stopwatch_start 2500 (Stopwatch_start 1000 Stopwatch_new)
      = Stopwatch_start 1000 Stopwatch_new"
    and t4: "swStartBtn_hidden (snd w)"
    and t5: "page_step ClickSwStart (fst w, snd w) = Some (fst w, snd w)"
    by blast+
  from U have t6: "page_run ([ClickSwStart] @ [ClickSwStart, Wait 1500, ClickSwStart]) (0, page_new)
       = page_run ([ClickSwStart] @ [ClickSwStart, Wait 1500]) (0, page_new)"
    by blast
  have c1: "t_startTime (Timer_start 2500 (Timer_start 1000 Timer_new)) = 1000"
    by (simp add: t1 a)
  have c2: "t_elapsedTime (Timer_update 3000 (Timer_start 2500 (Timer_start 1000 Timer_new))) = 2000"
    by (simp only: t2) (simp add: a)
  have c3: "t_warnings (Timer_start 2500 (Timer_start 1000 Timer_new)) = [''Timer is already running'']"
    by (simp add: t1 a)
  have c4: "s_startTime (Stopwatch_start 2500 (Stopwatch_start 1000 Stopwatch_new)) = 1000"
    by (simp add: t3 b)
  have c5: "page_step ClickSwStart w = Some w"
    using t5 by (simp only: prod.collapse)
  have "fst w = 2500 \<and> stopwatch_running (snd w) \<and> swStart (snd w) = 1000
           \<and> swStartBtn_hidden (snd w) \<and> page_step ClickSwStart w = Some w"
    using f t4 c5 by (intro conjI)
  then have c6: "case page_run ?evs (1000, page_new) of
         None \<Rightarrow> False
       | Some w \<Rightarrow>
           fst w = 2500 \<and> stopwatch_running (snd w) \<and> swStart (snd w) = 1000
           \<and> swStartBtn_hidden (snd w) \<and> page_step ClickSwStart w = Some w"
    unfolding r option.case .
  have c7: "map_option (\<lambda>w. swStart (snd w))
        (page_run ([ClickSwStart] @ [ClickSwStart, Wait 1500, ClickSwStart]) (0, page_new))
       = Some 0"
    unfolding t6 by (simp add: page_new_def swStartBtn_onclick_def setInterval_def)
  from c1 c2 c3 c4 c6 c7 show ?thesis by (intro conjI)
qed

end
